theory Spec2Isabelle
  imports Complex_Main "HOL-Library.Word"
begin

unbundle bit_operations_syntax

section \<open>Lahar: data model\<close>

text \<open>
  A shallow embedding of \<^verbatim>\<open>lahar.h\<close>. C structs are records, the frame-phase enum is a
  datatype, \<^verbatim>\<open>uint32_t\<close> is \<open>32 word\<close>, \<^verbatim>\<open>size_t\<close>/\<^verbatim>\<open>VkDeviceSize\<close> and \<^verbatim>\<open>int64_t\<close>
  are \<open>64 word\<close> (the latter read with \<open>sint\<close>). Vulkan enums (\<^verbatim>\<open>VkResult\<close>,
  \<^verbatim>\<open>VkImageLayout\<close>, \<^verbatim>\<open>VkFormat\<close>, ...) are \<open>int\<close> with the values of \<^verbatim>\<open>vulkan_core.h\<close>.
  A pointer or Vulkan handle is a \<open>nat\<close>; \<open>0\<close> is \<^verbatim>\<open>NULL\<close> / \<^verbatim>\<open>VK_NULL_HANDLE\<close>. A counted C array
  is a list whose length is the count. The \<^verbatim>\<open>Lahar*\<close> argument of every function is taken to
  point to the environment, whose value is passed in and returned.
\<close>

type_synonym u32 = "32 word"
type_synonym u64 = "64 word"
type_synonym handle = nat
type_synonym VkResult = int

subsection \<open>Error codes\<close>

definition LAHAR_ERR_SUCCESS :: u32 where "LAHAR_ERR_SUCCESS = 0"
definition LAHAR_ERR_ILLEGAL_PARAMS :: u32 where "LAHAR_ERR_ILLEGAL_PARAMS = 0x01000001"
definition LAHAR_ERR_LOAD_FAILURE :: u32 where "LAHAR_ERR_LOAD_FAILURE = 0x01000002"
definition LAHAR_ERR_INVALID_CONFIGURATION :: u32 where "LAHAR_ERR_INVALID_CONFIGURATION = 0x01000003"
definition LAHAR_ERR_MISSING_EXTENSION :: u32 where "LAHAR_ERR_MISSING_EXTENSION = 0x01000004"
definition LAHAR_ERR_NO_SUITABLE_DEVICE :: u32 where "LAHAR_ERR_NO_SUITABLE_DEVICE = 0x01000005"
definition LAHAR_ERR_DEPENDENCY_FAILED :: u32 where "LAHAR_ERR_DEPENDENCY_FAILED = 0x01000006"
definition LAHAR_ERR_ALLOC_FAILED :: u32 where "LAHAR_ERR_ALLOC_FAILED = 0x01000007"
definition LAHAR_ERR_INVALID_STATE :: u32 where "LAHAR_ERR_INVALID_STATE = 0x01000008"
definition LAHAR_ERR_VK_ERR :: u32 where "LAHAR_ERR_VK_ERR = 0x01000009"
definition LAHAR_ERR_INVALID_WINDOW :: u32 where "LAHAR_ERR_INVALID_WINDOW = 0x0100000A"
definition LAHAR_ERR_NO_COMMAND_BUFFER :: u32 where "LAHAR_ERR_NO_COMMAND_BUFFER = 0x0100000B"
definition LAHAR_ERR_TIMEOUT :: u32 where "LAHAR_ERR_TIMEOUT = 0x0100000C"
definition LAHAR_ERR_SWAPCHAIN_OUT_OF_DATE :: u32 where "LAHAR_ERR_SWAPCHAIN_OUT_OF_DATE = 0x0100000D"
definition LAHAR_ERR_INVALID_FRAME_STATE :: u32 where "LAHAR_ERR_INVALID_FRAME_STATE = 0x0100000E"
definition LAHAR_ERR_ATTACHMENT_WO_ALLOCATOR :: u32 where "LAHAR_ERR_ATTACHMENT_WO_ALLOCATOR = 0x0100000F"

definition LAHAR_MAX_DEVICE_ENTRIES :: nat where "LAHAR_MAX_DEVICE_ENTRIES = 16"
definition LAHAR_ATT_COLOR_INDEX :: nat where "LAHAR_ATT_COLOR_INDEX = 0"

subsection \<open>Constants of the Vulkan headers used by the code\<close>

definition VK_SUCCESS :: VkResult where "VK_SUCCESS = 0"
definition VK_SUBOPTIMAL_KHR :: VkResult where "VK_SUBOPTIMAL_KHR = 1000001003"
definition VK_ERROR_OUT_OF_DATE_KHR :: VkResult where "VK_ERROR_OUT_OF_DATE_KHR = - 1000001004"

definition VK_IMAGE_LAYOUT_UNDEFINED :: int where "VK_IMAGE_LAYOUT_UNDEFINED = 0"
definition VK_IMAGE_LAYOUT_COLOR_ATTACHMENT_OPTIMAL :: int where
  "VK_IMAGE_LAYOUT_COLOR_ATTACHMENT_OPTIMAL = 2"
definition VK_IMAGE_LAYOUT_DEPTH_STENCIL_ATTACHMENT_OPTIMAL :: int where
  "VK_IMAGE_LAYOUT_DEPTH_STENCIL_ATTACHMENT_OPTIMAL = 3"
definition VK_IMAGE_LAYOUT_SHADER_READ_ONLY_OPTIMAL :: int where
  "VK_IMAGE_LAYOUT_SHADER_READ_ONLY_OPTIMAL = 5"
definition VK_IMAGE_LAYOUT_TRANSFER_SRC_OPTIMAL :: int where
  "VK_IMAGE_LAYOUT_TRANSFER_SRC_OPTIMAL = 6"
definition VK_IMAGE_LAYOUT_TRANSFER_DST_OPTIMAL :: int where
  "VK_IMAGE_LAYOUT_TRANSFER_DST_OPTIMAL = 7"
definition VK_IMAGE_LAYOUT_PRESENT_SRC_KHR :: int where
  "VK_IMAGE_LAYOUT_PRESENT_SRC_KHR = 1000001002"

definition VK_ACCESS_SHADER_READ_BIT :: u32 where "VK_ACCESS_SHADER_READ_BIT = 0x20"
definition VK_ACCESS_COLOR_ATTACHMENT_READ_BIT :: u32 where
  "VK_ACCESS_COLOR_ATTACHMENT_READ_BIT = 0x80"
definition VK_ACCESS_COLOR_ATTACHMENT_WRITE_BIT :: u32 where
  "VK_ACCESS_COLOR_ATTACHMENT_WRITE_BIT = 0x100"
definition VK_ACCESS_DEPTH_STENCIL_ATTACHMENT_READ_BIT :: u32 where
  "VK_ACCESS_DEPTH_STENCIL_ATTACHMENT_READ_BIT = 0x200"
definition VK_ACCESS_DEPTH_STENCIL_ATTACHMENT_WRITE_BIT :: u32 where
  "VK_ACCESS_DEPTH_STENCIL_ATTACHMENT_WRITE_BIT = 0x400"
definition VK_ACCESS_TRANSFER_READ_BIT :: u32 where "VK_ACCESS_TRANSFER_READ_BIT = 0x800"
definition VK_ACCESS_TRANSFER_WRITE_BIT :: u32 where "VK_ACCESS_TRANSFER_WRITE_BIT = 0x1000"

definition VK_PIPELINE_STAGE_TOP_OF_PIPE_BIT :: u32 where
  "VK_PIPELINE_STAGE_TOP_OF_PIPE_BIT = 0x1"
definition VK_PIPELINE_STAGE_FRAGMENT_SHADER_BIT :: u32 where
  "VK_PIPELINE_STAGE_FRAGMENT_SHADER_BIT = 0x80"
definition VK_PIPELINE_STAGE_EARLY_FRAGMENT_TESTS_BIT :: u32 where
  "VK_PIPELINE_STAGE_EARLY_FRAGMENT_TESTS_BIT = 0x100"
definition VK_PIPELINE_STAGE_LATE_FRAGMENT_TESTS_BIT :: u32 where
  "VK_PIPELINE_STAGE_LATE_FRAGMENT_TESTS_BIT = 0x200"
definition VK_PIPELINE_STAGE_COLOR_ATTACHMENT_OUTPUT_BIT :: u32 where
  "VK_PIPELINE_STAGE_COLOR_ATTACHMENT_OUTPUT_BIT = 0x400"
definition VK_PIPELINE_STAGE_TRANSFER_BIT :: u32 where
  "VK_PIPELINE_STAGE_TRANSFER_BIT = 0x1000"
definition VK_PIPELINE_STAGE_BOTTOM_OF_PIPE_BIT :: u32 where
  "VK_PIPELINE_STAGE_BOTTOM_OF_PIPE_BIT = 0x2000"
definition VK_PIPELINE_STAGE_ALL_COMMANDS_BIT :: u32 where
  "VK_PIPELINE_STAGE_ALL_COMMANDS_BIT = 0x10000"

definition VK_IMAGE_ASPECT_COLOR_BIT :: u32 where "VK_IMAGE_ASPECT_COLOR_BIT = 0x1"
definition VK_IMAGE_ASPECT_DEPTH_BIT :: u32 where "VK_IMAGE_ASPECT_DEPTH_BIT = 0x2"
definition VK_IMAGE_ASPECT_STENCIL_BIT :: u32 where "VK_IMAGE_ASPECT_STENCIL_BIT = 0x4"

definition VK_IMAGE_USAGE_COLOR_ATTACHMENT_BIT :: u32 where
  "VK_IMAGE_USAGE_COLOR_ATTACHMENT_BIT = 0x10"
definition VK_IMAGE_USAGE_DEPTH_STENCIL_ATTACHMENT_BIT :: u32 where
  "VK_IMAGE_USAGE_DEPTH_STENCIL_ATTACHMENT_BIT = 0x20"

definition VK_FORMAT_B8G8R8A8_SRGB :: int where "VK_FORMAT_B8G8R8A8_SRGB = 50"
definition VK_FORMAT_D16_UNORM :: int where "VK_FORMAT_D16_UNORM = 124"
definition VK_FORMAT_D32_SFLOAT :: int where "VK_FORMAT_D32_SFLOAT = 126"
definition VK_FORMAT_S8_UINT :: int where "VK_FORMAT_S8_UINT = 127"
definition VK_FORMAT_D24_UNORM_S8_UINT :: int where "VK_FORMAT_D24_UNORM_S8_UINT = 129"
definition VK_FORMAT_D32_SFLOAT_S8_UINT :: int where "VK_FORMAT_D32_SFLOAT_S8_UINT = 130"
definition VK_COLORSPACE_SRGB_NONLINEAR_KHR :: int where "VK_COLORSPACE_SRGB_NONLINEAR_KHR = 0"

definition VK_PRESENT_MODE_MAILBOX_KHR :: int where "VK_PRESENT_MODE_MAILBOX_KHR = 1"
definition VK_PRESENT_MODE_FIFO_KHR :: int where "VK_PRESENT_MODE_FIFO_KHR = 2"

definition VK_SHARING_MODE_EXCLUSIVE :: int where "VK_SHARING_MODE_EXCLUSIVE = 0"
definition VK_SHARING_MODE_CONCURRENT :: int where "VK_SHARING_MODE_CONCURRENT = 1"
definition VK_COMPOSITE_ALPHA_OPAQUE_BIT_KHR :: u32 where "VK_COMPOSITE_ALPHA_OPAQUE_BIT_KHR = 0x1"
definition VK_STRUCTURE_TYPE_IMAGE_CREATE_INFO :: int where
  "VK_STRUCTURE_TYPE_IMAGE_CREATE_INFO = 14"

definition VK_PHYSICAL_DEVICE_TYPE_INTEGRATED_GPU :: int where
  "VK_PHYSICAL_DEVICE_TYPE_INTEGRATED_GPU = 1"
definition VK_PHYSICAL_DEVICE_TYPE_DISCRETE_GPU :: int where
  "VK_PHYSICAL_DEVICE_TYPE_DISCRETE_GPU = 2"
definition VK_QUEUE_GRAPHICS_BIT :: u32 where "VK_QUEUE_GRAPHICS_BIT = 0x1"
definition VK_MEMORY_HEAP_DEVICE_LOCAL_BIT :: u32 where "VK_MEMORY_HEAP_DEVICE_LOCAL_BIT = 0x1"

subsection \<open>Structs\<close>

datatype LaharFramePhase =
  LAHAR_FRAME_PHASE_BEGIN | LAHAR_FRAME_PHASE_DRAW | LAHAR_FRAME_PHASE_PRESENT

record VkSurfaceFormatKHR =
  format :: int
  colorSpace :: int

record VkMemoryHeap =
  heap_size :: u64
  heap_flags :: u32

text \<open>\<^verbatim>\<open>struct LaharDeviceInfo\<close>. Of \<^verbatim>\<open>properties\<close> the device type and name are kept, of
  \<^verbatim>\<open>memprops\<close> the heaps (\<^verbatim>\<open>memoryHeapCount\<close> is the length of the list).\<close>

record LaharDeviceInfo =
  physdev :: handle
  deviceType :: int
  deviceName :: string
  memoryHeaps :: "VkMemoryHeap list"
  surface_formats :: "VkSurfaceFormatKHR list"
  present_modes :: "int list"
  surface_fmt_count :: u32
  present_mode_count :: u32
  graphics_queue_index :: u32
  present_queue_index :: u32
  has_graphics_queue :: bool
  has_present_queue :: bool

text \<open>The fields of \<^verbatim>\<open>VkImageCreateInfo\<close> that the code reads or writes.\<close>

record VkImageCreateInfo =
  img_sType :: int
  extent_width :: u32
  extent_height :: u32
  extent_depth :: u32

text \<open>\<^verbatim>\<open>struct LaharAttachmentConfig\<close>: \<^verbatim>\<open>description\<close> and the rest of \<^verbatim>\<open>view_info\<close> are
  passed on verbatim and never read by the code modelled here.\<close>

record LaharAttachmentConfig =
  usage :: u32
  img_info :: VkImageCreateInfo
  view_info_image :: handle

record LaharAttachment =
  img_allocation :: handle
  image_h :: handle
  view :: handle
  layout :: int

record LaharWindowState =
  window :: handle
  width :: u32
  height :: u32
  desired_img_count :: u32
  max_in_flight :: u32
  frame_phase :: LaharFramePhase
  alpha :: u32
  auto_recreate_swap :: bool
  resize_callback :: handle
  surface_format :: VkSurfaceFormatKHR
  surface :: handle
  swapchain :: handle
  swap_size :: u32
  image_available :: "handle list"
  render_finished :: "handle list"
  in_flight :: "handle list"
  flight_index :: u32
  frame_index :: u32
  attachment_count :: u64
  attachment_configs :: "LaharAttachmentConfig list"
  attachments :: "LaharAttachment list list"
  commands :: "handle list"

text \<open>The anonymous \<^verbatim>\<open>extensions\<close> struct of \<^verbatim>\<open>Lahar\<close>: each list holds the first
  \<^verbatim>\<open>*_count\<close> entries of its array.\<close>

record LaharExtensions =
  req_inst_exts :: "string list"
  rie_cap :: nat
  req_dev_exts :: "string list"
  rde_cap :: nat
  opt_inst_exts :: "string list"
  opt_inst_exts_present :: "bool list"
  oie_cap :: nat
  opt_dev_exts :: "string list"
  opt_dev_exts_present :: "bool list"
  ode_cap :: nat

record Lahar =
  vkresult :: VkResult
  vkversion :: u32
  appversion :: u32
  wantvalidation :: bool
  wantcommands :: bool
  debug_callback :: handle
  user_data :: handle
  gpu_allocator :: handle
  device_name :: "string option"
  score_func :: handle
  format_chooser :: handle
  present_chooser :: handle
  instance_h :: handle
  debug_messenger :: handle
  physdev_info :: LaharDeviceInfo
  device :: handle
  graphicsQueue :: handle
  presentQueue :: handle
  pool :: handle
  windows :: "LaharWindowState list"
  window_cap :: nat
  extensions :: LaharExtensions


subsection \<open>Structs handed to Vulkan\<close>

record VkSurfaceCapabilitiesKHR =
  caps_minImageCount :: u32
  caps_maxImageCount :: u32
  caps_minImageExtent_width :: u32
  caps_minImageExtent_height :: u32
  caps_maxImageExtent_width :: u32
  caps_maxImageExtent_height :: u32
  caps_currentTransform :: u32

record VkSwapchainCreateInfoKHR =
  ci_surface :: handle
  ci_minImageCount :: u32
  ci_imageFormat :: int
  ci_imageColorSpace :: int
  ci_imageExtent_width :: u32
  ci_imageExtent_height :: u32
  ci_imageUsage :: u32
  ci_imageSharingMode :: int
  ci_queueFamilyIndexCount :: u32
  ci_pQueueFamilyIndices :: "u32 list"
  ci_preTransform :: u32
  ci_compositeAlpha :: u32
  ci_presentMode :: int

record VkImageMemoryBarrier =
  srcAccessMask :: u32
  dstAccessMask :: u32
  oldLayout :: int
  newLayout :: int
  barrier_image :: handle
  aspectMask :: u32

section \<open>The world outside the library\<close>

text \<open>
  Every call that leaves the library (a Vulkan entry point, one of the three window-backend
  functions, a user callback, the allocator) is appended to a trace, newest first. What such a
  call returns is not determined by the code: it is read from an environment of responses, each
  a function of the trace up to and including the call, so that the same entry point may answer
  differently each time. An out-parameter that the callee may leave unwritten is an option.
  Entry points are assumed to be loaded (non-null function pointers); \<^verbatim>\<open>lahar_malloc\<close> results
  that the code does not check and the scratch arena are assumed not to fail.
\<close>

datatype vk_call =
    WaitForFences "handle list"
  | AcquireNextImageKHR handle handle
  | ResetFences "handle list"
  | QueueSubmit handle handle u32 "handle list option" u32 handle handle
  | QueuePresentKHR handle handle handle u32
  | CmdPipelineBarrier handle u32 u32 VkImageMemoryBarrier
  | DestroyImageView handle
  | FreeImage handle handle handle
  | DestroySwapchainKHR handle
  | GetPhysicalDeviceSurfaceCapabilitiesKHR handle handle
  | ChooseFormat handle
  | ChoosePresentMode handle
  | WindowGetSize handle
  | CreateSwapchainKHR VkSwapchainCreateInfoKHR
  | GetSwapchainImagesKHR handle
  | CreateImageView handle int
  | AllocImage handle VkImageCreateInfo
  | AllocateCommandBuffers handle u32
  | ResizeCallback handle handle
  | CreateSemaphore
  | CreateFence
  | WindowGetExtensions handle
  | EnumerateInstanceExtensionProperties
  | EnumerateInstanceLayerProperties
  | CreateInstance "string list" bool
  | EnumerateInstanceVersion
  | CreateDebugUtilsMessengerEXT
  | WindowSurfaceCreate handle
  | EnumeratePhysicalDevices
  | GetPhysicalDeviceProperties handle
  | GetPhysicalDeviceQueueFamilyProperties handle
  | GetPhysicalDeviceSurfaceSupportKHR handle u32 handle
  | GetPhysicalDeviceSurfaceFormatsKHR handle handle
  | GetPhysicalDeviceSurfacePresentModesKHR handle handle
  | ScoreFunc handle handle
  | DebugMessage string
  | EnumerateDeviceLayerProperties handle
  | CreateDevice handle u32 bool
  | GetDeviceQueue u32
  | CreateCommandPool u32
  | Malloc
  | DeviceWaitIdle
  | Destroy

type_synonym trace = "vk_call list"

record vk_env =
  r_vkWaitForFences :: "trace \<Rightarrow> VkResult"
  r_vkAcquireNextImageKHR :: "trace \<Rightarrow> VkResult \<times> u32 option"
  r_vkQueueSubmit :: "trace \<Rightarrow> VkResult"
  r_vkQueuePresentKHR :: "trace \<Rightarrow> VkResult"
  r_vkGetPhysicalDeviceSurfaceCapabilitiesKHR :: "trace \<Rightarrow> VkResult \<times> VkSurfaceCapabilitiesKHR"
  r_format_chooser :: "trace \<Rightarrow> u32 \<times> VkSurfaceFormatKHR option"
  r_present_chooser :: "trace \<Rightarrow> u32 \<times> int option"
  r_lahar_window_get_size :: "trace \<Rightarrow> u32 \<times> u32 \<times> u32"
  r_vkCreateSwapchainKHR :: "trace \<Rightarrow> VkResult \<times> handle option"
  r_vkGetSwapchainImagesKHR :: "trace \<Rightarrow> handle list"
  r_vkCreateImageView :: "trace \<Rightarrow> VkResult \<times> handle option"
  r_alloc_image :: "trace \<Rightarrow> u32 \<times> handle option \<times> handle option"
  r_vkAllocateCommandBuffers :: "trace \<Rightarrow> VkResult \<times> handle list"
  r_resize_callback :: "trace \<Rightarrow> Lahar \<Rightarrow> u32 \<times> Lahar"
  r_vkCreateSemaphore :: "trace \<Rightarrow> VkResult \<times> handle option"
  r_vkCreateFence :: "trace \<Rightarrow> VkResult \<times> handle option"
  r_lahar_window_get_extensions :: "trace \<Rightarrow> u32 \<times> string list"
  r_vkEnumerateInstanceExtensionProperties :: "trace \<Rightarrow> VkResult \<times> string list"
  r_vkEnumerateInstanceLayerProperties :: "trace \<Rightarrow> VkResult \<times> string list"
  r_vkCreateInstance :: "trace \<Rightarrow> VkResult \<times> handle option"
  r_vkEnumerateInstanceVersion :: "trace \<Rightarrow> (VkResult \<times> u32 option) option"
  r_vkCreateDebugUtilsMessengerEXT :: "trace \<Rightarrow> VkResult \<times> handle option"
  r_lahar_window_surface_create :: "trace \<Rightarrow> u32 \<times> handle option"
  r_vkEnumeratePhysicalDevices :: "trace \<Rightarrow> VkResult \<times> handle list"
  r_vkGetPhysicalDeviceProperties :: "trace \<Rightarrow> int \<times> string"
  r_vkGetPhysicalDeviceQueueFamilyProperties :: "trace \<Rightarrow> u32 list"
  r_vkGetPhysicalDeviceSurfaceSupportKHR :: "trace \<Rightarrow> bool"
  r_vkGetPhysicalDeviceSurfaceFormatsKHR :: "trace \<Rightarrow> VkSurfaceFormatKHR list"
  r_vkGetPhysicalDeviceSurfacePresentModesKHR :: "trace \<Rightarrow> int list"
  r_score_func :: "trace \<Rightarrow> u64"
  r_vkEnumerateDeviceLayerProperties :: "trace \<Rightarrow> string list"
  r_vkCreateDevice :: "trace \<Rightarrow> VkResult \<times> handle option"
  r_vkGetDeviceQueue :: "trace \<Rightarrow> handle"
  r_vkCreateCommandPool :: "trace \<Rightarrow> VkResult \<times> handle option"
  r_lahar_malloc :: "trace \<Rightarrow> bool"

text \<open>What a function of the library yields: \<open>None\<close> when the C code does not return (undefined
  behaviour such as an index out of range or a division by zero, a failed \<^verbatim>\<open>LAHAR_ASSERT\<close>, or
  endless recursion), otherwise the result code, the trace and the environment as left behind.\<close>

type_synonym lahar_result = "(u32 \<times> trace \<times> Lahar) option"

section \<open>Window lookup\<close>

text \<open>\<^verbatim>\<open>lahar_window_state\<close>: the first registered window state with the given handle. The C
  function returns a pointer into \<^verbatim>\<open>lahar->windows\<close>; the model returns the index, and
  \<open>lahar_window_state\<close> the state at it.\<close>

fun window_state_index :: "LaharWindowState list \<Rightarrow> handle \<Rightarrow> nat option" where
  "window_state_index [] w = None"
| "window_state_index (s # ss) w =
     (if window s = w then Some 0 else map_option Suc (window_state_index ss w))"

definition lahar_window_state :: "Lahar \<Rightarrow> handle \<Rightarrow> LaharWindowState option" where
  "lahar_window_state lahar w =
     map_option (\<lambda>i. windows lahar ! i) (window_state_index (windows lahar) w)"

definition set_window_state :: "Lahar \<Rightarrow> nat \<Rightarrow> LaharWindowState \<Rightarrow> Lahar" where
  "set_window_state lahar i ws = lahar\<lparr>windows := (windows lahar)[i := ws]\<rparr>"

section \<open>Frame lifecycle\<close>

text \<open>\<^verbatim>\<open>lahar_window_submit_all\<close> (lines 3809-3840). \<open>cmds\<close> is \<open>None\<close> for a null pointer.\<close>

definition lahar_window_submit_all ::
  "vk_env \<Rightarrow> trace \<Rightarrow> Lahar \<Rightarrow> handle \<Rightarrow> handle list option \<Rightarrow> u32 \<Rightarrow> lahar_result" where
  "lahar_window_submit_all env h lahar w cmds cmd_count =
     (if w = 0 \<or> cmds = None \<or> cmd_count = 0 then Some (LAHAR_ERR_ILLEGAL_PARAMS, h, lahar)
      else case window_state_index (windows lahar) w of
        None \<Rightarrow> Some (LAHAR_ERR_INVALID_WINDOW, h, lahar)
      | Some i \<Rightarrow>
          let winstate = windows lahar ! i in
          if frame_phase winstate \<noteq> LAHAR_FRAME_PHASE_DRAW
          then Some (LAHAR_ERR_INVALID_FRAME_STATE, h, lahar)
          else
            let fi = unat (flight_index winstate) in
            if \<not> (fi < length (image_available winstate) \<and> fi < length (render_finished winstate)
                   \<and> fi < length (in_flight winstate))
            then None
            else
              let h1 = QueueSubmit (graphicsQueue lahar) (image_available winstate ! fi)
                         VK_PIPELINE_STAGE_COLOR_ATTACHMENT_OUTPUT_BIT cmds cmd_count
                         (render_finished winstate ! fi) (in_flight winstate ! fi) # h;
                  res = r_vkQueueSubmit env h1;
                  lahar1 = lahar\<lparr>vkresult := res\<rparr>
              in if res \<noteq> VK_SUCCESS then Some (LAHAR_ERR_VK_ERR, h1, lahar1)
                 else Some (LAHAR_ERR_SUCCESS, h1,
                        set_window_state lahar1 i
                          (winstate\<lparr>frame_phase := LAHAR_FRAME_PHASE_PRESENT\<rparr>)))"

text \<open>\<^verbatim>\<open>lahar_window_submit\<close> (lines 3842-3844) passes the address of its argument and 1.\<close>

definition lahar_window_submit :: "vk_env \<Rightarrow> trace \<Rightarrow> Lahar \<Rightarrow> handle \<Rightarrow> handle \<Rightarrow> lahar_result" where
  "lahar_window_submit env h lahar w cmd = lahar_window_submit_all env h lahar w (Some [cmd]) 1"

text \<open>\<^verbatim>\<open>lahar_window_present\<close> (lines 3847-3878). The modulo is a division by zero when
  \<^verbatim>\<open>max_in_flight\<close> is 0.\<close>

definition lahar_window_present :: "vk_env \<Rightarrow> trace \<Rightarrow> Lahar \<Rightarrow> handle \<Rightarrow> lahar_result" where
  "lahar_window_present env h lahar w =
     (case window_state_index (windows lahar) w of
        None \<Rightarrow> Some (LAHAR_ERR_INVALID_WINDOW, h, lahar)
      | Some i \<Rightarrow>
          let winstate = windows lahar ! i in
          if frame_phase winstate = LAHAR_FRAME_PHASE_BEGIN
          then Some (LAHAR_ERR_INVALID_FRAME_STATE, h, lahar)
          else if frame_phase winstate = LAHAR_FRAME_PHASE_DRAW
          then Some (LAHAR_ERR_NO_COMMAND_BUFFER, h, lahar)
          else
            let fi = unat (flight_index winstate) in
            if \<not> fi < length (render_finished winstate) then None
            else
              let h1 = QueuePresentKHR (presentQueue lahar) (render_finished winstate ! fi)
                         (swapchain winstate) (frame_index winstate) # h;
                  res = r_vkQueuePresentKHR env h1;
                  lahar1 = lahar\<lparr>vkresult := res\<rparr>
              in if res \<noteq> VK_SUCCESS then Some (LAHAR_ERR_VK_ERR, h1, lahar1)
                 else if max_in_flight winstate = 0 then None
                 else Some (LAHAR_ERR_SUCCESS, h1,
                        set_window_state lahar1 i
                          (winstate\<lparr>flight_index :=
                                      (flight_index winstate + 1) mod max_in_flight winstate,
                                    frame_phase := LAHAR_FRAME_PHASE_BEGIN\<rparr>)))"

section \<open>Attachment layout transitions\<close>

text \<open>\<^verbatim>\<open>__lahar_access_mask\<close> (lines 3881-3900).\<close>

definition lahar_access_mask :: "int \<Rightarrow> u32" where
  "lahar_access_mask l =
     (if l = VK_IMAGE_LAYOUT_UNDEFINED then 0
      else if l = VK_IMAGE_LAYOUT_PRESENT_SRC_KHR then 0
      else if l = VK_IMAGE_LAYOUT_COLOR_ATTACHMENT_OPTIMAL
        then VK_ACCESS_COLOR_ATTACHMENT_READ_BIT OR VK_ACCESS_COLOR_ATTACHMENT_WRITE_BIT
      else if l = VK_IMAGE_LAYOUT_DEPTH_STENCIL_ATTACHMENT_OPTIMAL
        then VK_ACCESS_DEPTH_STENCIL_ATTACHMENT_READ_BIT
               OR VK_ACCESS_DEPTH_STENCIL_ATTACHMENT_WRITE_BIT
      else if l = VK_IMAGE_LAYOUT_SHADER_READ_ONLY_OPTIMAL then VK_ACCESS_SHADER_READ_BIT
      else if l = VK_IMAGE_LAYOUT_TRANSFER_SRC_OPTIMAL then VK_ACCESS_TRANSFER_READ_BIT
      else if l = VK_IMAGE_LAYOUT_TRANSFER_DST_OPTIMAL then VK_ACCESS_TRANSFER_WRITE_BIT
      else 0)"

text \<open>\<^verbatim>\<open>__lahar_pipeline_stage\<close> (lines 3902-3920).\<close>

definition lahar_pipeline_stage :: "int \<Rightarrow> u32" where
  "lahar_pipeline_stage l =
     (if l = VK_IMAGE_LAYOUT_UNDEFINED then VK_PIPELINE_STAGE_TOP_OF_PIPE_BIT
      else if l = VK_IMAGE_LAYOUT_PRESENT_SRC_KHR then VK_PIPELINE_STAGE_BOTTOM_OF_PIPE_BIT
      else if l = VK_IMAGE_LAYOUT_COLOR_ATTACHMENT_OPTIMAL
        then VK_PIPELINE_STAGE_COLOR_ATTACHMENT_OUTPUT_BIT
      else if l = VK_IMAGE_LAYOUT_DEPTH_STENCIL_ATTACHMENT_OPTIMAL
        then VK_PIPELINE_STAGE_EARLY_FRAGMENT_TESTS_BIT OR VK_PIPELINE_STAGE_LATE_FRAGMENT_TESTS_BIT
      else if l = VK_IMAGE_LAYOUT_SHADER_READ_ONLY_OPTIMAL
        then VK_PIPELINE_STAGE_FRAGMENT_SHADER_BIT
      else if l = VK_IMAGE_LAYOUT_TRANSFER_SRC_OPTIMAL \<or> l = VK_IMAGE_LAYOUT_TRANSFER_DST_OPTIMAL
        then VK_PIPELINE_STAGE_TRANSFER_BIT
      else VK_PIPELINE_STAGE_ALL_COMMANDS_BIT)"

text \<open>\<^verbatim>\<open>__lahar_aspect_mask_from_usage\<close> (lines 3922-3939).\<close>

definition lahar_aspect_mask_from_usage :: "u32 \<Rightarrow> int \<Rightarrow> u32" where
  "lahar_aspect_mask_from_usage usg fmt =
     (if usg AND VK_IMAGE_USAGE_DEPTH_STENCIL_ATTACHMENT_BIT \<noteq> 0 then
        (if fmt = VK_FORMAT_D24_UNORM_S8_UINT \<or> fmt = VK_FORMAT_D32_SFLOAT_S8_UINT
           then VK_IMAGE_ASPECT_DEPTH_BIT OR VK_IMAGE_ASPECT_STENCIL_BIT
         else if fmt = VK_FORMAT_D16_UNORM \<or> fmt = VK_FORMAT_D32_SFLOAT
           then VK_IMAGE_ASPECT_DEPTH_BIT
         else if fmt = VK_FORMAT_S8_UINT then VK_IMAGE_ASPECT_STENCIL_BIT
         else VK_IMAGE_ASPECT_DEPTH_BIT)
      else VK_IMAGE_ASPECT_COLOR_BIT)"

text \<open>The barrier and the two stage masks that \<^verbatim>\<open>lahar_window_attachment_transition\<close> builds
  (lines 3953-3973) for an attachment and a target layout.\<close>

definition transition_barrier ::
  "LaharWindowState \<Rightarrow> LaharAttachmentConfig \<Rightarrow> LaharAttachment \<Rightarrow> int \<Rightarrow> VkImageMemoryBarrier" where
  "transition_barrier winstate conf attachment l =
     \<lparr> srcAccessMask = lahar_access_mask (layout attachment),
       dstAccessMask = lahar_access_mask (layout attachment),
       oldLayout = layout attachment,
       newLayout = l,
       barrier_image = image_h attachment,
       aspectMask = lahar_aspect_mask_from_usage (usage conf) (format (surface_format winstate)) \<rparr>"

definition transition_srcStage :: "LaharAttachment \<Rightarrow> int \<Rightarrow> u32" where
  "transition_srcStage attachment l = lahar_pipeline_stage (layout attachment)"

definition transition_dstStage :: "LaharAttachment \<Rightarrow> int \<Rightarrow> u32" where
  "transition_dstStage attachment l = lahar_pipeline_stage (layout attachment)"

text \<open>\<^verbatim>\<open>lahar_window_attachment_transition\<close> (lines 3941-3987). The attachment is
  \<^verbatim>\<open>winstate->attachments[attachment_index][winstate->frame_index]\<close>; reading outside either
  array (or the null rows of a window that was never built) is undefined.\<close>

definition lahar_window_attachment_transition ::
  "trace \<Rightarrow> Lahar \<Rightarrow> handle \<Rightarrow> u32 \<Rightarrow> int \<Rightarrow> handle \<Rightarrow> lahar_result" where
  "lahar_window_attachment_transition h lahar w attachment_index l cmd =
     (if w = 0 \<or> cmd = 0 then Some (LAHAR_ERR_ILLEGAL_PARAMS, h, lahar)
      else case window_state_index (windows lahar) w of
        None \<Rightarrow> Some (LAHAR_ERR_INVALID_WINDOW, h, lahar)
      | Some i \<Rightarrow>
          let winstate = windows lahar ! i in
          if (ucast attachment_index :: u64) \<ge> attachment_count winstate
          then Some (LAHAR_ERR_ILLEGAL_PARAMS, h, lahar)
          else
            let ai = unat attachment_index; fi = unat (frame_index winstate) in
            if \<not> (ai < length (attachments winstate) \<and> fi < length (attachments winstate ! ai)
                   \<and> ai < length (attachment_configs winstate))
            then None
            else
              let attachment = attachments winstate ! ai ! fi;
                  conf = attachment_configs winstate ! ai
              in if layout attachment \<noteq> l then
                   Some (LAHAR_ERR_SUCCESS,
                     CmdPipelineBarrier cmd (transition_srcStage attachment l)
                       (transition_dstStage attachment l)
                       (transition_barrier winstate conf attachment l) # h,
                     set_window_state lahar i
                       (winstate\<lparr>attachments := (attachments winstate)
                          [ai := (attachments winstate ! ai)[fi := attachment\<lparr>layout := l\<rparr>]]\<rparr>))
                 else Some (LAHAR_ERR_SUCCESS, h, lahar))"

text \<open>The layout recorded for the attachment that a transition of index \<open>ai\<close> addresses.\<close>

definition attachment_layout :: "LaharWindowState \<Rightarrow> u32 \<Rightarrow> int" where
  "attachment_layout ws ai = layout (attachments ws ! unat ai ! unat (frame_index ws))"

section \<open>Swapchain creation and recreation\<close>

text \<open>Inside a function a step either leaves through \<^verbatim>\<open>goto end\<close> with a result code
  (\<open>Inl\<close>) or goes on (\<open>Inr\<close>); \<open>None\<close> is undefined behaviour, as for \<open>lahar_result\<close>.\<close>

type_synonym step = "((u32 \<times> trace \<times> Lahar) + (trace \<times> Lahar)) option"

text \<open>An out-parameter that points into the state keeps its old value when the callee does
  not write it.\<close>

definition written :: "'a option \<Rightarrow> 'a \<Rightarrow> 'a" where
  "written v old = (case v of None \<Rightarrow> old | Some x \<Rightarrow> x)"

text \<open>\<^verbatim>\<open>__lahar_default_surface_format_chooser\<close> (lines 2300-2313): the first of the first
  \<^verbatim>\<open>surface_fmt_count\<close> formats that is B8G8R8A8_SRGB / SRGB_NONLINEAR, else entry 0. The
  outer \<open>None\<close> is a read past the array.\<close>

fun scan_surface_formats :: "nat \<Rightarrow> VkSurfaceFormatKHR list \<Rightarrow> VkSurfaceFormatKHR option option" where
  "scan_surface_formats 0 fs = Some None"
| "scan_surface_formats (Suc n) [] = None"
| "scan_surface_formats (Suc n) (f # fs) =
     (if format f = VK_FORMAT_B8G8R8A8_SRGB \<and> colorSpace f = VK_COLORSPACE_SRGB_NONLINEAR_KHR
      then Some (Some f) else scan_surface_formats n fs)"

definition lahar_default_surface_format_chooser :: "LaharDeviceInfo \<Rightarrow> VkSurfaceFormatKHR option" where
  "lahar_default_surface_format_chooser info =
     (case scan_surface_formats (unat (surface_fmt_count info)) (surface_formats info) of
        None \<Rightarrow> None
      | Some (Some f) \<Rightarrow> Some f
      | Some None \<Rightarrow> (case surface_formats info of [] \<Rightarrow> None | f # _ \<Rightarrow> Some f))"

text \<open>\<^verbatim>\<open>__lahar_default_surface_present_mode_chooser\<close> (lines 2315-2327).\<close>

fun scan_present_modes :: "nat \<Rightarrow> int list \<Rightarrow> bool option" where
  "scan_present_modes 0 ms = Some False"
| "scan_present_modes (Suc n) [] = None"
| "scan_present_modes (Suc n) (m # ms) =
     (if m = VK_PRESENT_MODE_MAILBOX_KHR then Some True else scan_present_modes n ms)"

definition lahar_default_surface_present_mode_chooser :: "LaharDeviceInfo \<Rightarrow> int option" where
  "lahar_default_surface_present_mode_chooser info =
     (case scan_present_modes (unat (present_mode_count info)) (present_modes info) of
        None \<Rightarrow> None
      | Some True \<Rightarrow> Some VK_PRESENT_MODE_MAILBOX_KHR
      | Some False \<Rightarrow> Some VK_PRESENT_MODE_FIFO_KHR)"

text \<open>The call through \<^verbatim>\<open>choose_format\<close> / \<^verbatim>\<open>choose_mode\<close>: the user's callback when one is
  set (its answer comes from the environment), the default otherwise. The result is the code
  and what was written through the out-pointer.\<close>

definition choose_format ::
  "vk_env \<Rightarrow> trace \<Rightarrow> Lahar \<Rightarrow> (u32 \<times> VkSurfaceFormatKHR option \<times> trace) option" where
  "choose_format env h lahar =
     (if format_chooser lahar \<noteq> 0 then
        (let h1 = ChooseFormat (format_chooser lahar) # h
         in Some (fst (r_format_chooser env h1), snd (r_format_chooser env h1), h1))
      else map_option (\<lambda>f. (LAHAR_ERR_SUCCESS, Some f, h))
             (lahar_default_surface_format_chooser (physdev_info lahar)))"

definition choose_mode ::
  "vk_env \<Rightarrow> trace \<Rightarrow> Lahar \<Rightarrow> (u32 \<times> int option \<times> trace) option" where
  "choose_mode env h lahar =
     (if present_chooser lahar \<noteq> 0 then
        (let h1 = ChoosePresentMode (present_chooser lahar) # h
         in Some (fst (r_present_chooser env h1), snd (r_present_chooser env h1), h1))
      else map_option (\<lambda>m. (LAHAR_ERR_SUCCESS, Some m, h))
             (lahar_default_surface_present_mode_chooser (physdev_info lahar)))"

text \<open>The \<^verbatim>\<open>VkSwapchainCreateInfoKHR\<close> initialiser (lines 3533-3547, and 2397-2409 in the
  resizer); extent, present mode and image count are filled in afterwards.\<close>

definition swapchain_create_info ::
  "Lahar \<Rightarrow> LaharWindowState \<Rightarrow> LaharAttachmentConfig \<Rightarrow> VkSurfaceCapabilitiesKHR
     \<Rightarrow> VkSwapchainCreateInfoKHR" where
  "swapchain_create_info lahar winstate color_conf surface_caps =
     \<lparr> ci_surface = surface winstate,
       ci_minImageCount = 0,
       ci_imageFormat = format (surface_format winstate),
       ci_imageColorSpace = colorSpace (surface_format winstate),
       ci_imageExtent_width = 0,
       ci_imageExtent_height = 0,
       ci_imageUsage = (if usage color_conf \<noteq> 0 then usage color_conf
                        else VK_IMAGE_USAGE_COLOR_ATTACHMENT_BIT),
       ci_imageSharingMode =
         (if graphics_queue_index (physdev_info lahar) = present_queue_index (physdev_info lahar)
          then VK_SHARING_MODE_EXCLUSIVE else VK_SHARING_MODE_CONCURRENT),
       ci_queueFamilyIndexCount =
         (if graphics_queue_index (physdev_info lahar) = present_queue_index (physdev_info lahar)
          then 0 else 2),
       ci_pQueueFamilyIndices =
         [graphics_queue_index (physdev_info lahar), present_queue_index (physdev_info lahar)],
       ci_preTransform = caps_currentTransform surface_caps,
       ci_compositeAlpha = (if alpha winstate \<noteq> 0 then alpha winstate
                            else VK_COMPOSITE_ALPHA_OPAQUE_BIT_KHR),
       ci_presentMode = 0 \<rparr>"

text \<open>The two clamps (lines 3553-3565 and 3571-3578).\<close>

definition clamp_extent :: "u32 \<Rightarrow> u32 \<Rightarrow> u32 \<Rightarrow> u32" where
  "clamp_extent x lo hi = (if x > hi then hi else if x < lo then lo else x)"

definition clamp_image_count :: "VkSurfaceCapabilitiesKHR \<Rightarrow> u32 \<Rightarrow> u32" where
  "clamp_image_count surface_caps image_count =
     (if caps_maxImageCount surface_caps > 0 \<and> image_count > caps_maxImageCount surface_caps
        then caps_maxImageCount surface_caps
      else if caps_minImageCount surface_caps > 0 \<and> image_count < caps_minImageCount surface_caps
        then caps_minImageCount surface_caps
      else image_count)"

text \<open>The statement that opens both swapchain paths (lines 3515-3517 and 2383-2385).\<close>

definition normalize_img_count :: "LaharWindowState \<Rightarrow> LaharWindowState" where
  "normalize_img_count winstate =
     (if desired_img_count winstate = 0 then winstate\<lparr>desired_img_count := 2\<rparr> else winstate)"

text \<open>
  From the normalisation of \<^verbatim>\<open>desired_img_count\<close> to the point just before
  \<^verbatim>\<open>vkCreateSwapchainKHR\<close>: lines 3515-3580 of \<^verbatim>\<open>__lahar_build_swapchain\<close> and lines 2383-2442
  of \<^verbatim>\<open>__lahar_default_resizer\<close>, which differ only in that the resizer replaces a chooser's
  error code by VK_ERR (\<open>recreate\<close>). On \<open>Inr\<close> the create-info is ready to be passed.
\<close>

definition swapchain_prepare ::
  "bool \<Rightarrow> vk_env \<Rightarrow> nat \<Rightarrow> trace \<Rightarrow> Lahar
     \<Rightarrow> ((u32 \<times> trace \<times> Lahar) + (VkSwapchainCreateInfoKHR \<times> trace \<times> Lahar)) option" where
  "swapchain_prepare recreate env wi h lahar =
     (let lahar0 = set_window_state lahar wi (normalize_img_count (windows lahar ! wi));
          h1 = GetPhysicalDeviceSurfaceCapabilitiesKHR (physdev (physdev_info lahar0))
                 (surface (windows lahar0 ! wi)) # h;
          res = fst (r_vkGetPhysicalDeviceSurfaceCapabilitiesKHR env h1);
          surface_caps = snd (r_vkGetPhysicalDeviceSurfaceCapabilitiesKHR env h1);
          lahar1 = lahar0\<lparr>vkresult := res\<rparr>
      in if res \<noteq> 0 then Some (Inl (LAHAR_ERR_VK_ERR, h1, lahar1))
      else case choose_format env h1 lahar1 of
        None \<Rightarrow> None
      | Some (err, fmt, h2) \<Rightarrow>
          let lahar2 = set_window_state lahar1 wi
                ((windows lahar1 ! wi)
                   \<lparr>surface_format := written fmt (surface_format (windows lahar1 ! wi))\<rparr>)
          in if err \<noteq> 0
             then Some (Inl (if recreate then LAHAR_ERR_VK_ERR else err, h2, lahar2))
          else case attachment_configs (windows lahar2 ! wi) of
            [] \<Rightarrow> None
          | color_conf # _ \<Rightarrow>
              let winstate = windows lahar2 ! wi;
                  create_info = swapchain_create_info lahar2 winstate color_conf surface_caps;
                  h3 = WindowGetSize (window winstate) # h2;
                  size = r_lahar_window_get_size env h3
              in if fst size \<noteq> 0 then Some (Inl (fst size, h3, lahar2))
              else
                let create_info1 = create_info
                      \<lparr> ci_imageExtent_width :=
                          clamp_extent (fst (snd size)) (caps_minImageExtent_width surface_caps)
                            (caps_maxImageExtent_width surface_caps),
                        ci_imageExtent_height :=
                          clamp_extent (snd (snd size)) (caps_minImageExtent_height surface_caps)
                            (caps_maxImageExtent_height surface_caps) \<rparr>
                in case choose_mode env h3 lahar2 of
                  None \<Rightarrow> None
                | Some (err2, mode, h4) \<Rightarrow>
                    let create_info2 = create_info1
                          \<lparr>ci_presentMode := written mode (ci_presentMode create_info1)\<rparr>
                    in if err2 \<noteq> 0 then Some (Inl (err2, h4, lahar2))
                    else Some (Inr
                      (create_info2
                         \<lparr>ci_minImageCount :=
                            clamp_image_count surface_caps (desired_img_count winstate)\<rparr>,
                       h4, lahar2)))"

text \<open>The loop that creates one view per swapchain image for the colour attachment (lines
  3600-3628; lines 2458-2487 in the resizer, which also resets the layout). \<open>j\<close> is the loop
  index and \<open>n\<close> the number of iterations left.\<close>

fun create_color_views ::
  "bool \<Rightarrow> vk_env \<Rightarrow> nat \<Rightarrow> handle list \<Rightarrow> nat \<Rightarrow> nat \<Rightarrow> trace \<Rightarrow> Lahar \<Rightarrow> step" where
  "create_color_views recreate env wi swap_imgs j 0 h lahar = Some (Inr (h, lahar))"
| "create_color_views recreate env wi swap_imgs j (Suc n) h lahar =
     (if \<not> j < length swap_imgs then None
      else
        let winstate = windows lahar ! wi;
            h1 = CreateImageView (swap_imgs ! j) (format (surface_format winstate)) # h;
            res = fst (r_vkCreateImageView env h1);
            lahar1 = lahar\<lparr>vkresult := res\<rparr>
        in if res \<noteq> VK_SUCCESS then Some (Inl (LAHAR_ERR_VK_ERR, h1, lahar1))
        else case (snd (r_vkCreateImageView env h1), attachments winstate) of
          (Some v, color_row # rest) \<Rightarrow>
            if \<not> j < length color_row then None
            else
              let a = (color_row ! j)\<lparr>image_h := swap_imgs ! j, view := v\<rparr>;
                  a1 = (if recreate then a\<lparr>layout := VK_IMAGE_LAYOUT_UNDEFINED\<rparr> else a)
              in create_color_views recreate env wi swap_imgs (Suc j) n h1
                   (set_window_state lahar1 wi
                      (winstate\<lparr>attachments := color_row[j := a1] # rest\<rparr>))
        | _ \<Rightarrow> None)"

text \<open>The inner loop over the swapchain slots of one extra attachment (lines 3650-3669; lines
  2509-2531 in the resizer): allocate the image through the allocator, then create its view.\<close>

fun alloc_attachment_row ::
  "bool \<Rightarrow> vk_env \<Rightarrow> nat \<Rightarrow> nat \<Rightarrow> nat \<Rightarrow> nat \<Rightarrow> trace \<Rightarrow> Lahar \<Rightarrow> step" where
  "alloc_attachment_row recreate env wi j k 0 h lahar = Some (Inr (h, lahar))"
| "alloc_attachment_row recreate env wi j k (Suc n) h lahar =
     (let winstate = windows lahar ! wi in
      if \<not> (j < length (attachments winstate) \<and> k < length (attachments winstate ! j)
             \<and> j < length (attachment_configs winstate))
      then None
      else
        let attachment = attachments winstate ! j ! k;
            attachment_config = attachment_configs winstate ! j;
            h1 = AllocImage (gpu_allocator lahar) (img_info attachment_config) # h;
            r = r_alloc_image env h1;
            attachment1 = attachment
              \<lparr> image_h := written (fst (snd r)) (image_h attachment),
                img_allocation := written (snd (snd r)) (img_allocation attachment) \<rparr>;
            lahar1 = set_window_state lahar wi
              (winstate\<lparr>attachments := (attachments winstate)
                          [j := (attachments winstate ! j)[k := attachment1]]\<rparr>)
        in if fst r \<noteq> 0 then Some (Inl (fst r, h1, lahar1))
        else
          let attachment_config1 = attachment_config\<lparr>view_info_image := image_h attachment1\<rparr>;
              h2 = CreateImageView (image_h attachment1) 0 # h1;
              res = fst (r_vkCreateImageView env h2);
              attachment2 = attachment1\<lparr>view := written (snd (r_vkCreateImageView env h2))
                                                  (view attachment1)\<rparr>;
              winstate2 = winstate
                \<lparr> attachment_configs := (attachment_configs winstate)[j := attachment_config1],
                  attachments := (attachments winstate)
                    [j := (attachments winstate ! j)[k := attachment2]] \<rparr>;
              lahar2 = (set_window_state lahar wi winstate2)\<lparr>vkresult := res\<rparr>
          in if res \<noteq> 0 then Some (Inl (LAHAR_ERR_VK_ERR, h2, lahar2))
          else
            let winstate3 =
                  (if recreate
                   then winstate2\<lparr>attachments := (attachments winstate)
                          [j := (attachments winstate ! j)
                                  [k := attachment2\<lparr>layout := VK_IMAGE_LAYOUT_UNDEFINED\<rparr>]]\<rparr>
                   else winstate2)
            in alloc_attachment_row recreate env wi j (Suc k) n h2
                 (set_window_state lahar2 wi winstate3))"

text \<open>The outer loop over the extra attachments, from index \<open>j\<close> (lines 3635-3670; lines
  2494-2532 in the resizer): the image template gets the window's size, then the row is filled.\<close>

fun alloc_attachments :: "bool \<Rightarrow> vk_env \<Rightarrow> nat \<Rightarrow> nat \<Rightarrow> nat \<Rightarrow> trace \<Rightarrow> Lahar \<Rightarrow> step" where
  "alloc_attachments recreate env wi j 0 h lahar = Some (Inr (h, lahar))"
| "alloc_attachments recreate env wi j (Suc n) h lahar =
     (let winstate = windows lahar ! wi in
      if \<not> j < length (attachment_configs winstate) then None
      else
        let attachment_config = attachment_configs winstate ! j;
            info = img_info attachment_config;
            info1 = info\<lparr> img_sType := VK_STRUCTURE_TYPE_IMAGE_CREATE_INFO,
                          extent_width := width winstate,
                          extent_height := height winstate,
                          extent_depth := (if extent_depth info = 0 then 1 else extent_depth info) \<rparr>;
            lahar1 = set_window_state lahar wi
              (winstate\<lparr>attachment_configs := (attachment_configs winstate)
                          [j := attachment_config\<lparr>img_info := info1\<rparr>]\<rparr>)
        in case alloc_attachment_row recreate env wi j 0 (unat (swap_size winstate)) h lahar1 of
          None \<Rightarrow> None
        | Some (Inl e) \<Rightarrow> Some (Inl e)
        | Some (Inr (h2, lahar2)) \<Rightarrow> alloc_attachments recreate env wi (Suc j) n h2 lahar2)"

text \<open>\<^verbatim>\<open>lahar_window_wait_inactive\<close> (lines 3989-3998): Vulkan reads \<^verbatim>\<open>max_in_flight\<close> fences.\<close>

definition lahar_window_wait_inactive :: "vk_env \<Rightarrow> trace \<Rightarrow> Lahar \<Rightarrow> handle \<Rightarrow> lahar_result" where
  "lahar_window_wait_inactive env h lahar w =
     (case window_state_index (windows lahar) w of
        None \<Rightarrow> Some (LAHAR_ERR_INVALID_WINDOW, h, lahar)
      | Some i \<Rightarrow>
          let winstate = windows lahar ! i in
          if \<not> unat (max_in_flight winstate) \<le> length (in_flight winstate) then None
          else
            let h1 = WaitForFences (take (unat (max_in_flight winstate)) (in_flight winstate)) # h;
                res = r_vkWaitForFences env h1;
                lahar1 = lahar\<lparr>vkresult := res\<rparr>
            in if res \<noteq> VK_SUCCESS then Some (LAHAR_ERR_VK_ERR, h1, lahar1)
               else Some (LAHAR_ERR_SUCCESS, h1, lahar1))"

text \<open>The teardown loops of the resizer (lines 2357-2379): the views of the first
  \<^verbatim>\<open>swap_size\<close> entries of the colour row; for every other row the views, and the images
  through the allocator's \<^verbatim>\<open>free_image\<close>.\<close>

fun destroy_color_row :: "nat \<Rightarrow> LaharAttachment list \<Rightarrow> trace \<Rightarrow> trace option" where
  "destroy_color_row 0 row h = Some h"
| "destroy_color_row (Suc n) [] h = None"
| "destroy_color_row (Suc n) (a # row) h =
     destroy_color_row n row (if view a \<noteq> 0 then DestroyImageView (view a) # h else h)"

fun destroy_attachment_row :: "handle \<Rightarrow> nat \<Rightarrow> LaharAttachment list \<Rightarrow> trace \<Rightarrow> trace option" where
  "destroy_attachment_row alloc 0 row h = Some h"
| "destroy_attachment_row alloc (Suc n) [] h = None"
| "destroy_attachment_row alloc (Suc n) (a # row) h =
     (let h1 = (if view a \<noteq> 0 then DestroyImageView (view a) # h else h);
          h2 = (if image_h a \<noteq> 0 then FreeImage alloc (image_h a) (img_allocation a) # h1 else h1)
      in destroy_attachment_row alloc n row h2)"

fun destroy_attachment_rows ::
  "handle \<Rightarrow> nat \<Rightarrow> nat \<Rightarrow> LaharAttachment list list \<Rightarrow> trace \<Rightarrow> trace option" where
  "destroy_attachment_rows alloc sz 0 rows h = Some h"
| "destroy_attachment_rows alloc sz (Suc n) [] h = None"
| "destroy_attachment_rows alloc sz (Suc n) (row # rows) h =
     (case destroy_attachment_row alloc sz row h of
        None \<Rightarrow> None
      | Some h1 \<Rightarrow> destroy_attachment_rows alloc sz n rows h1)"

text \<open>
  \<^verbatim>\<open>__lahar_default_resizer\<close> (lines 2329-2537), in three parts. First, lines 2444-2456:
  the new swapchain and its images. When \<^verbatim>\<open>vkCreateSwapchainKHR\<close> fails the code jumps to
  \<^verbatim>\<open>end\<close> with \<^verbatim>\<open>err\<close> still holding the 0 of the present-mode chooser. A swapchain whose
  image count differs from the old one trips the \<^verbatim>\<open>LAHAR_ASSERT\<close>. The second
  \<^verbatim>\<open>vkGetSwapchainImagesKHR\<close> fills at most as many images as the first one counted.
\<close>

definition resizer_swapchain ::
  "vk_env \<Rightarrow> nat \<Rightarrow> u32 \<Rightarrow> VkSwapchainCreateInfoKHR \<Rightarrow> trace \<Rightarrow> Lahar
     \<Rightarrow> ((u32 \<times> trace \<times> Lahar) + (handle list \<times> trace \<times> Lahar)) option" where
  "resizer_swapchain env wi old_swap_size create_info h lahar =
     (let h1 = CreateSwapchainKHR create_info # h;
          res = fst (r_vkCreateSwapchainKHR env h1);
          ws = windows lahar ! wi;
          lahar1 = (set_window_state lahar wi
                      (ws\<lparr>swapchain := written (snd (r_vkCreateSwapchainKHR env h1)) (swapchain ws)\<rparr>))
                     \<lparr>vkresult := res\<rparr>
      in if res \<noteq> VK_SUCCESS then Some (Inl (LAHAR_ERR_SUCCESS, h1, lahar1))
      else
        let ws1 = windows lahar1 ! wi;
            h2 = GetSwapchainImagesKHR (swapchain ws1) # h1;
            count :: u32 = of_nat (length (r_vkGetSwapchainImagesKHR env h2))
        in if old_swap_size \<noteq> count then None
        else
          let h3 = GetSwapchainImagesKHR (swapchain ws1) # h2;
              swap_imgs = take (unat count) (r_vkGetSwapchainImagesKHR env h3)
          in Some (Inr (swap_imgs, h3,
                set_window_state lahar1 wi (ws1\<lparr>swap_size := of_nat (length swap_imgs)\<rparr>))))"

text \<open>Second, lines 2458-2532: the colour views, the check for an allocator, and the extra
  attachments.\<close>

definition resizer_attachments ::
  "vk_env \<Rightarrow> nat \<Rightarrow> handle list \<Rightarrow> trace \<Rightarrow> Lahar \<Rightarrow> lahar_result" where
  "resizer_attachments env wi swap_imgs h lahar =
     (case create_color_views True env wi swap_imgs 0 (unat (swap_size (windows lahar ! wi)))
             h lahar of
        None \<Rightarrow> None
      | Some (Inl e) \<Rightarrow> Some e
      | Some (Inr (h1, lahar1)) \<Rightarrow>
          let ws1 = windows lahar1 ! wi in
          if attachment_count ws1 > 1 \<and> gpu_allocator lahar1 = 0
          then Some (LAHAR_ERR_INVALID_CONFIGURATION, h1, lahar1)
          else case alloc_attachments True env wi 1 (unat (attachment_count ws1) - 1) h1 lahar1 of
            None \<Rightarrow> None
          | Some (Inl e) \<Rightarrow> Some e
          | Some (Inr (h2, lahar2)) \<Rightarrow> Some (LAHAR_ERR_SUCCESS, h2, lahar2))"

text \<open>The teardown (lines 2357-2381).\<close>

definition resizer_teardown :: "Lahar \<Rightarrow> LaharWindowState \<Rightarrow> trace \<Rightarrow> trace option" where
  "resizer_teardown lahar winstate h =
     (case attachments winstate of
        [] \<Rightarrow> (if swap_size winstate = 0 \<and> attachment_count winstate \<le> 1
               then Some (DestroySwapchainKHR (swapchain winstate) # h) else None)
      | color_row # rows \<Rightarrow>
          (case destroy_color_row (unat (swap_size winstate)) color_row h of
             None \<Rightarrow> None
           | Some h1 \<Rightarrow>
               (case destroy_attachment_rows (gpu_allocator lahar) (unat (swap_size winstate))
                       (unat (attachment_count winstate) - 1) rows h1 of
                  None \<Rightarrow> None
                | Some h2 \<Rightarrow> Some (DestroySwapchainKHR (swapchain winstate) # h2))))"

text \<open>The whole function: lookup, wait, the first allocator check (line 2352), teardown,
  preparation of the create-info, then the two parts above.\<close>

definition lahar_default_resizer :: "vk_env \<Rightarrow> trace \<Rightarrow> Lahar \<Rightarrow> handle \<Rightarrow> lahar_result" where
  "lahar_default_resizer env h lahar w =
     (case window_state_index (windows lahar) w of
        None \<Rightarrow> Some (LAHAR_ERR_INVALID_WINDOW, h, lahar)
      | Some wi \<Rightarrow>
          let old_swap_size = swap_size (windows lahar ! wi) in
          case lahar_window_wait_inactive env h lahar w of
            None \<Rightarrow> None
          | Some (err, h1, lahar1) \<Rightarrow>
              if err \<noteq> 0 then Some (err, h1, lahar1)
              else if attachment_count (windows lahar1 ! wi) > 1 \<and> gpu_allocator lahar1 = 0
              then Some (LAHAR_ERR_INVALID_STATE, h1, lahar1)
              else case resizer_teardown lahar1 (windows lahar1 ! wi) h1 of
                None \<Rightarrow> None
              | Some h2 \<Rightarrow>
                  (case swapchain_prepare True env wi h2 lahar1 of
                     None \<Rightarrow> None
                   | Some (Inl e) \<Rightarrow> Some e
                   | Some (Inr (create_info, h3, lahar2)) \<Rightarrow>
                       (case resizer_swapchain env wi old_swap_size create_info h3 lahar2 of
                          None \<Rightarrow> None
                        | Some (Inl e) \<Rightarrow> Some e
                        | Some (Inr (swap_imgs, h4, lahar3)) \<Rightarrow>
                            resizer_attachments env wi swap_imgs h4 lahar3)))"

text \<open>\<^verbatim>\<open>lahar_window_swapchain_resize\<close> (lines 3760-3767): the window's own callback when it
  has one (user code, answered by the environment), the default resizer otherwise.\<close>

definition lahar_window_swapchain_resize :: "vk_env \<Rightarrow> trace \<Rightarrow> Lahar \<Rightarrow> handle \<Rightarrow> lahar_result" where
  "lahar_window_swapchain_resize env h lahar w =
     (case window_state_index (windows lahar) w of
        None \<Rightarrow> Some (LAHAR_ERR_INVALID_WINDOW, h, lahar)
      | Some i \<Rightarrow>
          if resize_callback (windows lahar ! i) \<noteq> 0 then
            (let h1 = ResizeCallback (resize_callback (windows lahar ! i)) w # h
             in Some (fst (r_resize_callback env h1 lahar), h1, snd (r_resize_callback env h1 lahar)))
          else lahar_default_resizer env h lahar w)"

text \<open>
  \<^verbatim>\<open>lahar_window_frame_begin\<close> (lines 3769-3807). On a stale swapchain with automatic
  recreation the function resizes and calls itself, without bound: \<open>None\<close> also covers a
  recursion that never ends.
\<close>

partial_function (option) lahar_window_frame_begin ::
  "vk_env \<Rightarrow> trace \<Rightarrow> Lahar \<Rightarrow> handle \<Rightarrow> (u32 \<times> trace \<times> Lahar) option" where
  "lahar_window_frame_begin env h lahar w =
     (if w = 0 then Some (LAHAR_ERR_ILLEGAL_PARAMS, h, lahar)
      else case window_state_index (windows lahar) w of
        None \<Rightarrow> Some (LAHAR_ERR_INVALID_WINDOW, h, lahar)
      | Some i \<Rightarrow>
          let winstate = windows lahar ! i in
          if frame_phase winstate \<noteq> LAHAR_FRAME_PHASE_BEGIN
          then Some (LAHAR_ERR_INVALID_FRAME_STATE, h, lahar)
          else
            let fi = unat (flight_index winstate) in
            if \<not> (fi < length (in_flight winstate) \<and> fi < length (image_available winstate))
            then None
            else
              let h1 = WaitForFences [in_flight winstate ! fi] # h;
                  h2 = AcquireNextImageKHR (swapchain winstate) (image_available winstate ! fi) # h1;
                  res = fst (r_vkAcquireNextImageKHR env h2);
                  winstate1 = winstate\<lparr>frame_index := written (snd (r_vkAcquireNextImageKHR env h2))
                                                           (frame_index winstate)\<rparr>;
                  lahar1 = set_window_state lahar i winstate1
              in if res = VK_SUBOPTIMAL_KHR \<or> res = VK_ERROR_OUT_OF_DATE_KHR then
                   (if auto_recreate_swap winstate1 then
                      (case lahar_window_swapchain_resize env h2 lahar1 w of
                         None \<Rightarrow> None
                       | Some (err, h3, lahar2) \<Rightarrow>
                           if err \<noteq> 0 then Some (err, h3, lahar2)
                           else lahar_window_frame_begin env h3 lahar2 w)
                    else Some (LAHAR_ERR_SWAPCHAIN_OUT_OF_DATE, h2, lahar1))
                 else if res \<noteq> VK_SUCCESS
                   then Some (LAHAR_ERR_VK_ERR, h2, lahar1\<lparr>vkresult := res\<rparr>)
                 else Some (LAHAR_ERR_SUCCESS, ResetFences [in_flight winstate ! fi] # h2,
                        set_window_state lahar1 i
                          (winstate1\<lparr>frame_phase := LAHAR_FRAME_PHASE_DRAW\<rparr>)))"

text \<open>The fields of a window state that the frame state machine lives on. A resize callback
  supplied by the user is expected to leave them alone, in every window.\<close>

definition frame_core :: "LaharWindowState \<Rightarrow> handle \<times> u32 \<times> u32 \<times> LaharFramePhase \<times> handle" where
  "frame_core ws = (window ws, flight_index ws, max_in_flight ws, frame_phase ws, resize_callback ws)"

definition resize_callback_keeps_frame_state :: "vk_env \<Rightarrow> bool" where
  "resize_callback_keeps_frame_state env \<longleftrightarrow>
     (\<forall>h lahar. map frame_core (windows (snd (r_resize_callback env h lahar)))
                 = map frame_core (windows lahar))"

text \<open>The environment value that a step leaves behind, on either exit.\<close>

definition step_state :: "(u32 \<times> trace \<times> Lahar) + (trace \<times> Lahar) \<Rightarrow> Lahar" where
  "step_state r = (case r of Inl x \<Rightarrow> snd (snd x) | Inr y \<Rightarrow> snd y)"

definition prepare_state :: "(u32 \<times> trace \<times> Lahar) + ('a \<times> trace \<times> Lahar) \<Rightarrow> Lahar" where
  "prepare_state r = (case r of Inl x \<Rightarrow> snd (snd x) | Inr y \<Rightarrow> snd (snd y))"

text \<open>The same fields with the phase replaced.\<close>

definition core_phase ::
  "LaharFramePhase \<Rightarrow> handle \<times> u32 \<times> u32 \<times> LaharFramePhase \<times> handle
     \<Rightarrow> handle \<times> u32 \<times> u32 \<times> LaharFramePhase \<times> handle" where
  "core_phase p c = (fst c, fst (snd c), fst (snd (snd c)), p, snd (snd (snd (snd c))))"

section \<open>Builder: extensions, device pin, windows\<close>

text \<open>\<^verbatim>\<open>lahar_vec_expand\<close> (lines 1945-1951): the new capacity, taken when the allocation
  succeeds.\<close>

definition vec_expand_target :: "nat \<Rightarrow> nat" where
  "vec_expand_target cap = (if cap = 0 then 10 else cap * 2)"

text \<open>\<^verbatim>\<open>lahar_builder_extension_add_required_device\<close> (lines 2648-2663). The name is \<open>None\<close>
  for a null pointer; the array grows when it is full, and the name is copied.\<close>

definition lahar_builder_extension_add_required_device ::
  "vk_env \<Rightarrow> trace \<Rightarrow> Lahar \<Rightarrow> string option \<Rightarrow> u32 \<times> trace \<times> Lahar" where
  "lahar_builder_extension_add_required_device env h lahar extension =
     (case extension of
        None \<Rightarrow> (LAHAR_ERR_ILLEGAL_PARAMS, h, lahar)
      | Some name \<Rightarrow>
          let exts = extensions lahar;
              full = (length (req_dev_exts exts) \<ge> rde_cap exts);
              h1 = (if full then Malloc # h else h)
          in if full \<and> \<not> r_lahar_malloc env h1 then (LAHAR_ERR_ALLOC_FAILED, h1, lahar)
             else
               let exts1 = (if full then exts\<lparr>rde_cap := vec_expand_target (rde_cap exts)\<rparr> else exts);
                   lahar1 = lahar\<lparr>extensions := exts1\<rparr>;
                   h2 = Malloc # h1
               in if \<not> r_lahar_malloc env h2 then (LAHAR_ERR_ALLOC_FAILED, h2, lahar1)
                  else (LAHAR_ERR_SUCCESS, h2,
                        lahar1\<lparr>extensions := exts1\<lparr>req_dev_exts := req_dev_exts exts1 @ [name]\<rparr>\<rparr>))"

text \<open>\<^verbatim>\<open>lahar_builder_extension_add_optional_device\<close> (lines 2697-2727): two arrays grow, the
  names and the granted flags; \<^verbatim>\<open>ode_cap\<close> is only stored by the second expansion. The new
  entry's flag is false.\<close>

definition lahar_builder_extension_add_optional_device ::
  "vk_env \<Rightarrow> trace \<Rightarrow> Lahar \<Rightarrow> string option \<Rightarrow> u32 \<times> trace \<times> Lahar" where
  "lahar_builder_extension_add_optional_device env h lahar extension =
     (case extension of
        None \<Rightarrow> (LAHAR_ERR_ILLEGAL_PARAMS, h, lahar)
      | Some name \<Rightarrow>
          let exts = extensions lahar;
              full = (length (opt_dev_exts exts) \<ge> ode_cap exts);
              h1 = (if full then Malloc # h else h)
          in if full \<and> \<not> r_lahar_malloc env h1 then (LAHAR_ERR_ALLOC_FAILED, h1, lahar)
             else
               let h2 = (if full then Malloc # h1 else h1)
               in if full \<and> \<not> r_lahar_malloc env h2 then (LAHAR_ERR_ALLOC_FAILED, h2, lahar)
                  else
                    let exts1 = (if full then exts\<lparr>ode_cap := vec_expand_target (ode_cap exts)\<rparr>
                                 else exts);
                        lahar1 = lahar\<lparr>extensions := exts1\<rparr>;
                        h3 = Malloc # h2
                    in if \<not> r_lahar_malloc env h3 then (LAHAR_ERR_ALLOC_FAILED, h3, lahar1)
                       else (LAHAR_ERR_SUCCESS, h3,
                             lahar1\<lparr>extensions := exts1
                               \<lparr> opt_dev_exts := opt_dev_exts exts1 @ [name],
                                 opt_dev_exts_present := opt_dev_exts_present exts1 @ [False] \<rparr>\<rparr>))"

text \<open>\<^verbatim>\<open>lahar_extension_has_device\<close> (lines 2892-2908): the optional list is searched first and
  the first entry with the name decides, by its flag; then the required list. \<open>None\<close> is a
  read past the flag array.\<close>

fun optional_lookup :: "string \<Rightarrow> string list \<Rightarrow> bool list \<Rightarrow> bool option option" where
  "optional_lookup ext [] flags = Some None"
| "optional_lookup ext (x # xs) flags =
     (if ext = x then (case flags of [] \<Rightarrow> None | f # _ \<Rightarrow> Some (Some f))
      else optional_lookup ext xs (tl flags))"

definition lahar_extension_has_device :: "Lahar \<Rightarrow> string option \<Rightarrow> bool option" where
  "lahar_extension_has_device lahar extension =
     (case extension of
        None \<Rightarrow> Some False
      | Some ext \<Rightarrow>
          (case optional_lookup ext (opt_dev_exts (extensions lahar))
                  (opt_dev_exts_present (extensions lahar)) of
             None \<Rightarrow> None
           | Some (Some f) \<Rightarrow> Some f
           | Some None \<Rightarrow> Some (ext \<in> set (req_dev_exts (extensions lahar)))))"

text \<open>\<^verbatim>\<open>lahar_builder_device_use\<close> (lines 2733-2741).\<close>

definition lahar_builder_device_use ::
  "vk_env \<Rightarrow> trace \<Rightarrow> Lahar \<Rightarrow> string option \<Rightarrow> u32 \<times> trace \<times> Lahar" where
  "lahar_builder_device_use env h lahar name =
     (case name of
        None \<Rightarrow> (LAHAR_ERR_ILLEGAL_PARAMS, h, lahar)
      | Some n \<Rightarrow>
          if n = [] then (LAHAR_ERR_ILLEGAL_PARAMS, h, lahar)
          else if \<not> r_lahar_malloc env (Malloc # h) then (LAHAR_ERR_ALLOC_FAILED, Malloc # h, lahar)
          else (LAHAR_ERR_SUCCESS, Malloc # h, lahar\<lparr>device_name := Some n\<rparr>))"

text \<open>\<^verbatim>\<open>struct LaharWindowConfig\<close>.\<close>

record LaharWindowConfig =
  cfg_attachment_count :: u32
  cfg_attachments :: "LaharAttachmentConfig list"
  cfg_desired_swap_size :: u32
  cfg_max_in_flight :: u32
  cfg_alpha :: u32
  cfg_no_auto_swap_resize :: bool

text \<open>The all-zero values that \<^verbatim>\<open>memset\<close> leaves.\<close>

definition zero_attachment :: LaharAttachment where
  "zero_attachment = \<lparr>img_allocation = 0, image_h = 0, view = 0, layout = 0\<rparr>"

definition zero_attachment_config :: LaharAttachmentConfig where
  "zero_attachment_config =
     \<lparr> usage = 0,
       img_info = \<lparr>img_sType = 0, extent_width = 0, extent_height = 0, extent_depth = 0\<rparr>,
       view_info_image = 0 \<rparr>"

definition zero_window_state :: LaharWindowState where
  "zero_window_state =
     \<lparr> window = 0, width = 0, height = 0, desired_img_count = 0, max_in_flight = 0,
       frame_phase = LAHAR_FRAME_PHASE_BEGIN, alpha = 0, auto_recreate_swap = False,
       resize_callback = 0, surface_format = \<lparr>format = 0, colorSpace = 0\<rparr>,
       surface = 0, swapchain = 0, swap_size = 0,
       image_available = [], render_finished = [], in_flight = [],
       flight_index = 0, frame_index = 0, attachment_count = 0,
       attachment_configs = [], attachments = [], commands = [] \<rparr>"

definition zero_device_info :: LaharDeviceInfo where
  "zero_device_info =
     \<lparr> physdev = 0, deviceType = 0, deviceName = [], memoryHeaps = [],
       surface_formats = replicate LAHAR_MAX_DEVICE_ENTRIES \<lparr>format = 0, colorSpace = 0\<rparr>,
       present_modes = replicate LAHAR_MAX_DEVICE_ENTRIES 0,
       surface_fmt_count = 0, present_mode_count = 0,
       graphics_queue_index = 0, present_queue_index = 0,
       has_graphics_queue = False, has_present_queue = False \<rparr>"

definition zero_lahar :: Lahar where
  "zero_lahar =
     \<lparr> vkresult = 0, vkversion = 0, appversion = 0, wantvalidation = False,
       wantcommands = False, debug_callback = 0, user_data = 0, gpu_allocator = 0,
       device_name = None, score_func = 0, format_chooser = 0, present_chooser = 0,
       instance_h = 0, debug_messenger = 0, physdev_info = zero_device_info,
       device = 0, graphicsQueue = 0, presentQueue = 0, pool = 0,
       windows = [], window_cap = 0,
       extensions =
         \<lparr> req_inst_exts = [], rie_cap = 0, req_dev_exts = [], rde_cap = 0,
           opt_inst_exts = [], opt_inst_exts_present = [], oie_cap = 0,
           opt_dev_exts = [], opt_dev_exts_present = [], ode_cap = 0 \<rparr> \<rparr>"

text \<open>
  \<^verbatim>\<open>lahar_builder_window_register_ex\<close> (lines 2754-2796). The new state is zeroed and counted
  before the size is asked for, so a failing size query leaves a zeroed window registered.
  \<^verbatim>\<open>memcpy\<close> reads \<^verbatim>\<open>attachment_count\<close> configurations from the caller's array. The rows of
  the attachment array stay null (empty) until the swapchain is built.
\<close>

definition lahar_builder_window_register_ex ::
  "vk_env \<Rightarrow> trace \<Rightarrow> Lahar \<Rightarrow> handle \<Rightarrow> LaharWindowConfig option \<Rightarrow> lahar_result" where
  "lahar_builder_window_register_ex env h lahar w winconf =
     (case winconf of
        None \<Rightarrow> Some (LAHAR_ERR_ILLEGAL_PARAMS, h, lahar)
      | Some conf \<Rightarrow>
          if w = 0 \<or> cfg_attachment_count conf = 0 then Some (LAHAR_ERR_ILLEGAL_PARAMS, h, lahar)
          else
            let full = (length (windows lahar) \<ge> window_cap lahar);
                h1 = (if full then Malloc # h else h)
            in if full \<and> \<not> r_lahar_malloc env h1 then Some (LAHAR_ERR_ALLOC_FAILED, h1, lahar)
               else
                 let lahar1 = (if full then lahar\<lparr>window_cap := vec_expand_target (window_cap lahar)\<rparr>
                               else lahar);
                     i = length (windows lahar1);
                     lahar2 = lahar1\<lparr>windows := windows lahar1 @ [zero_window_state\<lparr>window := w\<rparr>]\<rparr>;
                     h2 = WindowGetSize w # h1;
                     size = r_lahar_window_get_size env h2;
                     ws2 = (windows lahar2 ! i)\<lparr>width := fst (snd size), height := snd (snd size)\<rparr>;
                     lahar3 = set_window_state lahar2 i ws2
                 in if fst size \<noteq> 0 then Some (fst size, h2, lahar3)
                    else if length (cfg_attachments conf) < unat (cfg_attachment_count conf) then None
                    else
                      Some (LAHAR_ERR_SUCCESS, h2,
                        set_window_state lahar3 i
                          (ws2\<lparr> attachment_count := ucast (cfg_attachment_count conf),
                                attachment_configs :=
                                  take (unat (cfg_attachment_count conf)) (cfg_attachments conf),
                                desired_img_count :=
                                  (if cfg_desired_swap_size conf \<noteq> 0 then cfg_desired_swap_size conf
                                   else 2),
                                max_in_flight :=
                                  (if cfg_max_in_flight conf \<noteq> 0 then cfg_max_in_flight conf else 2),
                                attachments := replicate (unat (cfg_attachment_count conf)) [],
                                auto_recreate_swap := \<not> cfg_no_auto_swap_resize conf \<rparr>)))"

text \<open>\<^verbatim>\<open>lahar_builder_window_register\<close> (lines 2798-2871), for the two profiles.\<close>

datatype LaharWindowProfile = LAHAR_WINPROF_COLOR | LAHAR_WINPROF_COLOR_DEPTH

definition depth_attachment_config :: LaharAttachmentConfig where
  "depth_attachment_config =
     \<lparr> usage = VK_IMAGE_USAGE_DEPTH_STENCIL_ATTACHMENT_BIT,
       img_info = \<lparr> img_sType = VK_STRUCTURE_TYPE_IMAGE_CREATE_INFO, extent_width = 0,
                    extent_height = 0, extent_depth = 0 \<rparr>,
       view_info_image = 0 \<rparr>"

definition lahar_builder_window_register ::
  "vk_env \<Rightarrow> trace \<Rightarrow> Lahar \<Rightarrow> handle \<Rightarrow> LaharWindowProfile \<Rightarrow> lahar_result" where
  "lahar_builder_window_register env h lahar w winprof =
     (if w = 0 then Some (LAHAR_ERR_ILLEGAL_PARAMS, h, lahar)
      else case winprof of
        LAHAR_WINPROF_COLOR \<Rightarrow>
          lahar_builder_window_register_ex env h lahar w
            (Some \<lparr> cfg_attachment_count = 1, cfg_attachments = [zero_attachment_config],
                    cfg_desired_swap_size = 0, cfg_max_in_flight = 0, cfg_alpha = 0,
                    cfg_no_auto_swap_resize = False \<rparr>)
      | LAHAR_WINPROF_COLOR_DEPTH \<Rightarrow>
          lahar_builder_window_register_ex env h lahar w
            (Some \<lparr> cfg_attachment_count = 2,
                    cfg_attachments = [zero_attachment_config, depth_attachment_config],
                    cfg_desired_swap_size = 0, cfg_max_in_flight = 0, cfg_alpha = 0,
                    cfg_no_auto_swap_resize = False \<rparr>))"

section \<open>Build: instance and surfaces\<close>

definition VK_EXT_DEBUG_UTILS_EXTENSION_NAME :: string where
  "VK_EXT_DEBUG_UTILS_EXTENSION_NAME = ''VK_EXT_debug_utils''"

definition dbg_layer_name :: string where
  "dbg_layer_name = ''VK_LAYER_KHRONOS_validation''"

text \<open>
  \<^verbatim>\<open>__lahar_temp_extensions\<close> (lines 3075-3121): the required instance extensions, then those
  of the first window's backend, then the debug extension when validation is wanted. The
  backend is asked twice, for the count and for the names. The outputs are written only on
  success, and both callers ignore the return code and read them: a failure, no window at all,
  or a second answer of another length than the first is undefined behaviour.
\<close>

definition lahar_temp_extensions :: "vk_env \<Rightarrow> trace \<Rightarrow> Lahar \<Rightarrow> (string list \<times> trace) option" where
  "lahar_temp_extensions env h lahar =
     (case windows lahar of
        [] \<Rightarrow> None
      | w0 # _ \<Rightarrow>
          let h1 = WindowGetExtensions (window w0) # h;
              r1 = r_lahar_window_get_extensions env h1
          in if fst r1 \<noteq> 0 then None
             else
               let h2 = WindowGetExtensions (window w0) # h1;
                   r2 = r_lahar_window_get_extensions env h2
               in if fst r2 \<noteq> 0 \<or> length (snd r2) \<noteq> length (snd r1) then None
                  else Some (req_inst_exts (extensions lahar) @ snd r2
                             @ (if wantvalidation lahar then [VK_EXT_DEBUG_UTILS_EXTENSION_NAME] else []),
                             h2))"

text \<open>\<^verbatim>\<open>__lahar_build_inst_extensions\<close> (lines 3124-3170): every name of the list must be among
  the instance extension properties. Only the first enumeration stores its result code.\<close>

definition lahar_build_inst_extensions :: "vk_env \<Rightarrow> trace \<Rightarrow> Lahar \<Rightarrow> lahar_result" where
  "lahar_build_inst_extensions env h lahar =
     (case lahar_temp_extensions env h lahar of
        None \<Rightarrow> None
      | Some (exts, h1) \<Rightarrow>
          let h2 = EnumerateInstanceExtensionProperties # h1;
              res = fst (r_vkEnumerateInstanceExtensionProperties env h2);
              lahar1 = lahar\<lparr>vkresult := res\<rparr>
          in if res \<noteq> VK_SUCCESS then Some (LAHAR_ERR_VK_ERR, h2, lahar1)
             else
               let h3 = EnumerateInstanceExtensionProperties # h2;
                   r3 = r_vkEnumerateInstanceExtensionProperties env h3
               in if fst r3 \<noteq> VK_SUCCESS then Some (LAHAR_ERR_VK_ERR, h3, lahar1)
                  else if \<exists>ext \<in> set exts. ext \<notin> set (snd r3)
                    then Some (LAHAR_ERR_MISSING_EXTENSION, h3, lahar1)
                  else Some (LAHAR_ERR_SUCCESS, h3, lahar1))"

text \<open>
  \<^verbatim>\<open>__lahar_build_instance\<close> (lines 3172-3268). \<^verbatim>\<open>lahar_load_instance\<close> only fills the table of
  entry points and returns success. When \<^verbatim>\<open>vkEnumerateInstanceVersion\<close> fails the code jumps
  to \<^verbatim>\<open>end\<close> with \<^verbatim>\<open>err\<close> still 0. The environment answers \<open>None\<close> for that entry point when the
  loader does not have it.
\<close>

definition lahar_build_instance :: "vk_env \<Rightarrow> trace \<Rightarrow> Lahar \<Rightarrow> lahar_result" where
  "lahar_build_instance env h lahar =
     (case lahar_temp_extensions env h lahar of
        None \<Rightarrow> None
      | Some (exts, h1) \<Rightarrow>
          let h2 = EnumerateInstanceLayerProperties # h1;
              res2 = fst (r_vkEnumerateInstanceLayerProperties env h2);
              lahar2 = lahar\<lparr>vkresult := res2\<rparr>
          in if res2 \<noteq> VK_SUCCESS then Some (LAHAR_ERR_VK_ERR, h2, lahar2)
             else
               let h3 = EnumerateInstanceLayerProperties # h2;
                   r3 = r_vkEnumerateInstanceLayerProperties env h3;
                   lahar3 = lahar2\<lparr>vkresult := fst r3\<rparr>
               in if fst r3 \<noteq> VK_SUCCESS then Some (LAHAR_ERR_VK_ERR, h3, lahar3)
                  else
                    let dbg_layer_found = (wantvalidation lahar3 \<and> dbg_layer_name \<in> set (snd r3));
                        h4 = CreateInstance exts dbg_layer_found # h3;
                        r4 = r_vkCreateInstance env h4;
                        lahar4 = lahar3\<lparr>vkresult := fst r4,
                                         instance_h := written (snd r4) (instance_h lahar3)\<rparr>
                    in if fst r4 \<noteq> VK_SUCCESS then Some (LAHAR_ERR_VK_ERR, h4, lahar4)
                       else
                         let h5 = EnumerateInstanceVersion # h4;
                             r5 = r_vkEnumerateInstanceVersion env h5;
                             h6 = (if r5 = None then h4 else h5);
                             lahar6 = (case r5 of
                                         None \<Rightarrow> lahar4
                                       | Some (res, v) \<Rightarrow>
                                           lahar4\<lparr>vkresult := res,
                                                  vkversion := written v (vkversion lahar4)\<rparr>)
                         in if r5 \<noteq> None \<and> vkresult lahar6 \<noteq> 0
                            then Some (LAHAR_ERR_SUCCESS, h6, lahar6)
                            else if wantvalidation lahar6 \<and> dbg_layer_found then
                              (let h7 = CreateDebugUtilsMessengerEXT # h6;
                                   r7 = r_vkCreateDebugUtilsMessengerEXT env h7;
                                   lahar7 = lahar6\<lparr>vkresult := fst r7,
                                              debug_messenger := written (snd r7) (debug_messenger lahar6)\<rparr>
                               in if fst r7 \<noteq> VK_SUCCESS then Some (LAHAR_ERR_VK_ERR, h7, lahar7)
                                  else Some (LAHAR_ERR_SUCCESS, h7, lahar7))
                            else Some (LAHAR_ERR_SUCCESS, h6, lahar6))"

text \<open>\<^verbatim>\<open>__lahar_build_early_surface\<close> (lines 3270-3282), from window \<open>i\<close> on, \<open>n\<close> to go.\<close>

fun build_early_surface_loop :: "vk_env \<Rightarrow> nat \<Rightarrow> nat \<Rightarrow> trace \<Rightarrow> Lahar \<Rightarrow> u32 \<times> trace \<times> Lahar" where
  "build_early_surface_loop env i 0 h lahar = (LAHAR_ERR_SUCCESS, h, lahar)"
| "build_early_surface_loop env i (Suc n) h lahar =
     (let winstate = windows lahar ! i;
          h1 = WindowSurfaceCreate (window winstate) # h;
          r = r_lahar_window_surface_create env h1;
          lahar1 = set_window_state lahar i
                     (winstate\<lparr>surface := written (snd r) (surface winstate)\<rparr>)
      in if fst r \<noteq> 0 then (fst r, h1, lahar1)
         else build_early_surface_loop env (Suc i) n h1 lahar1)"

definition lahar_build_early_surface :: "vk_env \<Rightarrow> trace \<Rightarrow> Lahar \<Rightarrow> lahar_result" where
  "lahar_build_early_surface env h lahar =
     Some (build_early_surface_loop env 0 (length (windows lahar)) h lahar)"

section \<open>Build: physical device selection\<close>

text \<open>
  The conversion of \<^verbatim>\<open>__lahar_default_scorer\<close>'s memory bonus goes through \<^verbatim>\<open>double\<close>:
  \<^verbatim>\<open>size_t remapped_memory = (local_memory / 107374182400.0) * 1000;\<close>. The arithmetic is
  IEEE 754 binary64 with round-to-nearest-even: the conversion of \<^verbatim>\<open>local_memory\<close>, the
  division and the multiplication each round to 53 significant bits, and the conversion back
  truncates. \<open>round_binary64\<close> rounds a non-negative rational in the normal range above
  \<open>2\<^sup>-\<^sup>1\<^sup>0\<^sup>0\<close>, which covers every value that occurs here.
\<close>

definition round_half_even :: "rat \<Rightarrow> int" where
  "round_half_even x =
     (let f = \<lfloor>x\<rfloor>; r = x - of_int f
      in if r < 1 / 2 then f else if r > 1 / 2 then f + 1 else if even f then f else f + 1)"

function floor_log2 :: "int \<Rightarrow> int" where
  "floor_log2 n = (if n \<le> 1 then 0 else 1 + floor_log2 (n div 2))"
  by auto
termination
  by (relation "measure nat") auto

declare floor_log2.simps [simp del]

definition binary64_exponent :: "rat \<Rightarrow> int" where
  "binary64_exponent x = floor_log2 \<lfloor>x * 2 ^ 100\<rfloor> - 100 - 52"

definition round_binary64 :: "rat \<Rightarrow> rat" where
  "round_binary64 x =
     (if x = 0 then 0
      else of_int (round_half_even (x / (2 powi binary64_exponent x))) * (2 powi binary64_exponent x))"

definition remapped_memory :: "u64 \<Rightarrow> u64" where
  "remapped_memory local_memory =
     of_int \<lfloor>round_binary64 (round_binary64 (round_binary64 (of_int (uint local_memory))
                                                / 107374182400) * 1000)\<rfloor>"

text \<open>The sum over the heaps (lines 2284-2290), in \<^verbatim>\<open>size_t\<close> arithmetic.\<close>

fun local_memory_sum :: "VkMemoryHeap list \<Rightarrow> u64" where
  "local_memory_sum [] = 0"
| "local_memory_sum (hp # hps) =
     (if heap_flags hp AND VK_MEMORY_HEAP_DEVICE_LOCAL_BIT \<noteq> 0 then heap_size hp else 0)
       + local_memory_sum hps"

text \<open>\<^verbatim>\<open>__lahar_default_scorer\<close> (lines 2266-2298). The score is an \<^verbatim>\<open>int64_t\<close>, kept as a 64-bit
  word and read with \<open>sint\<close>; \<open>- 1\<close> is the word of all ones.\<close>

definition lahar_default_scorer :: "LaharDeviceInfo \<Rightarrow> u64" where
  "lahar_default_scorer devinfo =
     (if \<not> has_graphics_queue devinfo \<or> \<not> has_present_queue devinfo then - 1
      else
        (if deviceType devinfo = VK_PHYSICAL_DEVICE_TYPE_DISCRETE_GPU then 1000
         else if deviceType devinfo = VK_PHYSICAL_DEVICE_TYPE_INTEGRATED_GPU then 100
         else 0)
        + (if present_queue_index devinfo = graphics_queue_index devinfo then 50 else 0)
        + remapped_memory (local_memory_sum (memoryHeaps devinfo)))"

text \<open>The loop over the surfaces of the registered windows (lines 3333-3338): does queue
  family \<open>j\<close> present on every one of them? It stops at the first that is not supported.\<close>

fun present_support_loop ::
  "vk_env \<Rightarrow> handle \<Rightarrow> u32 \<Rightarrow> LaharWindowState list \<Rightarrow> trace \<Rightarrow> bool \<times> trace" where
  "present_support_loop env dev j [] h = (True, h)"
| "present_support_loop env dev j (ws # wss) h =
     (let h1 = GetPhysicalDeviceSurfaceSupportKHR dev j (surface ws) # h
      in if \<not> r_vkGetPhysicalDeviceSurfaceSupportKHR env h1 then (False, h1)
         else present_support_loop env dev j wss h1)"

text \<open>The loop over the queue families (lines 3325-3348), from family \<open>j\<close> on: the last
  graphics family and the last presenting family seen, until both roles are filled.\<close>

fun queue_family_loop ::
  "vk_env \<Rightarrow> LaharWindowState list \<Rightarrow> u32 \<Rightarrow> u32 list \<Rightarrow> trace \<Rightarrow> LaharDeviceInfo
     \<Rightarrow> LaharDeviceInfo \<times> trace" where
  "queue_family_loop env wss j [] h devinfo = (devinfo, h)"
| "queue_family_loop env wss j (queueFlags # fams) h devinfo =
     (let devinfo1 = (if queueFlags AND VK_QUEUE_GRAPHICS_BIT \<noteq> 0
                      then devinfo\<lparr>graphics_queue_index := j, has_graphics_queue := True\<rparr>
                      else devinfo);
          ps = present_support_loop env (physdev devinfo1) j wss h;
          devinfo2 = (if fst ps then devinfo1\<lparr>has_present_queue := True, present_queue_index := j\<rparr>
                      else devinfo1)
      in if has_graphics_queue devinfo2 \<and> has_present_queue devinfo2 then (devinfo2, snd ps)
         else queue_family_loop env wss (j + 1) fams (snd ps) devinfo2)"

text \<open>The \<^verbatim>\<open>memcpy\<close> of at most \<^verbatim>\<open>LAHAR_MAX_DEVICE_ENTRIES\<close> entries into the fixed array.\<close>

definition copy_entries :: "'a list \<Rightarrow> 'a list \<Rightarrow> 'a list" where
  "copy_entries src dst = take LAHAR_MAX_DEVICE_ENTRIES src @ drop (length (take LAHAR_MAX_DEVICE_ENTRIES src)) dst"

text \<open>One iteration of the gathering loop (lines 3310-3369). Each enumeration is called twice,
  for the count and for the entries; the second call fills at most as many entries as the first
  one counted. \<^verbatim>\<open>memprops\<close>, \<^verbatim>\<open>surface_fmt_count\<close> and \<^verbatim>\<open>present_mode_count\<close> are never
  written: they stay zero.\<close>

definition gather_device_info ::
  "vk_env \<Rightarrow> Lahar \<Rightarrow> handle \<Rightarrow> trace \<Rightarrow> LaharDeviceInfo \<times> trace" where
  "gather_device_info env lahar dev h =
     (let h1 = GetPhysicalDeviceProperties dev # h;
          props = r_vkGetPhysicalDeviceProperties env h1;
          devinfo = zero_device_info\<lparr>physdev := dev, deviceType := fst props, deviceName := snd props\<rparr>;
          h2 = GetPhysicalDeviceQueueFamilyProperties dev # h1;
          queue_fam_ct = length (r_vkGetPhysicalDeviceQueueFamilyProperties env h2);
          h3 = GetPhysicalDeviceQueueFamilyProperties dev # h2;
          queue_fams = take queue_fam_ct (r_vkGetPhysicalDeviceQueueFamilyProperties env h3);
          q = queue_family_loop env (windows lahar) 0 queue_fams h3 devinfo
      in case windows lahar of
           [] \<Rightarrow> q
         | w0 # _ \<Rightarrow>
             let h4 = GetPhysicalDeviceSurfaceFormatsKHR dev (surface w0) # snd q;
                 format_ct = length (r_vkGetPhysicalDeviceSurfaceFormatsKHR env h4);
                 h5 = GetPhysicalDeviceSurfacePresentModesKHR dev (surface w0) # h4;
                 present_ct = length (r_vkGetPhysicalDeviceSurfacePresentModesKHR env h5);
                 h6 = GetPhysicalDeviceSurfaceFormatsKHR dev (surface w0) # h5;
                 formats = take format_ct (r_vkGetPhysicalDeviceSurfaceFormatsKHR env h6);
                 h7 = GetPhysicalDeviceSurfacePresentModesKHR dev (surface w0) # h6;
                 modes = take present_ct (r_vkGetPhysicalDeviceSurfacePresentModesKHR env h7)
             in ((fst q)\<lparr> surface_formats := copy_entries formats (surface_formats (fst q)),
                         present_modes := copy_entries modes (present_modes (fst q)) \<rparr>, h7))"

fun gather_device_infos ::
  "vk_env \<Rightarrow> Lahar \<Rightarrow> handle list \<Rightarrow> trace \<Rightarrow> LaharDeviceInfo list \<times> trace" where
  "gather_device_infos env lahar [] h = ([], h)"
| "gather_device_infos env lahar (dev # devs) h =
     (let g = gather_device_info env lahar dev h;
          rest = gather_device_infos env lahar devs (snd g)
      in (fst g # fst rest, snd rest))"

text \<open>The scoring loop (lines 3372-3374): the user's scoring function when one is set (its
  answers come from the environment), the default scorer otherwise.\<close>

fun score_devices :: "vk_env \<Rightarrow> handle \<Rightarrow> LaharDeviceInfo list \<Rightarrow> trace \<Rightarrow> u64 list \<times> trace" where
  "score_devices env scorer [] h = ([], h)"
| "score_devices env scorer (d # ds) h =
     (if scorer \<noteq> 0 then
        (let h1 = ScoreFunc scorer (physdev d) # h;
             rest = score_devices env scorer ds h1
         in (r_score_func env h1 # fst rest, snd rest))
      else
        (let rest = score_devices env scorer ds h
         in (lahar_default_scorer d # fst rest, snd rest)))"

text \<open>The selection loop (lines 3377-3382), from index \<open>i\<close> on: \<open>best_dev\<close> is \<open>None\<close> for
  \<open>-1\<close>; \<open>best_score\<close> starts at \<open>-1\<close>; the comparison is signed and strict.\<close>

fun select_best :: "u64 list \<Rightarrow> nat \<Rightarrow> nat option \<Rightarrow> u64 \<Rightarrow> nat option" where
  "select_best [] i best_dev best_score = best_dev"
| "select_best (s # ss) i best_dev best_score =
     (if sint s > sint best_score then select_best ss (Suc i) (Some i) s
      else select_best ss (Suc i) best_dev best_score)"

text \<open>\<^verbatim>\<open>__lahar_build_physdev\<close> (lines 3284-3412). \<^verbatim>\<open>lahar->device_name\<close> is not read
  anywhere in it.\<close>

definition lahar_build_physdev :: "vk_env \<Rightarrow> trace \<Rightarrow> Lahar \<Rightarrow> lahar_result" where
  "lahar_build_physdev env h lahar =
     (let h1 = EnumeratePhysicalDevices # h;
          r1 = r_vkEnumeratePhysicalDevices env h1;
          lahar1 = lahar\<lparr>vkresult := fst r1\<rparr>
      in if fst r1 \<noteq> VK_SUCCESS then Some (LAHAR_ERR_VK_ERR, h1, lahar1)
         else
           let h2 = EnumeratePhysicalDevices # h1;
               r2 = r_vkEnumeratePhysicalDevices env h2;
               lahar2 = lahar1\<lparr>vkresult := fst r2\<rparr>
           in if fst r2 \<noteq> VK_SUCCESS then Some (LAHAR_ERR_VK_ERR, h2, lahar2)
              else
                let devices = take (length (snd r1)) (snd r2);
                    g = gather_device_infos env lahar2 devices h2;
                    sc = score_devices env (score_func lahar2) (fst g) (snd g)
                in case select_best (fst sc) 0 None (- 1) of
                     None \<Rightarrow> Some (LAHAR_ERR_NO_SUITABLE_DEVICE, snd sc, lahar2)
                   | Some best_dev \<Rightarrow>
                       Some (LAHAR_ERR_SUCCESS,
                             (if wantvalidation lahar2
                              then DebugMessage (''Selected Device: '' @ deviceName (fst g ! best_dev)) # snd sc
                              else snd sc),
                             lahar2\<lparr>physdev_info := fst g ! best_dev\<rparr>))"

section \<open>Build: logical device, swapchains, synchronisation\<close>

text \<open>
  \<^verbatim>\<open>__lahar_build_device\<close> (lines 3414-3496). The only device extension enabled is the
  swapchain extension; neither extension list of the registry is read and no granted flag is
  written. When \<^verbatim>\<open>vkCreateDevice\<close> fails the code jumps to \<^verbatim>\<open>end\<close> with \<^verbatim>\<open>err\<close> still 0.
  \<^verbatim>\<open>lahar_load_device\<close> only fills the table of entry points and returns success.
\<close>

definition lahar_build_device :: "vk_env \<Rightarrow> trace \<Rightarrow> Lahar \<Rightarrow> lahar_result" where
  "lahar_build_device env h lahar =
     (let info = physdev_info lahar;
          h1 = (if wantvalidation lahar
                then EnumerateDeviceLayerProperties (physdev info)
                       # EnumerateDeviceLayerProperties (physdev info) # h
                else h);
          has_dbg_layer = (wantvalidation lahar
                           \<and> dbg_layer_name \<in> set (r_vkEnumerateDeviceLayerProperties env h1));
          queue_create_count = (if graphics_queue_index info = present_queue_index info then 1 else 2);
          h2 = CreateDevice (physdev info) queue_create_count has_dbg_layer # h1;
          r2 = r_vkCreateDevice env h2;
          lahar2 = lahar\<lparr>vkresult := fst r2, device := written (snd r2) (device lahar)\<rparr>
      in if fst r2 \<noteq> VK_SUCCESS then Some (LAHAR_ERR_SUCCESS, h2, lahar2)
         else
           let h3 = GetDeviceQueue (graphics_queue_index info) # h2;
               h4 = GetDeviceQueue (present_queue_index info) # h3;
               lahar4 = lahar2\<lparr>graphicsQueue := r_vkGetDeviceQueue env h3,
                                presentQueue := r_vkGetDeviceQueue env h4\<rparr>
           in if wantcommands lahar4 then
                (let h5 = CreateCommandPool (graphics_queue_index info) # h4;
                     r5 = r_vkCreateCommandPool env h5;
                     lahar5 = lahar4\<lparr>vkresult := fst r5, pool := written (snd r5) (pool lahar4)\<rparr>
                 in if fst r5 \<noteq> VK_SUCCESS then Some (LAHAR_ERR_VK_ERR, h5, lahar5)
                    else Some (LAHAR_ERR_SUCCESS, h5, lahar5))
              else Some (LAHAR_ERR_SUCCESS, h4, lahar4))"

text \<open>
  The body of the loop of \<^verbatim>\<open>__lahar_build_swapchain\<close> for window \<open>wi\<close> (lines 3512-3686):
  the create-info, the swapchain, fresh zeroed attachment rows of \<^verbatim>\<open>swap_size\<close> entries, the
  colour views, the check for an allocator (line 3630), the extra attachments, and the
  command buffers when they were requested.
\<close>

definition build_swapchain_window :: "vk_env \<Rightarrow> nat \<Rightarrow> trace \<Rightarrow> Lahar \<Rightarrow> step" where
  "build_swapchain_window env wi h lahar =
     (case swapchain_prepare False env wi h lahar of
        None \<Rightarrow> None
      | Some (Inl e) \<Rightarrow> Some (Inl e)
      | Some (Inr (create_info, h1, lahar1)) \<Rightarrow>
          let h2 = CreateSwapchainKHR create_info # h1;
              r2 = r_vkCreateSwapchainKHR env h2;
              ws1 = windows lahar1 ! wi;
              lahar2 = (set_window_state lahar1 wi
                          (ws1\<lparr>swapchain := written (snd r2) (swapchain ws1)\<rparr>))\<lparr>vkresult := fst r2\<rparr>
          in if fst r2 \<noteq> VK_SUCCESS then Some (Inl (LAHAR_ERR_VK_ERR, h2, lahar2))
             else
               let ws2 = windows lahar2 ! wi;
                   h3 = GetSwapchainImagesKHR (swapchain ws2) # h2;
                   count :: u32 = of_nat (length (r_vkGetSwapchainImagesKHR env h3));
                   ws3 = ws2\<lparr> swap_size := count,
                              attachments := replicate (unat (attachment_count ws2))
                                               (replicate (unat count) zero_attachment) \<rparr>;
                   h4 = GetSwapchainImagesKHR (swapchain ws2) # h3;
                   swap_imgs = take (unat count) (r_vkGetSwapchainImagesKHR env h4);
                   lahar4 = set_window_state lahar2 wi (ws3\<lparr>swap_size := of_nat (length swap_imgs)\<rparr>)
               in case create_color_views False env wi swap_imgs 0
                         (unat (swap_size (windows lahar4 ! wi))) h4 lahar4 of
                    None \<Rightarrow> None
                  | Some (Inl e) \<Rightarrow> Some (Inl e)
                  | Some (Inr (h5, lahar5)) \<Rightarrow>
                      let ws5 = windows lahar5 ! wi in
                      if attachment_count ws5 > 1 \<and> gpu_allocator lahar5 = 0
                      then Some (Inl (LAHAR_ERR_INVALID_CONFIGURATION, h5, lahar5))
                      else case alloc_attachments False env wi 1 (unat (attachment_count ws5) - 1)
                                  h5 lahar5 of
                        None \<Rightarrow> None
                      | Some (Inl e) \<Rightarrow> Some (Inl e)
                      | Some (Inr (h6, lahar6)) \<Rightarrow>
                          if wantcommands lahar6 then
                            (let ws6 = windows lahar6 ! wi;
                                 h7 = AllocateCommandBuffers (pool lahar6) (swap_size ws6) # h6;
                                 r7 = r_vkAllocateCommandBuffers env h7;
                                 lahar7 = (set_window_state lahar6 wi
                                             (ws6\<lparr>commands := take (unat (swap_size ws6)) (snd r7)\<rparr>))
                                            \<lparr>vkresult := fst r7\<rparr>
                             in if fst r7 \<noteq> VK_SUCCESS then Some (Inl (LAHAR_ERR_VK_ERR, h7, lahar7))
                                else Some (Inr (h7, lahar7)))
                          else Some (Inr (h6, lahar6)))"

text \<open>\<^verbatim>\<open>__lahar_build_swapchain\<close> (lines 3498-3692), compiled without VMA: the windows in
  order, from \<open>wi\<close> on, stopping at the first failure.\<close>

fun build_swapchain_loop :: "vk_env \<Rightarrow> nat \<Rightarrow> nat \<Rightarrow> trace \<Rightarrow> Lahar \<Rightarrow> lahar_result" where
  "build_swapchain_loop env wi 0 h lahar = Some (LAHAR_ERR_SUCCESS, h, lahar)"
| "build_swapchain_loop env wi (Suc n) h lahar =
     (case build_swapchain_window env wi h lahar of
        None \<Rightarrow> None
      | Some (Inl e) \<Rightarrow> Some e
      | Some (Inr (h1, lahar1)) \<Rightarrow> build_swapchain_loop env (Suc wi) n h1 lahar1)"

definition lahar_build_swapchain :: "vk_env \<Rightarrow> trace \<Rightarrow> Lahar \<Rightarrow> lahar_result" where
  "lahar_build_swapchain env h lahar = build_swapchain_loop env 0 (length (windows lahar)) h lahar"

text \<open>\<^verbatim>\<open>__lahar_build_sync\<close> (lines 3694-3729): for each window \<^verbatim>\<open>max_in_flight\<close> pairs of
  semaphores and a fence. The three arrays are allocated with \<^verbatim>\<open>max_in_flight\<close> entries; the
  model appends the entries as they are created.\<close>

fun build_sync_slots :: "vk_env \<Rightarrow> nat \<Rightarrow> nat \<Rightarrow> trace \<Rightarrow> Lahar \<Rightarrow> u32 \<times> trace \<times> Lahar" where
  "build_sync_slots env wi 0 h lahar = (LAHAR_ERR_SUCCESS, h, lahar)"
| "build_sync_slots env wi (Suc n) h lahar =
     (let ws = windows lahar ! wi;
          h1 = CreateSemaphore # h;
          r1 = r_vkCreateSemaphore env h1;
          lahar1 = (set_window_state lahar wi
                      (ws\<lparr>image_available := image_available ws @ [written (snd r1) 0]\<rparr>))
                     \<lparr>vkresult := fst r1\<rparr>
      in if fst r1 \<noteq> VK_SUCCESS then (LAHAR_ERR_VK_ERR, h1, lahar1)
         else
           let ws1 = windows lahar1 ! wi;
               h2 = CreateSemaphore # h1;
               r2 = r_vkCreateSemaphore env h2;
               lahar2 = (set_window_state lahar1 wi
                           (ws1\<lparr>render_finished := render_finished ws1 @ [written (snd r2) 0]\<rparr>))
                          \<lparr>vkresult := fst r2\<rparr>
           in if fst r2 \<noteq> VK_SUCCESS then (LAHAR_ERR_VK_ERR, h2, lahar2)
              else
                let ws2 = windows lahar2 ! wi;
                    h3 = CreateFence # h2;
                    r3 = r_vkCreateFence env h3;
                    lahar3 = (set_window_state lahar2 wi
                                (ws2\<lparr>in_flight := in_flight ws2 @ [written (snd r3) 0]\<rparr>))
                               \<lparr>vkresult := fst r3\<rparr>
                in if fst r3 \<noteq> VK_SUCCESS then (LAHAR_ERR_VK_ERR, h3, lahar3)
                   else build_sync_slots env wi n h3 lahar3)"

fun build_sync_loop :: "vk_env \<Rightarrow> nat \<Rightarrow> nat \<Rightarrow> trace \<Rightarrow> Lahar \<Rightarrow> u32 \<times> trace \<times> Lahar" where
  "build_sync_loop env wi 0 h lahar = (LAHAR_ERR_SUCCESS, h, lahar)"
| "build_sync_loop env wi (Suc n) h lahar =
     (let ws = windows lahar ! wi;
          lahar0 = set_window_state lahar wi
                     (ws\<lparr>image_available := [], render_finished := [], in_flight := []\<rparr>);
          r = build_sync_slots env wi (unat (max_in_flight ws)) h lahar0
      in if fst r \<noteq> 0 then r
         else build_sync_loop env (Suc wi) n (fst (snd r)) (snd (snd r)))"

definition lahar_build_sync :: "vk_env \<Rightarrow> trace \<Rightarrow> Lahar \<Rightarrow> lahar_result" where
  "lahar_build_sync env h lahar = Some (build_sync_loop env 0 (length (windows lahar)) h lahar)"

text \<open>\<^verbatim>\<open>lahar_deinit\<close> (lines 2917-3070) waits for the device, destroys what was created and
  ends with \<^verbatim>\<open>memset(lahar, 0, sizeof(*lahar))\<close>. Only the wait, one event for the teardown and
  the zeroed environment are kept here.\<close>

definition lahar_deinit :: "trace \<Rightarrow> Lahar \<Rightarrow> trace \<times> Lahar" where
  "lahar_deinit h lahar = (Destroy # DeviceWaitIdle # h, zero_lahar)"

text \<open>\<^verbatim>\<open>lahar_build\<close> (lines 3731-3748): the seven stages in order, up to the first that returns
  a non-zero code; after a failure the environment is torn down. \<open>build_before_sync\<close> is the
  chain of the first six, up to the point where \<^verbatim>\<open>__lahar_build_sync\<close> would be called.\<close>

definition build_stage ::
  "(trace \<Rightarrow> Lahar \<Rightarrow> lahar_result) \<Rightarrow> lahar_result \<Rightarrow> lahar_result" where
  "build_stage f r =
     (case r of
        None \<Rightarrow> None
      | Some (err, h, lahar) \<Rightarrow> if err \<noteq> 0 then Some (err, h, lahar) else f h lahar)"

definition build_before_sync :: "vk_env \<Rightarrow> trace \<Rightarrow> Lahar \<Rightarrow> lahar_result" where
  "build_before_sync env h lahar =
     build_stage (lahar_build_swapchain env)
       (build_stage (lahar_build_device env)
         (build_stage (lahar_build_physdev env)
           (build_stage (lahar_build_early_surface env)
             (build_stage (lahar_build_instance env)
               (lahar_build_inst_extensions env h lahar)))))"

definition lahar_build :: "vk_env \<Rightarrow> trace \<Rightarrow> Lahar \<Rightarrow> lahar_result" where
  "lahar_build env h lahar =
     (case build_stage (lahar_build_sync env) (build_before_sync env h lahar) of
        None \<Rightarrow> None
      | Some (err, h1, lahar1) \<Rightarrow>
          if err \<noteq> 0 then Some (err, fst (lahar_deinit h1 lahar1), snd (lahar_deinit h1 lahar1))
          else Some (err, h1, lahar1))"
section \<open>Concrete inputs\<close>

text \<open>An environment in which every call succeeds: one discrete GPU named "GPU A" with one
  queue family that does graphics and presents, two swapchain images. Then the environment
  value that \<^verbatim>\<open>lahar_build\<close> leaves there for one window registered with the colour
  profile.\<close>

definition quiet_env :: vk_env where
  "quiet_env =
     \<lparr> r_vkWaitForFences = (\<lambda>_. 0),
       r_vkAcquireNextImageKHR = (\<lambda>_. (0, Some 1)),
       r_vkQueueSubmit = (\<lambda>_. 0),
       r_vkQueuePresentKHR = (\<lambda>_. 0),
       r_vkGetPhysicalDeviceSurfaceCapabilitiesKHR = (\<lambda>_. (0,
          \<lparr> caps_minImageCount = 2, caps_maxImageCount = 8,
            caps_minImageExtent_width = 1, caps_minImageExtent_height = 1,
            caps_maxImageExtent_width = 4096, caps_maxImageExtent_height = 4096,
            caps_currentTransform = 1 \<rparr>)),
       r_format_chooser = (\<lambda>_. (0, None)),
       r_present_chooser = (\<lambda>_. (0, None)),
       r_lahar_window_get_size = (\<lambda>_. (0, 800, 600)),
       r_vkCreateSwapchainKHR = (\<lambda>_. (0, Some 11)),
       r_vkGetSwapchainImagesKHR = (\<lambda>_. [30, 31]),
       r_vkCreateImageView = (\<lambda>_. (0, Some 40)),
       r_alloc_image = (\<lambda>_. (0, Some 50, Some 51)),
       r_vkAllocateCommandBuffers = (\<lambda>_. (0, [60, 61])),
       r_resize_callback = (\<lambda>_ l. (0, l)),
       r_vkCreateSemaphore = (\<lambda>_. (0, Some 20)),
       r_vkCreateFence = (\<lambda>_. (0, Some 24)),
       r_lahar_window_get_extensions = (\<lambda>_. (0, [''VK_KHR_surface''])),
       r_vkEnumerateInstanceExtensionProperties = (\<lambda>_. (0, [''VK_KHR_surface''])),
       r_vkEnumerateInstanceLayerProperties = (\<lambda>_. (0, [])),
       r_vkCreateInstance = (\<lambda>_. (0, Some 2)),
       r_vkEnumerateInstanceVersion = (\<lambda>_. Some (0, Some 4206592)),
       r_vkCreateDebugUtilsMessengerEXT = (\<lambda>_. (0, Some 3)),
       r_lahar_window_surface_create = (\<lambda>_. (0, Some 10)),
       r_vkEnumeratePhysicalDevices = (\<lambda>_. (0, [5])),
       r_vkGetPhysicalDeviceProperties = (\<lambda>_. (2, ''GPU A'')),
       r_vkGetPhysicalDeviceQueueFamilyProperties = (\<lambda>_. [1]),
       r_vkGetPhysicalDeviceSurfaceSupportKHR = (\<lambda>_. True),
       r_vkGetPhysicalDeviceSurfaceFormatsKHR = (\<lambda>_. [\<lparr>format = 50, colorSpace = 0\<rparr>]),
       r_vkGetPhysicalDeviceSurfacePresentModesKHR = (\<lambda>_. [2]),
       r_score_func = (\<lambda>_. 0),
       r_vkEnumerateDeviceLayerProperties = (\<lambda>_. []),
       r_vkCreateDevice = (\<lambda>_. (0, Some 6)),
       r_vkGetDeviceQueue = (\<lambda>_. 7),
       r_vkCreateCommandPool = (\<lambda>_. (0, Some 8)),
       r_lahar_malloc = (\<lambda>_. True) \<rparr>"

definition demo_window_state :: LaharWindowState where
  "demo_window_state =
     \<lparr> window = 1, width = 800, height = 600, desired_img_count = 2, max_in_flight = 2,
       frame_phase = LAHAR_FRAME_PHASE_BEGIN, alpha = 0, auto_recreate_swap = True,
       resize_callback = 0, surface_format = \<lparr>format = 50, colorSpace = 0\<rparr>,
       surface = 10, swapchain = 11, swap_size = 2,
       image_available = [20, 20], render_finished = [20, 20], in_flight = [24, 24],
       flight_index = 0, frame_index = 0, attachment_count = 1,
       attachment_configs =
         [\<lparr>usage = 0,
           img_info = \<lparr>img_sType = 0, extent_width = 0, extent_height = 0, extent_depth = 0\<rparr>,
           view_info_image = 0\<rparr>],
       attachments =
         [[\<lparr>img_allocation = 0, image_h = 30, view = 40, layout = 0\<rparr>,
           \<lparr>img_allocation = 0, image_h = 31, view = 40, layout = 0\<rparr>]],
       commands = [] \<rparr>"

definition demo_lahar :: Lahar where
  "demo_lahar =
     \<lparr> vkresult = 0, vkversion = 4206592, appversion = 0, wantvalidation = False,
       wantcommands = False, debug_callback = 0, user_data = 0, gpu_allocator = 0,
       device_name = None, score_func = 0, format_chooser = 0, present_chooser = 0,
       instance_h = 2, debug_messenger = 0,
       physdev_info =
         \<lparr> physdev = 5, deviceType = 2, deviceName = ''GPU A'', memoryHeaps = [],
           surface_formats = \<lparr>format = 50, colorSpace = 0\<rparr>
             # replicate 15 \<lparr>format = 0, colorSpace = 0\<rparr>,
           present_modes = 2 # replicate 15 0,
           surface_fmt_count = 0, present_mode_count = 0,
           graphics_queue_index = 0, present_queue_index = 0,
           has_graphics_queue = True, has_present_queue = True \<rparr>,
       device = 6, graphicsQueue = 7, presentQueue = 7, pool = 0,
       windows = [demo_window_state], window_cap = 10,
       extensions =
         \<lparr> req_inst_exts = [], rie_cap = 0, req_dev_exts = [], rde_cap = 0,
           opt_inst_exts = [], opt_inst_exts_present = [], oie_cap = 0,
           opt_dev_exts = [], opt_dev_exts_present = [], ode_cap = 0 \<rparr> \<rparr>"

definition demo_lahar_phase :: "LaharFramePhase \<Rightarrow> Lahar" where
  "demo_lahar_phase p = demo_lahar\<lparr>windows := [demo_window_state\<lparr>frame_phase := p\<rparr>]\<rparr>"

definition demo_barrier :: vk_call where
  "demo_barrier =
     CmdPipelineBarrier 60 VK_PIPELINE_STAGE_TOP_OF_PIPE_BIT VK_PIPELINE_STAGE_TOP_OF_PIPE_BIT
       \<lparr> srcAccessMask = 0, dstAccessMask = 0, oldLayout = VK_IMAGE_LAYOUT_UNDEFINED,
         newLayout = VK_IMAGE_LAYOUT_COLOR_ATTACHMENT_OPTIMAL, barrier_image = 30,
         aspectMask = VK_IMAGE_ASPECT_COLOR_BIT \<rparr>"

definition demo_lahar_color :: Lahar where
  "demo_lahar_color =
     set_window_state demo_lahar 0
       (demo_window_state\<lparr>attachments :=
          [[\<lparr>img_allocation = 0, image_h = 30, view = 40,
             layout = VK_IMAGE_LAYOUT_COLOR_ATTACHMENT_OPTIMAL\<rparr>,
            \<lparr>img_allocation = 0, image_h = 31, view = 40, layout = 0\<rparr>]]\<rparr>)"

text \<open>One window with the colour profile, registered on a zeroed environment.\<close>

definition demo_registered :: Lahar where
  "demo_registered =
     zero_lahar\<lparr> window_cap := 10,
       windows := [zero_window_state
         \<lparr> window := 1, width := 800, height := 600, desired_img_count := 2, max_in_flight := 2,
           auto_recreate_swap := True, attachment_count := 1,
           attachment_configs := [zero_attachment_config], attachments := [[]] \<rparr>] \<rparr>"

section \<open>Results of a call, and the inputs of the build examples\<close>

definition result_code :: "lahar_result \<Rightarrow> u32 option" where
  "result_code r = map_option fst r"

definition result_state :: "lahar_result \<Rightarrow> Lahar option" where
  "result_state r = map_option (\<lambda>x. snd (snd x)) r"

text \<open>The registered window of \<open>demo_registered\<close> with the device "GPU B" pinned.\<close>

definition demo_pinned :: Lahar where
  "demo_pinned = demo_registered\<lparr>device_name := Some ''GPU B''\<rparr>"

text \<open>One window registered with the colour-and-depth profile, no allocator; and the built
  environment \<open>demo_lahar\<close> with a second attachment row on its window, still without an
  allocator.\<close>

definition demo_registered_depth :: Lahar where
  "demo_registered_depth =
     zero_lahar\<lparr> window_cap := 10,
       windows := [zero_window_state
         \<lparr> window := 1, width := 800, height := 600, desired_img_count := 2, max_in_flight := 2,
           auto_recreate_swap := True, attachment_count := 2,
           attachment_configs := [zero_attachment_config, depth_attachment_config],
           attachments := [[], []] \<rparr>] \<rparr>"

definition demo_lahar_depth :: Lahar where
  "demo_lahar_depth =
     set_window_state demo_lahar 0
       (demo_window_state\<lparr> attachment_count := 2,
          attachment_configs := [zero_attachment_config, depth_attachment_config],
          attachments :=
            [[\<lparr>img_allocation = 0, image_h = 30, view = 40, layout = 0\<rparr>,
              \<lparr>img_allocation = 0, image_h = 31, view = 40, layout = 0\<rparr>],
             [\<lparr>img_allocation = 51, image_h = 50, view = 40, layout = 0\<rparr>,
              \<lparr>img_allocation = 51, image_h = 50, view = 40, layout = 0\<rparr>]] \<rparr>)"

text \<open>The optional flags as \<^verbatim>\<open>lahar_builder_extension_add_optional_device\<close> leaves them:
  one per name, all false.\<close>

definition registry_flags_clear :: "LaharExtensions \<Rightarrow> bool" where
  "registry_flags_clear exts \<longleftrightarrow>
     opt_dev_exts_present exts = replicate (length (opt_dev_exts exts)) False"

text \<open>A registry with "VK_KHR_maintenance1" in both device lists, "VK_KHR_multiview" only
  required and "VK_EXT_memory_budget" only optional; then the environment that the build
  leaves for it.\<close>

definition demo_ext :: string where
  "demo_ext = ''VK_KHR_maintenance1''"

definition demo_both_lists :: Lahar where
  "demo_both_lists =
     demo_registered\<lparr>extensions :=
       \<lparr> req_inst_exts = [], rie_cap = 0,
         req_dev_exts = [demo_ext, ''VK_KHR_multiview''], rde_cap = 10,
         opt_inst_exts = [], opt_inst_exts_present = [], oie_cap = 0,
         opt_dev_exts = [demo_ext, ''VK_EXT_memory_budget''],
         opt_dev_exts_present = [False, False], ode_cap = 10 \<rparr>\<rparr>"

definition demo_built_both :: Lahar where
  "demo_built_both = demo_lahar\<lparr>extensions := extensions demo_both_lists\<rparr>"

text \<open>The configuration of the colour profile, which leaves both counts unset; the built
  environment \<open>demo_lahar\<close> with the image count of its window set back to 0; and the
  create-info that the swapchain paths prepare for it.\<close>

definition demo_config :: LaharWindowConfig where
  "demo_config =
     \<lparr> cfg_attachment_count = 1, cfg_attachments = [zero_attachment_config],
       cfg_desired_swap_size = 0, cfg_max_in_flight = 0, cfg_alpha = 0,
       cfg_no_auto_swap_resize = False \<rparr>"

definition demo_zero_count :: Lahar where
  "demo_zero_count = set_window_state demo_lahar 0 (demo_window_state\<lparr>desired_img_count := 0\<rparr>)"

definition demo_create_info :: VkSwapchainCreateInfoKHR where
  "demo_create_info =
     \<lparr> ci_surface = 10, ci_minImageCount = 2, ci_imageFormat = 50, ci_imageColorSpace = 0,
       ci_imageExtent_width = 800, ci_imageExtent_height = 600, ci_imageUsage = 16,
       ci_imageSharingMode = 0, ci_queueFamilyIndexCount = 0, ci_pQueueFamilyIndices = [0, 0],
       ci_preTransform = 1, ci_compositeAlpha = 1, ci_presentMode = 2 \<rparr>"





section \<open>Unfolding rules for the constants\<close>

lemmas lahar_err_defs =
  LAHAR_ERR_SUCCESS_def LAHAR_ERR_ILLEGAL_PARAMS_def LAHAR_ERR_LOAD_FAILURE_def
  LAHAR_ERR_INVALID_CONFIGURATION_def LAHAR_ERR_MISSING_EXTENSION_def
  LAHAR_ERR_NO_SUITABLE_DEVICE_def LAHAR_ERR_DEPENDENCY_FAILED_def LAHAR_ERR_ALLOC_FAILED_def
  LAHAR_ERR_INVALID_STATE_def LAHAR_ERR_VK_ERR_def LAHAR_ERR_INVALID_WINDOW_def
  LAHAR_ERR_NO_COMMAND_BUFFER_def LAHAR_ERR_TIMEOUT_def LAHAR_ERR_SWAPCHAIN_OUT_OF_DATE_def
  LAHAR_ERR_INVALID_FRAME_STATE_def LAHAR_ERR_ATTACHMENT_WO_ALLOCATOR_def

lemmas vk_layout_defs =
  VK_IMAGE_LAYOUT_UNDEFINED_def VK_IMAGE_LAYOUT_COLOR_ATTACHMENT_OPTIMAL_def
  VK_IMAGE_LAYOUT_DEPTH_STENCIL_ATTACHMENT_OPTIMAL_def
  VK_IMAGE_LAYOUT_SHADER_READ_ONLY_OPTIMAL_def VK_IMAGE_LAYOUT_TRANSFER_SRC_OPTIMAL_def
  VK_IMAGE_LAYOUT_TRANSFER_DST_OPTIMAL_def VK_IMAGE_LAYOUT_PRESENT_SRC_KHR_def

lemmas vk_access_defs =
  VK_ACCESS_SHADER_READ_BIT_def VK_ACCESS_COLOR_ATTACHMENT_READ_BIT_def
  VK_ACCESS_COLOR_ATTACHMENT_WRITE_BIT_def VK_ACCESS_DEPTH_STENCIL_ATTACHMENT_READ_BIT_def
  VK_ACCESS_DEPTH_STENCIL_ATTACHMENT_WRITE_BIT_def VK_ACCESS_TRANSFER_READ_BIT_def
  VK_ACCESS_TRANSFER_WRITE_BIT_def

lemmas vk_stage_defs =
  VK_PIPELINE_STAGE_TOP_OF_PIPE_BIT_def VK_PIPELINE_STAGE_FRAGMENT_SHADER_BIT_def
  VK_PIPELINE_STAGE_EARLY_FRAGMENT_TESTS_BIT_def VK_PIPELINE_STAGE_LATE_FRAGMENT_TESTS_BIT_def
  VK_PIPELINE_STAGE_COLOR_ATTACHMENT_OUTPUT_BIT_def VK_PIPELINE_STAGE_TRANSFER_BIT_def
  VK_PIPELINE_STAGE_BOTTOM_OF_PIPE_BIT_def VK_PIPELINE_STAGE_ALL_COMMANDS_BIT_def

section \<open>Window lookup: basic facts\<close>

lemma window_state_index_SomeD:
  "window_state_index ws w = Some i \<Longrightarrow> i < length ws \<and> window (ws ! i) = w"
  by (induction ws arbitrary: i) (auto split: if_splits)

lemma window_state_index_update:
  "i < length ws \<Longrightarrow> window s = window (ws ! i) \<Longrightarrow>
   window_state_index (ws[i := s]) w = window_state_index ws w"
proof (induction ws arbitrary: i)
  case Nil
  then show ?case by simp
next
  case (Cons a ws)
  then show ?case by (cases i) simp_all
qed

lemma lahar_window_state_Some:
  "lahar_window_state lahar w = Some ws \<longleftrightarrow>
     (\<exists>i. window_state_index (windows lahar) w = Some i \<and> ws = windows lahar ! i)"
  by (auto simp: lahar_window_state_def)

lemma demo_lahar_window:
  "lahar_window_state (demo_lahar_phase p) 1 = Some (demo_window_state\<lparr>frame_phase := p\<rparr>)"
  by (simp add: lahar_window_state_def demo_lahar_phase_def demo_lahar_def demo_window_state_def)

section \<open>Attachment transitions\<close>

text \<open>
  C3. A transition whose target differs from the recorded layout is claimed to record a barrier
  whose source access mask and stage come from the old layout and whose destination access mask
  and stage come from the new one. The code looks the old layout up for all four. Here the
  built window's first colour attachment goes from UNDEFINED to COLOR_ATTACHMENT_OPTIMAL: the
  recorded barrier has destination access mask 0 and destination stage TOP_OF_PIPE, where the
  tables give 0x180 and COLOR_ATTACHMENT_OUTPUT for the new layout.
\<close>

lemma demo_transition:
  "lahar_window_attachment_transition [] demo_lahar 1 0 VK_IMAGE_LAYOUT_COLOR_ATTACHMENT_OPTIMAL 60
     = Some (LAHAR_ERR_SUCCESS, [demo_barrier], demo_lahar_color)"
  by (simp add: lahar_window_attachment_transition_def demo_lahar_def demo_window_state_def
      demo_barrier_def demo_lahar_color_def
      transition_barrier_def transition_srcStage_def transition_dstStage_def
      lahar_access_mask_def lahar_pipeline_stage_def lahar_aspect_mask_from_usage_def
      vk_layout_defs vk_access_defs vk_stage_defs VK_IMAGE_ASPECT_COLOR_BIT_def
      VK_IMAGE_USAGE_DEPTH_STENCIL_ATTACHMENT_BIT_def LAHAR_ERR_SUCCESS_def set_window_state_def)

theorem transition_dst_uses_old_layout:
  "lahar_window_attachment_transition [] demo_lahar 1 0 VK_IMAGE_LAYOUT_COLOR_ATTACHMENT_OPTIMAL 60
     = Some (LAHAR_ERR_SUCCESS,
         [CmdPipelineBarrier 60 VK_PIPELINE_STAGE_TOP_OF_PIPE_BIT VK_PIPELINE_STAGE_TOP_OF_PIPE_BIT
            \<lparr> srcAccessMask = 0, dstAccessMask = 0, oldLayout = VK_IMAGE_LAYOUT_UNDEFINED,
              newLayout = VK_IMAGE_LAYOUT_COLOR_ATTACHMENT_OPTIMAL, barrier_image = 30,
              aspectMask = VK_IMAGE_ASPECT_COLOR_BIT \<rparr>],
         demo_lahar_color)
   \<and> lahar_access_mask VK_IMAGE_LAYOUT_COLOR_ATTACHMENT_OPTIMAL = 0x180
   \<and> lahar_pipeline_stage VK_IMAGE_LAYOUT_COLOR_ATTACHMENT_OPTIMAL
        = VK_PIPELINE_STAGE_COLOR_ATTACHMENT_OUTPUT_BIT
   \<and> VK_PIPELINE_STAGE_COLOR_ATTACHMENT_OUTPUT_BIT \<noteq> VK_PIPELINE_STAGE_TOP_OF_PIPE_BIT"
  using demo_transition
  by (simp add: demo_barrier_def lahar_access_mask_def lahar_pipeline_stage_def
      vk_layout_defs vk_access_defs vk_stage_defs)

lemma transition_noop:
  assumes "w \<noteq> 0" "cmd \<noteq> 0" "window_state_index (windows lahar) w = Some i"
    and "\<not> (ucast ai :: u64) \<ge> attachment_count (windows lahar ! i)"
    and "unat ai < length (attachments (windows lahar ! i))"
    and "unat (frame_index (windows lahar ! i)) < length (attachments (windows lahar ! i) ! unat ai)"
    and "unat ai < length (attachment_configs (windows lahar ! i))"
    and "attachment_layout (windows lahar ! i) ai = l"
  shows "lahar_window_attachment_transition h lahar w ai l cmd = Some (LAHAR_ERR_SUCCESS, h, lahar)"
  using assms by (simp add: lahar_window_attachment_transition_def Let_def attachment_layout_def)

text \<open>What a successful first call does: it finds the window, leaves the recorded layout at the
  target, and records exactly one barrier (from the old layout to the target) when the two
  differed, none and no change of state when they did not.\<close>

lemma transition_first_call:
  assumes first: "lahar_window_attachment_transition h lahar w ai l cmd
                    = Some (LAHAR_ERR_SUCCESS, h1, lahar1)"
  shows "\<exists>ws ws1. lahar_window_state lahar w = Some ws \<and> lahar_window_state lahar1 w = Some ws1
           \<and> attachment_layout ws1 ai = l
           \<and> (if attachment_layout ws ai = l then h1 = h \<and> lahar1 = lahar
               else \<exists>s d b. h1 = CmdPipelineBarrier cmd s d b # h
                      \<and> oldLayout b = attachment_layout ws ai \<and> newLayout b = l)"
proof -
  have ne: "LAHAR_ERR_ILLEGAL_PARAMS \<noteq> LAHAR_ERR_SUCCESS" "LAHAR_ERR_INVALID_WINDOW \<noteq> LAHAR_ERR_SUCCESS"
    by (simp_all add: lahar_err_defs)
  from first ne have nz: "w \<noteq> 0" "cmd \<noteq> 0"
    by (auto simp: lahar_window_attachment_transition_def split: if_splits)
  from first ne nz obtain i where idx: "window_state_index (windows lahar) w = Some i"
    by (auto simp: lahar_window_attachment_transition_def split: option.splits)
  let ?ws = "windows lahar ! i"
  let ?a = "unat ai" and ?f = "unat (frame_index ?ws)"
  from idx have i: "i < length (windows lahar)" "window ?ws = w"
    using window_state_index_SomeD by blast+
  from first ne nz idx
  have rng: "\<not> (ucast ai :: u64) \<ge> attachment_count ?ws"
    "?a < length (attachments ?ws)" "?f < length (attachments ?ws ! ?a)"
    by (auto simp: lahar_window_attachment_transition_def Let_def split: if_splits)
  show ?thesis
  proof (cases "attachment_layout ?ws ai = l")
    case True
    with first nz idx rng have "h1 = h" "lahar1 = lahar"
      by (auto simp: lahar_window_attachment_transition_def Let_def attachment_layout_def
          split: if_splits)
    with True idx show ?thesis
      by (simp add: lahar_window_state_def)
  next
    case False
    let ?ws' = "?ws\<lparr>attachments := (attachments ?ws)
                  [?a := (attachments ?ws ! ?a)[?f := (attachments ?ws ! ?a ! ?f)\<lparr>layout := l\<rparr>]]\<rparr>"
    from first nz idx rng False
    have res: "lahar1 = set_window_state lahar i ?ws'"
      "h1 = CmdPipelineBarrier cmd (transition_srcStage (attachments ?ws ! ?a ! ?f) l)
              (transition_dstStage (attachments ?ws ! ?a ! ?f) l)
              (transition_barrier ?ws (attachment_configs ?ws ! ?a) (attachments ?ws ! ?a ! ?f) l) # h"
      by (auto simp: lahar_window_attachment_transition_def Let_def attachment_layout_def
          split: if_splits)
    have idx1: "window_state_index (windows lahar1) w = Some i"
      using i idx by (simp add: res set_window_state_def window_state_index_update)
    have ws1: "windows lahar1 ! i = ?ws'"
      using i by (simp add: res set_window_state_def)
    have "attachment_layout ?ws' ai = l"
      using rng by (simp add: attachment_layout_def)
    with False idx idx1 ws1 res(2) show ?thesis
      by (simp add: lahar_window_state_def transition_barrier_def attachment_layout_def)
  qed
qed

text \<open>
  C9. The transition is idempotent. Whatever the first call returned, the same call repeated
  on the state it left returns the same code, records nothing and changes nothing; and a
  successful first call recorded a barrier, and changed the recorded layout, only if the
  recorded layout differed from the target.
\<close>

theorem transition_idempotent:
  assumes first: "lahar_window_attachment_transition h lahar w ai l cmd = Some (e, h1, lahar1)"
  shows "lahar_window_attachment_transition h1 lahar1 w ai l cmd = Some (e, h1, lahar1)
         \<and> (e = LAHAR_ERR_SUCCESS \<longrightarrow>
              (\<exists>ws ws1. lahar_window_state lahar w = Some ws
                 \<and> lahar_window_state lahar1 w = Some ws1 \<and> attachment_layout ws1 ai = l
                 \<and> (if attachment_layout ws ai = l then h1 = h \<and> lahar1 = lahar
                     else \<exists>s d b. h1 = CmdPipelineBarrier cmd s d b # h
                            \<and> oldLayout b = attachment_layout ws ai \<and> newLayout b = l)))"
proof
  show "lahar_window_attachment_transition h1 lahar1 w ai l cmd = Some (e, h1, lahar1)"
  proof (cases "w = 0 \<or> cmd = 0")
    case True
    with first show ?thesis
      by (auto simp: lahar_window_attachment_transition_def)
  next
    case nz: False
    show ?thesis
    proof (cases "window_state_index (windows lahar) w")
      case None
      with first nz show ?thesis
        by (auto simp: lahar_window_attachment_transition_def)
    next
      case (Some i)
      let ?ws = "windows lahar ! i"
      let ?a = "unat ai" and ?f = "unat (frame_index ?ws)"
      from Some have i: "i < length (windows lahar)" "window ?ws = w"
        using window_state_index_SomeD by blast+
      show ?thesis
      proof (cases "(ucast ai :: u64) \<ge> attachment_count ?ws")
        case True
        with first nz Some show ?thesis
          by (auto simp: lahar_window_attachment_transition_def Let_def)
      next
        case cnt: False
        from first nz Some cnt
        have rng: "?a < length (attachments ?ws)" "?f < length (attachments ?ws ! ?a)"
          "?a < length (attachment_configs ?ws)"
          by (auto simp: lahar_window_attachment_transition_def Let_def split: if_splits)
        show ?thesis
        proof (cases "attachment_layout ?ws ai = l")
          case True
          with first nz Some cnt rng have "e = LAHAR_ERR_SUCCESS" "h1 = h" "lahar1 = lahar"
            by (auto simp: lahar_window_attachment_transition_def Let_def attachment_layout_def)
          with transition_noop[of w cmd lahar i ai l h] nz Some cnt rng True show ?thesis
            by simp
        next
          case False
          let ?ws' = "?ws\<lparr>attachments := (attachments ?ws)
                        [?a := (attachments ?ws ! ?a)[?f := (attachments ?ws ! ?a ! ?f)\<lparr>layout := l\<rparr>]]\<rparr>"
          from first nz Some cnt rng False
          have res: "e = LAHAR_ERR_SUCCESS" "lahar1 = set_window_state lahar i ?ws'"
            by (auto simp: lahar_window_attachment_transition_def Let_def attachment_layout_def)
          have idx: "window_state_index (windows lahar1) w = Some i"
            using i Some by (simp add: res set_window_state_def window_state_index_update)
          have ws1: "windows lahar1 ! i = ?ws'"
            using i by (simp add: res set_window_state_def)
          show ?thesis
            unfolding res(1)
            by (rule transition_noop[OF _ _ idx])
              (use nz cnt rng in \<open>simp_all add: ws1 attachment_layout_def\<close>)
        qed
      qed
    qed
  qed
next
  show "e = LAHAR_ERR_SUCCESS \<longrightarrow>
          (\<exists>ws ws1. lahar_window_state lahar w = Some ws
             \<and> lahar_window_state lahar1 w = Some ws1 \<and> attachment_layout ws1 ai = l
             \<and> (if attachment_layout ws ai = l then h1 = h \<and> lahar1 = lahar
                 else \<exists>s d b. h1 = CmdPipelineBarrier cmd s d b # h
                        \<and> oldLayout b = attachment_layout ws ai \<and> newLayout b = l))"
    using first transition_first_call by blast
qed

text \<open>The built window, transitioned twice to COLOR_ATTACHMENT_OPTIMAL: one barrier in all.\<close>

theorem transition_idempotent_witness:
  "lahar_window_attachment_transition [] demo_lahar 1 0 VK_IMAGE_LAYOUT_COLOR_ATTACHMENT_OPTIMAL 60
     = Some (LAHAR_ERR_SUCCESS, [demo_barrier], demo_lahar_color)
   \<and> lahar_window_attachment_transition [demo_barrier] demo_lahar_color 1 0
       VK_IMAGE_LAYOUT_COLOR_ATTACHMENT_OPTIMAL 60
     = Some (LAHAR_ERR_SUCCESS, [demo_barrier], demo_lahar_color)"
  using transition_idempotent [OF demo_transition] demo_transition by simp

section \<open>Frame state machine\<close>

text \<open>
  C4. For a registered window (a non-null handle that the lookup finds), a submit of one or
  many command buffers, that is \<^verbatim>\<open>lahar_window_submit\<close>, or \<^verbatim>\<open>lahar_window_submit_all\<close>
  with a non-null array and a non-zero count, returns INVALID_FRAME_STATE in phase BEGIN or
  PRESENT; \<^verbatim>\<open>lahar_window_present\<close> returns NO_COMMAND_BUFFER in phase DRAW and
  INVALID_FRAME_STATE in phase BEGIN. In each case nothing is called and nothing changes.
\<close>

theorem frame_phase_errors:
  assumes "w \<noteq> 0" and "lahar_window_state lahar w = Some ws"
  shows "(frame_phase ws = LAHAR_FRAME_PHASE_BEGIN \<or> frame_phase ws = LAHAR_FRAME_PHASE_PRESENT \<longrightarrow>
            lahar_window_submit env h lahar w cmd = Some (LAHAR_ERR_INVALID_FRAME_STATE, h, lahar)
          \<and> (cmds \<noteq> None \<and> cmd_count \<noteq> 0 \<longrightarrow>
               lahar_window_submit_all env h lahar w cmds cmd_count
                 = Some (LAHAR_ERR_INVALID_FRAME_STATE, h, lahar)))
       \<and> (frame_phase ws = LAHAR_FRAME_PHASE_DRAW \<longrightarrow>
            lahar_window_present env h lahar w = Some (LAHAR_ERR_NO_COMMAND_BUFFER, h, lahar))
       \<and> (frame_phase ws = LAHAR_FRAME_PHASE_BEGIN \<longrightarrow>
            lahar_window_present env h lahar w = Some (LAHAR_ERR_INVALID_FRAME_STATE, h, lahar))"
  using assms
  by (auto simp: lahar_window_state_Some lahar_window_submit_def lahar_window_submit_all_def
      lahar_window_present_def Let_def)

theorem frame_phase_errors_witness:
  "lahar_window_submit quiet_env [] (demo_lahar_phase LAHAR_FRAME_PHASE_BEGIN) 1 60
     = Some (LAHAR_ERR_INVALID_FRAME_STATE, [], demo_lahar_phase LAHAR_FRAME_PHASE_BEGIN)
   \<and> lahar_window_submit_all quiet_env [] (demo_lahar_phase LAHAR_FRAME_PHASE_PRESENT) 1
       (Some [60, 61]) 2
     = Some (LAHAR_ERR_INVALID_FRAME_STATE, [], demo_lahar_phase LAHAR_FRAME_PHASE_PRESENT)
   \<and> lahar_window_present quiet_env [] (demo_lahar_phase LAHAR_FRAME_PHASE_DRAW) 1
     = Some (LAHAR_ERR_NO_COMMAND_BUFFER, [], demo_lahar_phase LAHAR_FRAME_PHASE_DRAW)
   \<and> lahar_window_present quiet_env [] (demo_lahar_phase LAHAR_FRAME_PHASE_BEGIN) 1
     = Some (LAHAR_ERR_INVALID_FRAME_STATE, [], demo_lahar_phase LAHAR_FRAME_PHASE_BEGIN)"
proof -
  have a: "(1::handle) \<noteq> 0" by simp
  note b = demo_lahar_window
  show ?thesis
    using frame_phase_errors [OF a b [of LAHAR_FRAME_PHASE_BEGIN], of quiet_env "[]" 60 None 0]
      frame_phase_errors [OF a b [of LAHAR_FRAME_PHASE_PRESENT], of quiet_env "[]" 60
        "Some [60, 61]" 2]
      frame_phase_errors [OF a b [of LAHAR_FRAME_PHASE_DRAW], of quiet_env "[]" 60 None 0]
    by simp
qed

section \<open>Recreation leaves the frame state alone\<close>

lemma map_update_nth_same: "(map f xs)[i := f (xs ! i)] = map f xs"
proof (cases "i < length xs")
  case True
  then have "(map f xs)[i := f (xs ! i)] = (map f xs)[i := map f xs ! i]"
    by simp
  then show ?thesis
    by (simp only: list_update_id)
next
  case False
  then have "length (map f xs) \<le> i" by simp
  then show ?thesis
    by (rule list_update_beyond)
qed

lemma core_set_window_state:
  "map frame_core (windows (set_window_state lahar i ws))
     = (map frame_core (windows lahar))[i := frame_core ws]"
  by (simp add: set_window_state_def map_update)

lemma frame_core_updates:
  "frame_core (ws\<lparr>attachments := a\<rparr>) = frame_core ws"
  "frame_core (ws\<lparr>attachment_configs := c\<rparr>) = frame_core ws"
  "frame_core (ws\<lparr>surface_format := f\<rparr>) = frame_core ws"
  "frame_core (ws\<lparr>swapchain := s\<rparr>) = frame_core ws"
  "frame_core (ws\<lparr>swap_size := n\<rparr>) = frame_core ws"
  "frame_core (ws\<lparr>frame_index := k\<rparr>) = frame_core ws"
  "frame_core (normalize_img_count ws) = frame_core ws"
  by (simp_all add: frame_core_def normalize_img_count_def)

lemma core_nth_set_window_state:
  "frame_core ws = frame_core (windows lahar ! i) \<Longrightarrow>
   frame_core (windows (set_window_state lahar i ws) ! i) = frame_core (windows lahar ! i)"
  by (cases "i < length (windows lahar)") (simp_all add: set_window_state_def not_less list_update_beyond)

lemmas core_simps =
  core_set_window_state frame_core_updates map_update_nth_same core_nth_set_window_state

lemma step_state_simps [simp]:
  "step_state (Inl (e, h, l)) = l" "step_state (Inr (h, l)) = l"
  "prepare_state (Inl (e, h, l)) = l" "prepare_state (Inr (ci, h, l)) = l"
  by (simp_all add: step_state_def prepare_state_def)

lemma core_swapchain_prepare:
  assumes "swapchain_prepare r env wi h lahar = Some res"
  shows "map frame_core (windows (prepare_state res)) = map frame_core (windows lahar)"
  using assms
  by (auto simp: swapchain_prepare_def Let_def core_simps
      split: if_splits option.splits prod.splits list.splits)

lemma core_create_color_views:
  "create_color_views r env wi imgs j n h lahar = Some res \<Longrightarrow>
   map frame_core (windows (step_state res)) = map frame_core (windows lahar)"
proof (induction n arbitrary: r j h lahar res)
  case 0
  then show ?case by auto
next
  case (Suc n)
  from Suc.prems show ?case
    by (auto simp: Let_def core_simps split: if_splits option.splits list.splits dest!: Suc.IH)
qed

lemma core_alloc_attachment_row:
  "alloc_attachment_row r env wi j k n h lahar = Some res \<Longrightarrow>
   map frame_core (windows (step_state res)) = map frame_core (windows lahar)"
proof (induction n arbitrary: r k h lahar res)
  case 0
  then show ?case by auto
next
  case (Suc n)
  from Suc.prems show ?case
    by (auto simp: Let_def core_simps split: if_splits dest!: Suc.IH)
qed

lemma core_alloc_attachments:
  "alloc_attachments r env wi j n h lahar = Some res \<Longrightarrow>
   map frame_core (windows (step_state res)) = map frame_core (windows lahar)"
proof (induction n arbitrary: j h lahar res)
  case 0
  then show ?case by auto
next
  case (Suc n)
  from Suc.prems show ?case
    by (auto simp: Let_def core_simps split: if_splits option.splits sum.splits
        dest!: Suc.IH core_alloc_attachment_row)
qed


lemma core_wait_inactive:
  "lahar_window_wait_inactive env h lahar w = Some (e, h', lahar') \<Longrightarrow>
   map frame_core (windows lahar') = map frame_core (windows lahar)"
  by (auto simp: lahar_window_wait_inactive_def Let_def split: option.splits if_splits)

lemma core_resizer_swapchain:
  "resizer_swapchain env wi old ci h lahar = Some res \<Longrightarrow>
   map frame_core (windows (prepare_state res)) = map frame_core (windows lahar)"
  by (auto simp: resizer_swapchain_def Let_def core_simps prepare_state_def split: if_splits)

lemma core_resizer_attachments:
  "resizer_attachments env wi imgs h lahar = Some (e, h', lahar') \<Longrightarrow>
   map frame_core (windows lahar') = map frame_core (windows lahar)"
  by (auto simp: resizer_attachments_def Let_def
      split: option.splits sum.splits if_splits
      dest!: core_create_color_views core_alloc_attachments)

lemma core_default_resizer:
  assumes "lahar_default_resizer env h lahar w = Some (e, h', lahar')"
  shows "map frame_core (windows lahar') = map frame_core (windows lahar)"
  using assms
  by (auto simp: lahar_default_resizer_def Let_def prepare_state_def
      split: option.splits sum.splits if_splits
      dest!: core_wait_inactive core_swapchain_prepare core_resizer_swapchain
        core_resizer_attachments)


lemma window_state_index_cong:
  "map window ws = map window ws' \<Longrightarrow> window_state_index ws w = window_state_index ws' w"
proof (induction ws arbitrary: ws')
  case Nil
  then show ?case by simp
next
  case (Cons a ws)
  from Cons.prems obtain b ws'' where ws': "ws' = b # ws''"
    by (cases ws') simp_all
  with Cons.prems have hd: "window a = window b" and tl: "map window ws = map window ws''"
    by simp_all
  show ?case
    by (simp add: ws' hd Cons.IH [OF tl])
qed

lemma core_window_state_index:
  assumes "map frame_core ws = map frame_core ws'"
  shows "window_state_index ws w = window_state_index ws' w"
proof -
  have w: "map window xs = map fst (map frame_core xs)" for xs
    by (simp add: frame_core_def)
  have "map window ws = map window ws'"
    by (simp only: w assms)
  then show ?thesis
    by (rule window_state_index_cong)
qed

lemma core_swapchain_resize:
  assumes "lahar_window_swapchain_resize env h lahar w = Some (e, h', lahar')"
    and "window_state_index (windows lahar) w = Some i"
    and "resize_callback (windows lahar ! i) = 0 \<or> resize_callback_keeps_frame_state env"
  shows "map frame_core (windows lahar') = map frame_core (windows lahar)"
  using assms
  by (auto simp: lahar_window_swapchain_resize_def Let_def resize_callback_keeps_frame_state_def
      split: if_splits dest: core_default_resizer)

lemma frame_core_phase [simp]:
  "frame_core (ws\<lparr>frame_phase := p\<rparr>) = core_phase p (frame_core ws)"
  by (simp add: frame_core_def core_phase_def)

lemma frame_begin_core:
  assumes "lahar_window_frame_begin env h lahar w = Some y"
    and "window_state_index (windows lahar) w = Some i"
    and "resize_callback (windows lahar ! i) = 0 \<or> resize_callback_keeps_frame_state env"
    and "fst y = LAHAR_ERR_SUCCESS"
  shows "frame_phase (windows lahar ! i) = LAHAR_FRAME_PHASE_BEGIN \<and>
         map frame_core (windows (snd (snd y)))
           = (map frame_core (windows lahar))
               [i := core_phase LAHAR_FRAME_PHASE_DRAW (map frame_core (windows lahar) ! i)]"
proof -
  define P where "P = (\<lambda>(env :: vk_env) (h :: trace) (lahar :: Lahar) (w :: handle)
                         (y :: u32 \<times> trace \<times> Lahar).
      \<forall>i. window_state_index (windows lahar) w = Some i \<longrightarrow>
        (resize_callback (windows lahar ! i) = 0 \<or> resize_callback_keeps_frame_state env) \<longrightarrow>
        fst y = LAHAR_ERR_SUCCESS \<longrightarrow>
        frame_phase (windows lahar ! i) = LAHAR_FRAME_PHASE_BEGIN \<and>
        map frame_core (windows (snd (snd y)))
          = (map frame_core (windows lahar))
              [i := core_phase LAHAR_FRAME_PHASE_DRAW (map frame_core (windows lahar) ! i)])"
  have "P env h lahar w y"
  proof (rule lahar_window_frame_begin.raw_induct [where P = P, OF _ assms(1)], goal_cases)
    case (1 fb env h lahar w y)
    note IH = 1(1) and eq = 1(2)
    show ?case
      unfolding P_def
    proof (intro allI impI)
      fix i
      assume idx: "window_state_index (windows lahar) w = Some i"
        and cb: "resize_callback (windows lahar ! i) = 0 \<or> resize_callback_keeps_frame_state env"
        and ok: "fst y = LAHAR_ERR_SUCCESS"
      let ?ws = "windows lahar ! i"
      from idx have i: "i < length (windows lahar)" "window ?ws = w"
        using window_state_index_SomeD by blast+
      have ne: "LAHAR_ERR_ILLEGAL_PARAMS \<noteq> LAHAR_ERR_SUCCESS"
        "LAHAR_ERR_INVALID_FRAME_STATE \<noteq> LAHAR_ERR_SUCCESS"
        "LAHAR_ERR_SWAPCHAIN_OUT_OF_DATE \<noteq> LAHAR_ERR_SUCCESS"
        "LAHAR_ERR_VK_ERR \<noteq> LAHAR_ERR_SUCCESS"
        by (simp_all add: lahar_err_defs)
      from eq idx ok ne have w0: "w \<noteq> 0" and ph: "frame_phase ?ws = LAHAR_FRAME_PHASE_BEGIN"
        by (auto simp: Let_def split: if_splits)
      define h2 where "h2 = AcquireNextImageKHR (swapchain ?ws)
          (image_available ?ws ! unat (flight_index ?ws))
          # WaitForFences [in_flight ?ws ! unat (flight_index ?ws)] # h"
      define lahar1 where "lahar1 = set_window_state lahar i
          (?ws\<lparr>frame_index := written (snd (r_vkAcquireNextImageKHR env h2)) (frame_index ?ws)\<rparr>)"
      have m1: "map frame_core (windows lahar1) = map frame_core (windows lahar)"
        by (simp add: lahar1_def core_simps)
      have idx1: "window_state_index (windows lahar1) w = Some i"
        using core_window_state_index [OF m1] idx by simp
      have fc1: "frame_core (windows lahar1 ! i) = frame_core ?ws"
        using i by (simp add: lahar1_def set_window_state_def frame_core_def)
      then have cb1: "resize_callback (windows lahar1 ! i) = resize_callback ?ws"
        by (simp add: frame_core_def)
      show "frame_phase ?ws = LAHAR_FRAME_PHASE_BEGIN \<and>
            map frame_core (windows (snd (snd y)))
              = (map frame_core (windows lahar))
                  [i := core_phase LAHAR_FRAME_PHASE_DRAW (map frame_core (windows lahar) ! i)]"
      proof (cases "fst (r_vkAcquireNextImageKHR env h2) = VK_SUBOPTIMAL_KHR
                    \<or> fst (r_vkAcquireNextImageKHR env h2) = VK_ERROR_OUT_OF_DATE_KHR")
        case stale: True
        from eq idx ok ne w0 ph stale
        obtain h3 lahar2 where
          rs: "lahar_window_swapchain_resize env h2 lahar1 w = Some (0, h3, lahar2)"
          and rec: "fb env h3 lahar2 w = Some y"
          by (auto simp: Let_def h2_def lahar1_def LAHAR_ERR_SUCCESS_def
              split: if_splits option.splits)
        have cb1': "resize_callback (windows lahar1 ! i) = 0 \<or> resize_callback_keeps_frame_state env"
          using cb cb1 by simp
        have m2: "map frame_core (windows lahar2) = map frame_core (windows lahar1)"
          by (rule core_swapchain_resize [OF rs idx1 cb1'])
        have idx2: "window_state_index (windows lahar2) w = Some i"
          using core_window_state_index [OF m2] idx1 by simp
        have "map frame_core (windows lahar2) ! i = map frame_core (windows lahar1) ! i"
          by (simp only: m2)
        moreover have "i < length (windows lahar2)" "i < length (windows lahar1)"
          using i m1 m2 by (metis length_map)+
        ultimately have "frame_core (windows lahar2 ! i) = frame_core (windows lahar1 ! i)"
          by simp
        with fc1 have cb2: "resize_callback (windows lahar2 ! i) = resize_callback ?ws"
          by (simp add: frame_core_def)
        have cb': "resize_callback (windows lahar2 ! i) = 0 \<or> resize_callback_keeps_frame_state env"
          using cb cb2 by simp
        have P2: "P env h3 lahar2 w y"
          by (rule IH [OF rec])
        have "map frame_core (windows (snd (snd y)))
                = (map frame_core (windows lahar2))
                    [i := core_phase LAHAR_FRAME_PHASE_DRAW (map frame_core (windows lahar2) ! i)]"
          by (rule P2 [unfolded P_def, rule_format, OF idx2 cb' ok, THEN conjunct2])
        with m1 m2 ph show ?thesis by simp
      next
        case fresh: False
        from eq idx ok ne w0 ph fresh
        have "snd (snd y) = set_window_state lahar1 i
                ((windows lahar ! i)\<lparr>frame_index :=
                    written (snd (r_vkAcquireNextImageKHR env h2)) (frame_index ?ws),
                  frame_phase := LAHAR_FRAME_PHASE_DRAW\<rparr>)"
          by (auto simp: Let_def h2_def lahar1_def split: if_splits)
        then have "map frame_core (windows (snd (snd y)))
                     = (map frame_core (windows lahar1))
                         [i := core_phase LAHAR_FRAME_PHASE_DRAW (frame_core ?ws)]"
          by (simp add: core_simps)
        with m1 i ph show ?thesis by simp
      qed
    qed
  qed
  then show ?thesis
    using assms(2-4) unfolding P_def by blast
qed

section \<open>The begin, submit, present cycle\<close>

lemma submit_all_success:
  assumes "lahar_window_submit_all env h lahar w cmds n = Some (LAHAR_ERR_SUCCESS, h', lahar')"
  shows "\<exists>i. window_state_index (windows lahar) w = Some i
           \<and> frame_phase (windows lahar ! i) = LAHAR_FRAME_PHASE_DRAW
           \<and> windows lahar' = (windows lahar)
                [i := (windows lahar ! i)\<lparr>frame_phase := LAHAR_FRAME_PHASE_PRESENT\<rparr>]"
proof -
  have ne: "LAHAR_ERR_ILLEGAL_PARAMS \<noteq> LAHAR_ERR_SUCCESS" "LAHAR_ERR_INVALID_WINDOW \<noteq> LAHAR_ERR_SUCCESS"
    "LAHAR_ERR_INVALID_FRAME_STATE \<noteq> LAHAR_ERR_SUCCESS" "LAHAR_ERR_VK_ERR \<noteq> LAHAR_ERR_SUCCESS"
    by (simp_all add: lahar_err_defs)
  from assms ne show ?thesis
    by (auto simp: lahar_window_submit_all_def Let_def set_window_state_def
        split: if_splits option.splits)
qed

lemma present_success:
  assumes "lahar_window_present env h lahar w = Some (LAHAR_ERR_SUCCESS, h', lahar')"
  shows "\<exists>i. window_state_index (windows lahar) w = Some i
           \<and> frame_phase (windows lahar ! i) = LAHAR_FRAME_PHASE_PRESENT
           \<and> max_in_flight (windows lahar ! i) \<noteq> 0
           \<and> windows lahar' = (windows lahar)
                [i := (windows lahar ! i)
                   \<lparr>flight_index := (flight_index (windows lahar ! i) + 1)
                                      mod max_in_flight (windows lahar ! i),
                    frame_phase := LAHAR_FRAME_PHASE_BEGIN\<rparr>]"
proof -
  have ne: "LAHAR_ERR_INVALID_WINDOW \<noteq> LAHAR_ERR_SUCCESS"
    "LAHAR_ERR_INVALID_FRAME_STATE \<noteq> LAHAR_ERR_SUCCESS" "LAHAR_ERR_VK_ERR \<noteq> LAHAR_ERR_SUCCESS"
    "LAHAR_ERR_NO_COMMAND_BUFFER \<noteq> LAHAR_ERR_SUCCESS"
    by (simp_all add: lahar_err_defs)
  from assms ne show ?thesis
    apply (simp add: lahar_window_present_def Let_def set_window_state_def
        split: if_splits option.splits)
    apply (cases "frame_phase (windows lahar ! the (window_state_index (windows lahar) w))")
      apply auto
    done
qed

lemma word_succ_mod_nat:
  fixes f m :: u32
  assumes "f < m"
  shows "unat ((f + 1) mod m) = (unat f + 1) mod unat m"
proof -
  from assms have "unat f < unat m" by (simp add: word_less_nat_alt)
  moreover have "unat m < 2 ^ LENGTH(32)" by (rule unsigned_less)
  ultimately have "unat f + unat (1 :: u32) < 2 ^ LENGTH(32)" by simp
  then have "unat (f + 1) = unat f + unat (1 :: u32)"
    by (simp only: unat_add_lem)
  then show ?thesis
    by (simp add: unat_mod)
qed

text \<open>
  C5. A registered window in phase BEGIN with flight index \<open>f\<close>: after a successful
  \<^verbatim>\<open>lahar_window_frame_begin\<close> (however many recreations of a stale swapchain it took), a
  successful submit and a successful \<^verbatim>\<open>lahar_window_present\<close>, the window is in phase BEGIN
  again and its flight index is \<open>(f + 1) mod max_in_flight\<close>, in \<^verbatim>\<open>uint32_t\<close> arithmetic and,
  when \<open>f < max_in_flight\<close>, as natural numbers too. The window either has no resize callback
  of its own (registration leaves it null) or the callback leaves the frame state alone.
\<close>

theorem frame_cycle:
  assumes reg: "lahar_window_state lahar w = Some ws"
    and ph: "frame_phase ws = LAHAR_FRAME_PHASE_BEGIN"
    and cb: "resize_callback ws = 0 \<or> resize_callback_keeps_frame_state env"
    and fb: "lahar_window_frame_begin env h lahar w = Some (LAHAR_ERR_SUCCESS, h1, lahar1)"
    and sb: "lahar_window_submit_all env h1 lahar1 w cmds n = Some (LAHAR_ERR_SUCCESS, h2, lahar2)"
    and pr: "lahar_window_present env h2 lahar2 w = Some (LAHAR_ERR_SUCCESS, h3, lahar3)"
  shows "\<exists>ws3. lahar_window_state lahar3 w = Some ws3
           \<and> frame_phase ws3 = LAHAR_FRAME_PHASE_BEGIN
           \<and> flight_index ws3 = (flight_index ws + 1) mod max_in_flight ws
           \<and> (flight_index ws < max_in_flight ws \<longrightarrow>
                unat (flight_index ws3) = (unat (flight_index ws) + 1) mod unat (max_in_flight ws))"
proof -
  from reg obtain i where idx: "window_state_index (windows lahar) w = Some i"
    and ws: "ws = windows lahar ! i"
    by (auto simp: lahar_window_state_Some)
  from idx have i: "i < length (windows lahar)"
    using window_state_index_SomeD by blast
  let ?M = "map frame_core (windows lahar)"
  from frame_begin_core [OF fb idx] cb ws
  have m1: "map frame_core (windows lahar1) = ?M[i := core_phase LAHAR_FRAME_PHASE_DRAW (?M ! i)]"
    by simp
  have len1: "length (windows lahar1) = length (windows lahar)"
    using m1 by (metis length_list_update length_map)
  have "map window (windows lahar1) = map fst (map frame_core (windows lahar1))"
    by (simp add: frame_core_def)
  also have "\<dots> = (map fst ?M)[i := fst (?M ! i)]"
    by (simp add: m1 map_update core_phase_def)
  also have "\<dots> = map fst ?M"
    using i by (simp add: list_update_same_conv)
  also have "\<dots> = map window (windows lahar)"
    by (simp add: frame_core_def)
  finally have idx1: "window_state_index (windows lahar1) w = Some i"
    using window_state_index_cong idx by metis
  have "map frame_core (windows lahar1) ! i = core_phase LAHAR_FRAME_PHASE_DRAW (?M ! i)"
    using i by (simp add: m1)
  with i len1 have c1: "frame_core (windows lahar1 ! i) = core_phase LAHAR_FRAME_PHASE_DRAW (frame_core ws)"
    by (simp add: ws)
  then have f1: "flight_index (windows lahar1 ! i) = flight_index ws"
    "max_in_flight (windows lahar1 ! i) = max_in_flight ws" "window (windows lahar1 ! i) = window ws"
    by (simp_all add: frame_core_def core_phase_def)
  from submit_all_success [OF sb] idx1
  have w2: "windows lahar2 = (windows lahar1)
              [i := (windows lahar1 ! i)\<lparr>frame_phase := LAHAR_FRAME_PHASE_PRESENT\<rparr>]"
    by auto
  have idx2: "window_state_index (windows lahar2) w = Some i"
    using idx1 i len1 by (simp add: w2 window_state_index_update)
  have n2: "windows lahar2 ! i = (windows lahar1 ! i)\<lparr>frame_phase := LAHAR_FRAME_PHASE_PRESENT\<rparr>"
    using i len1 by (simp add: w2)
  from present_success [OF pr] idx2
  have w3: "windows lahar3 = (windows lahar2)
              [i := (windows lahar2 ! i)
                 \<lparr>flight_index := (flight_index (windows lahar2 ! i) + 1)
                                    mod max_in_flight (windows lahar2 ! i),
                  frame_phase := LAHAR_FRAME_PHASE_BEGIN\<rparr>]"
    by auto
  have len2: "length (windows lahar2) = length (windows lahar)"
    using len1 by (simp add: w2)
  have idx3: "window_state_index (windows lahar3) w = Some i"
    using idx2 i len2 by (simp add: w3 window_state_index_update)
  let ?ws3 = "windows lahar3 ! i"
  have n3: "?ws3 = (windows lahar2 ! i)
                 \<lparr>flight_index := (flight_index ws + 1) mod max_in_flight ws,
                  frame_phase := LAHAR_FRAME_PHASE_BEGIN\<rparr>"
    using i len2 by (simp add: w3 n2 f1)
  have "lahar_window_state lahar3 w = Some ?ws3"
    by (simp add: lahar_window_state_def idx3)
  moreover have "frame_phase ?ws3 = LAHAR_FRAME_PHASE_BEGIN"
    by (simp add: n3)
  moreover have fl: "flight_index ?ws3 = (flight_index ws + 1) mod max_in_flight ws"
    by (simp add: n3)
  moreover have "flight_index ws < max_in_flight ws \<longrightarrow>
      unat (flight_index ?ws3) = (unat (flight_index ws) + 1) mod unat (max_in_flight ws)"
    by (simp add: fl word_succ_mod_nat)
  ultimately show ?thesis by blast
qed

theorem frame_cycle_witness:
  "\<exists>h1 l1 h2 l2 h3 l3 ws3.
     lahar_window_frame_begin quiet_env [] demo_lahar 1 = Some (LAHAR_ERR_SUCCESS, h1, l1)
     \<and> lahar_window_submit_all quiet_env h1 l1 1 (Some [60]) 1 = Some (LAHAR_ERR_SUCCESS, h2, l2)
     \<and> lahar_window_present quiet_env h2 l2 1 = Some (LAHAR_ERR_SUCCESS, h3, l3)
     \<and> lahar_window_state l3 1 = Some ws3
     \<and> frame_phase ws3 = LAHAR_FRAME_PHASE_BEGIN \<and> flight_index ws3 = 1
     \<and> unat (flight_index ws3) = 1"
proof -
  have reg: "lahar_window_state demo_lahar 1 = Some demo_window_state"
    by (simp add: lahar_window_state_def demo_lahar_def demo_window_state_def)
  have ph: "frame_phase demo_window_state = LAHAR_FRAME_PHASE_BEGIN"
    by (simp add: demo_window_state_def)
  have cb: "resize_callback demo_window_state = 0 \<or> resize_callback_keeps_frame_state quiet_env"
    by (simp add: demo_window_state_def)
  have "\<exists>h1 l1. lahar_window_frame_begin quiet_env [] demo_lahar 1 = Some (LAHAR_ERR_SUCCESS, h1, l1)
          \<and> (\<exists>h2 l2. lahar_window_submit_all quiet_env h1 l1 1 (Some [60]) 1
                        = Some (LAHAR_ERR_SUCCESS, h2, l2)
                \<and> (\<exists>h3 l3. lahar_window_present quiet_env h2 l2 1 = Some (LAHAR_ERR_SUCCESS, h3, l3)))"
    by (simp add: lahar_window_frame_begin.simps lahar_window_submit_all_def
        lahar_window_present_def demo_lahar_def demo_window_state_def quiet_env_def
        set_window_state_def written_def Let_def
        VK_SUCCESS_def VK_SUBOPTIMAL_KHR_def VK_ERROR_OUT_OF_DATE_KHR_def LAHAR_ERR_SUCCESS_def)
  then obtain h1 l1 h2 l2 h3 l3 where
    fb: "lahar_window_frame_begin quiet_env [] demo_lahar 1 = Some (LAHAR_ERR_SUCCESS, h1, l1)"
    and sb: "lahar_window_submit_all quiet_env h1 l1 1 (Some [60]) 1 = Some (LAHAR_ERR_SUCCESS, h2, l2)"
    and pr: "lahar_window_present quiet_env h2 l2 1 = Some (LAHAR_ERR_SUCCESS, h3, l3)"
    by blast
  have fl: "flight_index demo_window_state < max_in_flight demo_window_state"
    "(flight_index demo_window_state + 1) mod max_in_flight demo_window_state = 1"
    "(unat (flight_index demo_window_state) + 1) mod unat (max_in_flight demo_window_state) = 1"
    by (simp_all add: demo_window_state_def)
  from frame_cycle [OF reg ph cb fb sb pr] fl fb sb pr show ?thesis
    by auto
qed

section \<open>Errors raised by the guards\<close>

text \<open>
  C10. When \<^verbatim>\<open>lahar_window_frame_begin\<close>, \<^verbatim>\<open>lahar_window_submit_all\<close> or
  \<^verbatim>\<open>lahar_window_present\<close> fails because of its parameters (ILLEGAL_PARAMS), because the
  window is unknown (INVALID_WINDOW) or because of the phase (INVALID_FRAME_STATE,
  NO_COMMAND_BUFFER), it returns before any call and leaves the whole environment, and with it
  \<^verbatim>\<open>frame_phase\<close>, \<^verbatim>\<open>flight_index\<close> and \<^verbatim>\<open>frame_index\<close> of every window, as it was. For
  the submit and the present this covers every return of one of the four codes; so it does for
  the frame begin of a window without automatic recreation.
\<close>

theorem guard_errors_leave_state:
  "(w = 0 \<longrightarrow> lahar_window_frame_begin env h lahar w = Some (LAHAR_ERR_ILLEGAL_PARAMS, h, lahar))
   \<and> (w \<noteq> 0 \<and> lahar_window_state lahar w = None \<longrightarrow>
        lahar_window_frame_begin env h lahar w = Some (LAHAR_ERR_INVALID_WINDOW, h, lahar))
   \<and> (w \<noteq> 0 \<and> lahar_window_state lahar w = Some ws \<and> frame_phase ws \<noteq> LAHAR_FRAME_PHASE_BEGIN \<longrightarrow>
        lahar_window_frame_begin env h lahar w = Some (LAHAR_ERR_INVALID_FRAME_STATE, h, lahar))
   \<and> (lahar_window_state lahar w = Some ws \<and> \<not> auto_recreate_swap ws
        \<and> lahar_window_frame_begin env h lahar w = Some (e, h', lahar')
        \<and> e \<in> {LAHAR_ERR_INVALID_FRAME_STATE, LAHAR_ERR_NO_COMMAND_BUFFER,
                 LAHAR_ERR_INVALID_WINDOW, LAHAR_ERR_ILLEGAL_PARAMS} \<longrightarrow>
        h' = h \<and> lahar' = lahar)
   \<and> (lahar_window_submit_all env h lahar w cmds n = Some (e, h', lahar')
        \<and> e \<in> {LAHAR_ERR_INVALID_FRAME_STATE, LAHAR_ERR_NO_COMMAND_BUFFER,
                 LAHAR_ERR_INVALID_WINDOW, LAHAR_ERR_ILLEGAL_PARAMS} \<longrightarrow>
        h' = h \<and> lahar' = lahar)
   \<and> (lahar_window_present env h lahar w = Some (e, h', lahar')
        \<and> e \<in> {LAHAR_ERR_INVALID_FRAME_STATE, LAHAR_ERR_NO_COMMAND_BUFFER,
                 LAHAR_ERR_INVALID_WINDOW, LAHAR_ERR_ILLEGAL_PARAMS} \<longrightarrow>
        h' = h \<and> lahar' = lahar)"
proof -
  have ne: "LAHAR_ERR_SUCCESS \<notin> {LAHAR_ERR_INVALID_FRAME_STATE, LAHAR_ERR_NO_COMMAND_BUFFER,
              LAHAR_ERR_INVALID_WINDOW, LAHAR_ERR_ILLEGAL_PARAMS}"
    "LAHAR_ERR_VK_ERR \<notin> {LAHAR_ERR_INVALID_FRAME_STATE, LAHAR_ERR_NO_COMMAND_BUFFER,
              LAHAR_ERR_INVALID_WINDOW, LAHAR_ERR_ILLEGAL_PARAMS}"
    "LAHAR_ERR_SWAPCHAIN_OUT_OF_DATE \<notin> {LAHAR_ERR_INVALID_FRAME_STATE,
              LAHAR_ERR_NO_COMMAND_BUFFER, LAHAR_ERR_INVALID_WINDOW, LAHAR_ERR_ILLEGAL_PARAMS}"
    by (simp_all add: lahar_err_defs)
  have a: "w = 0 \<longrightarrow> lahar_window_frame_begin env h lahar w = Some (LAHAR_ERR_ILLEGAL_PARAMS, h, lahar)"
    by (simp add: lahar_window_frame_begin.simps)
  have b: "w \<noteq> 0 \<and> lahar_window_state lahar w = None \<longrightarrow>
        lahar_window_frame_begin env h lahar w = Some (LAHAR_ERR_INVALID_WINDOW, h, lahar)"
    by (simp add: lahar_window_frame_begin.simps [of env h lahar w] lahar_window_state_def)
  have c: "w \<noteq> 0 \<and> lahar_window_state lahar w = Some ws \<and> frame_phase ws \<noteq> LAHAR_FRAME_PHASE_BEGIN \<longrightarrow>
        lahar_window_frame_begin env h lahar w = Some (LAHAR_ERR_INVALID_FRAME_STATE, h, lahar)"
    by (auto simp: lahar_window_frame_begin.simps [of env h lahar w] lahar_window_state_Some)
  have d: "lahar_window_state lahar w = Some ws \<and> \<not> auto_recreate_swap ws
        \<and> lahar_window_frame_begin env h lahar w = Some (e, h', lahar')
        \<and> e \<in> {LAHAR_ERR_INVALID_FRAME_STATE, LAHAR_ERR_NO_COMMAND_BUFFER,
                 LAHAR_ERR_INVALID_WINDOW, LAHAR_ERR_ILLEGAL_PARAMS} \<longrightarrow>
        h' = h \<and> lahar' = lahar"
  proof (intro impI, elim conjE)
    assume reg: "lahar_window_state lahar w = Some ws" and na: "\<not> auto_recreate_swap ws"
      and r: "lahar_window_frame_begin env h lahar w = Some (e, h', lahar')"
      and e: "e \<in> {LAHAR_ERR_INVALID_FRAME_STATE, LAHAR_ERR_NO_COMMAND_BUFFER,
                 LAHAR_ERR_INVALID_WINDOW, LAHAR_ERR_ILLEGAL_PARAMS}"
    from reg obtain i where idx: "window_state_index (windows lahar) w = Some i"
      and ws: "ws = windows lahar ! i"
      by (auto simp: lahar_window_state_Some)
    from r idx na ne e show "h' = h \<and> lahar' = lahar"
      unfolding lahar_window_frame_begin.simps [of env h lahar w] ws
      by (auto simp: Let_def split: if_splits)
  qed
  have s: "lahar_window_submit_all env h lahar w cmds n = Some (e, h', lahar')
        \<and> e \<in> {LAHAR_ERR_INVALID_FRAME_STATE, LAHAR_ERR_NO_COMMAND_BUFFER,
                 LAHAR_ERR_INVALID_WINDOW, LAHAR_ERR_ILLEGAL_PARAMS} \<longrightarrow>
        h' = h \<and> lahar' = lahar"
    using ne by (auto simp: lahar_window_submit_all_def Let_def split: if_splits option.splits)
  have p: "lahar_window_present env h lahar w = Some (e, h', lahar')
        \<and> e \<in> {LAHAR_ERR_INVALID_FRAME_STATE, LAHAR_ERR_NO_COMMAND_BUFFER,
                 LAHAR_ERR_INVALID_WINDOW, LAHAR_ERR_ILLEGAL_PARAMS} \<longrightarrow>
        h' = h \<and> lahar' = lahar"
    using ne by (auto simp: lahar_window_present_def Let_def split: if_splits option.splits)
  from a b c d s p show ?thesis by blast
qed

theorem guard_errors_leave_state_witness:
  "lahar_window_frame_begin quiet_env [] demo_lahar 0 = Some (LAHAR_ERR_ILLEGAL_PARAMS, [], demo_lahar)
   \<and> lahar_window_frame_begin quiet_env [] demo_lahar 2 = Some (LAHAR_ERR_INVALID_WINDOW, [], demo_lahar)
   \<and> lahar_window_frame_begin quiet_env [] (demo_lahar_phase LAHAR_FRAME_PHASE_DRAW) 1
       = Some (LAHAR_ERR_INVALID_FRAME_STATE, [], demo_lahar_phase LAHAR_FRAME_PHASE_DRAW)
   \<and> lahar_window_submit_all quiet_env [] demo_lahar 1 (Some [60]) 1
       = Some (LAHAR_ERR_INVALID_FRAME_STATE, [], demo_lahar)
   \<and> lahar_window_present quiet_env [] demo_lahar 1
       = Some (LAHAR_ERR_INVALID_FRAME_STATE, [], demo_lahar)"
proof -
  have none: "(2::handle) \<noteq> 0 \<and> lahar_window_state demo_lahar 2 = None"
    by (simp add: lahar_window_state_def demo_lahar_def demo_window_state_def)
  have draw: "(1::handle) \<noteq> 0
      \<and> lahar_window_state (demo_lahar_phase LAHAR_FRAME_PHASE_DRAW) 1
          = Some (demo_window_state\<lparr>frame_phase := LAHAR_FRAME_PHASE_DRAW\<rparr>)
      \<and> frame_phase (demo_window_state\<lparr>frame_phase := LAHAR_FRAME_PHASE_DRAW\<rparr>)
          \<noteq> LAHAR_FRAME_PHASE_BEGIN"
    using demo_lahar_window [of LAHAR_FRAME_PHASE_DRAW] by simp
  have sub: "lahar_window_submit_all quiet_env [] demo_lahar 1 (Some [60]) 1
               = Some (LAHAR_ERR_INVALID_FRAME_STATE, [], demo_lahar)"
    by (simp add: lahar_window_submit_all_def demo_lahar_def demo_window_state_def)
  have pre: "lahar_window_present quiet_env [] demo_lahar 1
               = Some (LAHAR_ERR_INVALID_FRAME_STATE, [], demo_lahar)"
    by (simp add: lahar_window_present_def demo_lahar_def demo_window_state_def)
  from guard_errors_leave_state [of 0 quiet_env "[]" demo_lahar]
  have 1: "lahar_window_frame_begin quiet_env [] demo_lahar 0
             = Some (LAHAR_ERR_ILLEGAL_PARAMS, [], demo_lahar)"
    by simp
  from guard_errors_leave_state [of 2 quiet_env "[]" demo_lahar] none
  have 2: "lahar_window_frame_begin quiet_env [] demo_lahar 2
             = Some (LAHAR_ERR_INVALID_WINDOW, [], demo_lahar)"
    by blast
  from guard_errors_leave_state [of 1 quiet_env "[]" "demo_lahar_phase LAHAR_FRAME_PHASE_DRAW"
      "demo_window_state\<lparr>frame_phase := LAHAR_FRAME_PHASE_DRAW\<rparr>"] draw
  have 3: "lahar_window_frame_begin quiet_env [] (demo_lahar_phase LAHAR_FRAME_PHASE_DRAW) 1
       = Some (LAHAR_ERR_INVALID_FRAME_STATE, [], demo_lahar_phase LAHAR_FRAME_PHASE_DRAW)"
    by blast
  from 1 2 3 sub pre show ?thesis by simp
qed

section \<open>The build on concrete inputs\<close>

lemma registered_color:
  "lahar_builder_window_register quiet_env [] zero_lahar 1 LAHAR_WINPROF_COLOR
     = Some (LAHAR_ERR_SUCCESS, [WindowGetSize 1, Malloc], demo_registered)"
  by code_simp

lemma registered_color_depth:
  "lahar_builder_window_register quiet_env [] zero_lahar 1 LAHAR_WINPROF_COLOR_DEPTH
     = Some (LAHAR_ERR_SUCCESS, [WindowGetSize 1, Malloc], demo_registered_depth)"
  by code_simp

lemma built_color:
  "result_code (lahar_build quiet_env [] demo_registered) = Some LAHAR_ERR_SUCCESS"
  "result_state (lahar_build quiet_env [] demo_registered) = Some demo_lahar"
  by code_simp+

text \<open>
  C1 does not hold of the code. The only physical device that the system reports is named
  "GPU A". The caller pins "GPU B" with \<^verbatim>\<open>lahar_builder_device_use\<close>, which succeeds and stores
  the name. \<^verbatim>\<open>lahar_build\<close> then succeeds, and the device it has selected is "GPU A": the
  stored name is never compared with anything.
\<close>

theorem pinned_device_not_matched:
  "lahar_builder_device_use quiet_env [] demo_registered (Some ''GPU B'')
     = (LAHAR_ERR_SUCCESS, [Malloc], demo_pinned)
   \<and> result_code (lahar_build quiet_env [Malloc] demo_pinned) = Some LAHAR_ERR_SUCCESS
   \<and> map_option device_name (result_state (lahar_build quiet_env [Malloc] demo_pinned))
       = Some (Some ''GPU B'')
   \<and> map_option (deviceName \<circ> physdev_info)
        (result_state (lahar_build quiet_env [Malloc] demo_pinned)) = Some ''GPU A''"
  by code_simp

text \<open>
  C2 does not hold of the code. A window with two attachments and no allocator: the build
  fails with \<^verbatim>\<open>LAHAR_ERR_INVALID_CONFIGURATION\<close> and the recreation of the swapchain with
  \<^verbatim>\<open>LAHAR_ERR_INVALID_STATE\<close>. Neither is \<^verbatim>\<open>LAHAR_ERR_ATTACHMENT_WO_ALLOCATOR\<close>, which no
  path of the library returns.
\<close>

theorem attachments_without_allocator_codes:
  "gpu_allocator demo_registered_depth = 0
   \<and> map (unat \<circ> attachment_count) (windows demo_registered_depth) = [2]
   \<and> result_code (lahar_build quiet_env [] demo_registered_depth)
       = Some LAHAR_ERR_INVALID_CONFIGURATION
   \<and> gpu_allocator demo_lahar_depth = 0
   \<and> map (unat \<circ> attachment_count) (windows demo_lahar_depth) = [2]
   \<and> result_code (lahar_default_resizer quiet_env [] demo_lahar_depth 1)
       = Some LAHAR_ERR_INVALID_STATE
   \<and> result_code (lahar_window_swapchain_resize quiet_env [] demo_lahar_depth 1)
       = Some LAHAR_ERR_INVALID_STATE
   \<and> LAHAR_ERR_INVALID_CONFIGURATION \<noteq> LAHAR_ERR_ATTACHMENT_WO_ALLOCATOR
   \<and> LAHAR_ERR_INVALID_STATE \<noteq> LAHAR_ERR_ATTACHMENT_WO_ALLOCATOR"
  by code_simp

section \<open>The build leaves the extension registry alone\<close>

lemma ext_set_window_state [simp]:
  "extensions (set_window_state lahar i ws) = extensions lahar"
  by (simp add: set_window_state_def)

lemma ext_swapchain_prepare:
  assumes "swapchain_prepare r env wi h lahar = Some res"
  shows "extensions (prepare_state res) = extensions lahar"
  using assms
  by (auto simp: swapchain_prepare_def Let_def
      split: if_splits option.splits prod.splits list.splits)

lemma ext_create_color_views:
  "create_color_views r env wi imgs j n h lahar = Some res \<Longrightarrow>
   extensions (step_state res) = extensions lahar"
proof (induction n arbitrary: r j h lahar res)
  case 0
  then show ?case by auto
next
  case (Suc n)
  from Suc.prems show ?case
    by (auto simp: Let_def split: if_splits option.splits list.splits dest!: Suc.IH)
qed

lemma ext_alloc_attachment_row:
  "alloc_attachment_row r env wi j k n h lahar = Some res \<Longrightarrow>
   extensions (step_state res) = extensions lahar"
proof (induction n arbitrary: r k h lahar res)
  case 0
  then show ?case by auto
next
  case (Suc n)
  from Suc.prems show ?case
    by (auto simp: Let_def split: if_splits dest!: Suc.IH)
qed

lemma ext_alloc_attachments:
  "alloc_attachments r env wi j n h lahar = Some res \<Longrightarrow>
   extensions (step_state res) = extensions lahar"
proof (induction n arbitrary: j h lahar res)
  case 0
  then show ?case by auto
next
  case (Suc n)
  from Suc.prems show ?case
    by (auto simp: Let_def split: if_splits option.splits sum.splits
        dest!: Suc.IH ext_alloc_attachment_row)
qed

lemma ext_build_swapchain_window:
  assumes "build_swapchain_window env wi h lahar = Some res"
  shows "extensions (step_state res) = extensions lahar"
  using assms
  by (auto simp: build_swapchain_window_def Let_def
      split: option.splits sum.splits if_splits
      dest!: ext_swapchain_prepare ext_create_color_views ext_alloc_attachments)

lemma ext_build_swapchain_loop:
  "build_swapchain_loop env wi n h lahar = Some (e, h', lahar') \<Longrightarrow>
   extensions lahar' = extensions lahar"
proof (induction n arbitrary: wi h lahar)
  case 0
  then show ?case by simp
next
  case (Suc n)
  from Suc.prems show ?case
    by (auto split: option.splits sum.splits dest!: Suc.IH ext_build_swapchain_window)
qed

lemma ext_build_sync_slots:
  "extensions (snd (snd (build_sync_slots env wi n h lahar))) = extensions lahar"
  by (induction n arbitrary: h lahar) (simp_all add: Let_def)

lemma ext_build_sync_loop:
  "extensions (snd (snd (build_sync_loop env wi n h lahar))) = extensions lahar"
  by (induction n arbitrary: wi h lahar) (simp_all add: Let_def ext_build_sync_slots)

lemma ext_build_early_surface_loop:
  "extensions (snd (snd (build_early_surface_loop env i n h lahar))) = extensions lahar"
  by (induction n arbitrary: i h lahar) (simp_all add: Let_def)

lemma ext_build_inst_extensions:
  "lahar_build_inst_extensions env h lahar = Some (e, h', lahar') \<Longrightarrow>
   extensions lahar' = extensions lahar"
  by (auto simp: lahar_build_inst_extensions_def Let_def split: option.splits if_splits)

lemma ext_build_instance:
  "lahar_build_instance env h lahar = Some (e, h', lahar') \<Longrightarrow>
   extensions lahar' = extensions lahar"
  by (auto simp: lahar_build_instance_def Let_def split: option.splits if_splits)

lemma ext_build_early_surface:
  "lahar_build_early_surface env h lahar = Some (e, h', lahar') \<Longrightarrow>
   extensions lahar' = extensions lahar"
  using ext_build_early_surface_loop [of env 0 "length (windows lahar)" h lahar]
  by (auto simp: lahar_build_early_surface_def)

lemma ext_build_physdev:
  "lahar_build_physdev env h lahar = Some (e, h', lahar') \<Longrightarrow>
   extensions lahar' = extensions lahar"
  by (auto simp: lahar_build_physdev_def Let_def split: option.splits if_splits)

lemma ext_build_device:
  "lahar_build_device env h lahar = Some (e, h', lahar') \<Longrightarrow>
   extensions lahar' = extensions lahar"
  by (auto simp: lahar_build_device_def Let_def split: option.splits if_splits)

lemma ext_build_swapchain:
  "lahar_build_swapchain env h lahar = Some (e, h', lahar') \<Longrightarrow>
   extensions lahar' = extensions lahar"
  by (auto simp: lahar_build_swapchain_def dest!: ext_build_swapchain_loop)

lemma ext_build_sync:
  "lahar_build_sync env h lahar = Some (e, h', lahar') \<Longrightarrow>
   extensions lahar' = extensions lahar"
  using ext_build_sync_loop [of env 0 "length (windows lahar)" h lahar]
  by (auto simp: lahar_build_sync_def)

lemma ext_build_stage:
  assumes f: "\<And>h lahar e h' lahar'. f h lahar = Some (e, h', lahar') \<Longrightarrow>
                extensions lahar' = extensions lahar"
    and r: "\<And>e h' lahar'. r = Some (e, h', lahar') \<Longrightarrow> extensions lahar' = extensions lahar0"
    and res: "build_stage f r = Some (e, h', lahar')"
  shows "extensions lahar' = extensions lahar0"
proof (cases r)
  case None
  with res show ?thesis by (simp add: build_stage_def)
next
  case (Some x)
  obtain e1 h1 l1 where x: "x = (e1, h1, l1)" by (cases x)
  from r Some x have l1: "extensions l1 = extensions lahar0" by simp
  show ?thesis
  proof (cases "e1 = 0")
    case True
    with res Some x have "f h1 l1 = Some (e, h', lahar')" by (simp add: build_stage_def)
    from f [OF this] l1 show ?thesis by simp
  next
    case False
    with res Some x l1 show ?thesis by (simp add: build_stage_def)
  qed
qed

lemma ext_build_before_sync:
  assumes "build_before_sync env h lahar = Some (e, h', lahar')"
  shows "extensions lahar' = extensions lahar"
  using assms unfolding build_before_sync_def
  by (elim ext_build_stage [rotated 2])
    (erule ext_build_swapchain ext_build_device ext_build_physdev
       ext_build_early_surface ext_build_instance ext_build_inst_extensions)+

lemma ext_lahar_build:
  assumes "lahar_build env h lahar = Some (LAHAR_ERR_SUCCESS, h', lahar')"
  shows "extensions lahar' = extensions lahar"
proof -
  from assms
  have "build_stage (lahar_build_sync env) (build_before_sync env h lahar)
          = Some (LAHAR_ERR_SUCCESS, h', lahar')"
    unfolding lahar_build_def
    by (auto simp: LAHAR_ERR_SUCCESS_def split: option.splits if_splits)
  then show ?thesis
    by (elim ext_build_stage [rotated 2]) (erule ext_build_sync ext_build_before_sync)+
qed

lemma optional_lookup_absent:
  "ext \<notin> set opt \<Longrightarrow> optional_lookup ext opt flags = Some None"
  by (induction opt arbitrary: flags) simp_all

lemma optional_lookup_present:
  "ext \<in> set opt \<Longrightarrow> length opt \<le> length flags \<Longrightarrow>
   optional_lookup ext opt flags = Some (Some (flags ! length (takeWhile (\<lambda>x. x \<noteq> ext) opt)))"
proof (induction opt arbitrary: flags)
  case Nil
  then show ?case by simp
next
  case (Cons x opt)
  from Cons.prems(2) obtain f fs where flags: "flags = f # fs"
    by (cases flags) simp_all
  show ?case
  proof (cases "ext = x")
    case True
    then show ?thesis by (simp add: flags)
  next
    case False
    with Cons.prems flags have "ext \<in> set opt" "length opt \<le> length fs" by simp_all
    from Cons.IH [OF this] False show ?thesis by (simp add: flags)
  qed
qed

lemma optional_flag_clear:
  assumes "registry_flags_clear exts" "ext \<in> set (opt_dev_exts exts)"
  shows "opt_dev_exts_present exts ! length (takeWhile (\<lambda>x. x \<noteq> ext) (opt_dev_exts exts)) = False"
proof -
  have "ext \<in> set xs \<Longrightarrow> length (takeWhile (\<lambda>x. x \<noteq> ext) xs) < length xs" for xs
    by (induction xs) auto
  from this [OF assms(2)]
  have "length (takeWhile (\<lambda>x. x \<noteq> ext) (opt_dev_exts exts)) < length (opt_dev_exts exts)" .
  with assms(1) show ?thesis
    by (simp add: registry_flags_clear_def)
qed

lemma registered_both_lists:
  "(let (e1, h1, l1) = lahar_builder_extension_add_required_device quiet_env [] demo_registered
                         (Some ''VK_KHR_maintenance1'');
        (e2, h2, l2) = lahar_builder_extension_add_required_device quiet_env h1 l1
                         (Some ''VK_KHR_multiview'');
        (e3, h3, l3) = lahar_builder_extension_add_optional_device quiet_env h2 l2
                         (Some ''VK_KHR_maintenance1'');
        (e4, h4, l4) = lahar_builder_extension_add_optional_device quiet_env h3 l3
                         (Some ''VK_EXT_memory_budget'')
    in (e1, e2, e3, e4, l4))
   = (LAHAR_ERR_SUCCESS, LAHAR_ERR_SUCCESS, LAHAR_ERR_SUCCESS, LAHAR_ERR_SUCCESS, demo_both_lists)"
  by code_simp

lemma add_optional_keeps_flags_clear:
  assumes "registry_flags_clear (extensions lahar)"
  shows "registry_flags_clear
           (extensions (snd (snd (lahar_builder_extension_add_optional_device env h lahar name))))"
  using assms
  by (auto simp: lahar_builder_extension_add_optional_device_def Let_def registry_flags_clear_def
      replicate_append_same split: option.splits)

lemma add_required_keeps_flags_clear:
  assumes "registry_flags_clear (extensions lahar)"
  shows "registry_flags_clear
           (extensions (snd (snd (lahar_builder_extension_add_required_device env h lahar name))))"
  using assms
  by (auto simp: lahar_builder_extension_add_required_device_def Let_def registry_flags_clear_def
      split: option.splits)

text \<open>
  What a successful \<^verbatim>\<open>lahar_build\<close> leaves in the registry, in every environment: the
  registry it found. The answers of \<^verbatim>\<open>lahar_extension_has_device\<close> are then those of
  before the build: the flag of the first optional entry with the name, which is false when
  the flags are as registration left them; otherwise whether the name is in the required
  list.
\<close>

lemma registry_after_build:
  assumes "lahar_build env h lahar = Some (LAHAR_ERR_SUCCESS, h', lahar')"
  shows "extensions lahar' = extensions lahar
    \<and> (ext \<in> set (req_dev_exts (extensions lahar)) \<and> ext \<notin> set (opt_dev_exts (extensions lahar))
         \<longrightarrow> lahar_extension_has_device lahar' (Some ext) = Some True)
    \<and> (ext \<in> set (opt_dev_exts (extensions lahar))
         \<and> length (opt_dev_exts (extensions lahar)) \<le> length (opt_dev_exts_present (extensions lahar))
         \<longrightarrow> lahar_extension_has_device lahar' (Some ext)
               = Some (opt_dev_exts_present (extensions lahar)
                         ! length (takeWhile (\<lambda>x. x \<noteq> ext) (opt_dev_exts (extensions lahar)))))
    \<and> (ext \<in> set (opt_dev_exts (extensions lahar)) \<and> registry_flags_clear (extensions lahar)
         \<longrightarrow> lahar_extension_has_device lahar' (Some ext) = Some False)
    \<and> (ext \<notin> set (req_dev_exts (extensions lahar)) \<and> ext \<notin> set (opt_dev_exts (extensions lahar))
         \<longrightarrow> lahar_extension_has_device lahar' (Some ext) = Some False)"
proof -
  have keep: "extensions lahar' = extensions lahar"
    using assms by (rule ext_lahar_build)
  have absent: "ext \<notin> set (opt_dev_exts (extensions lahar)) \<Longrightarrow>
      lahar_extension_has_device lahar' (Some ext)
        = Some (ext \<in> set (req_dev_exts (extensions lahar)))"
    by (simp add: lahar_extension_has_device_def keep optional_lookup_absent)
  have present: "lahar_extension_has_device lahar' (Some ext)
        = Some (opt_dev_exts_present (extensions lahar)
                  ! length (takeWhile (\<lambda>x. x \<noteq> ext) (opt_dev_exts (extensions lahar))))"
    if "ext \<in> set (opt_dev_exts (extensions lahar))"
      "length (opt_dev_exts (extensions lahar)) \<le> length (opt_dev_exts_present (extensions lahar))"
    using that by (simp add: lahar_extension_has_device_def keep optional_lookup_present)
  have clear: "lahar_extension_has_device lahar' (Some ext) = Some False"
    if "ext \<in> set (opt_dev_exts (extensions lahar))" "registry_flags_clear (extensions lahar)"
  proof -
    from that(2) have "length (opt_dev_exts (extensions lahar))
        \<le> length (opt_dev_exts_present (extensions lahar))"
      by (simp add: registry_flags_clear_def)
    from present [OF that(1) this] optional_flag_clear [OF that(2) that(1)]
    show ?thesis by simp
  qed
  from keep absent present clear show ?thesis
    by auto
qed

text \<open>
  C8 does not hold of the code. The caller registers "VK_KHR_maintenance1" and
  "VK_KHR_multiview" as required device extensions and "VK_KHR_maintenance1" and
  "VK_EXT_memory_budget" as optional ones; every call succeeds. \<^verbatim>\<open>lahar_build\<close> succeeds and
  leaves the registry as it found it, with both granted flags still false: no device
  extension of either list is looked up on the device or enabled. Afterwards
  \<^verbatim>\<open>lahar_extension_has_device\<close> answers false for "VK_KHR_maintenance1", a name of the
  required-device list, because the optional list is searched first; and false for the
  optional "VK_EXT_memory_budget", whatever the device supports.
\<close>

theorem required_extension_reported_absent:
  "result_code (lahar_build quiet_env [] demo_both_lists) = Some LAHAR_ERR_SUCCESS
   \<and> result_state (lahar_build quiet_env [] demo_both_lists) = Some demo_built_both
   \<and> extensions demo_built_both = extensions demo_both_lists
   \<and> req_dev_exts (extensions demo_built_both) = [''VK_KHR_maintenance1'', ''VK_KHR_multiview'']
   \<and> opt_dev_exts (extensions demo_built_both) = [''VK_KHR_maintenance1'', ''VK_EXT_memory_budget'']
   \<and> opt_dev_exts_present (extensions demo_built_both) = [False, False]
   \<and> lahar_extension_has_device demo_built_both (Some ''VK_KHR_maintenance1'') = Some False
   \<and> lahar_extension_has_device demo_built_both (Some ''VK_EXT_memory_budget'') = Some False
   \<and> lahar_extension_has_device demo_built_both (Some ''VK_KHR_multiview'') = Some True"
  by code_simp

section \<open>Defaults of the image count and of the frames in flight\<close>

lemma count_set_window_state:
  "map desired_img_count (windows (set_window_state lahar i ws))
     = (map desired_img_count (windows lahar))[i := desired_img_count ws]"
  by (simp add: set_window_state_def map_update)

lemma count_nth_set_window_state:
  "desired_img_count ws = desired_img_count (windows lahar ! i) \<Longrightarrow>
   desired_img_count (windows (set_window_state lahar i ws) ! i)
     = desired_img_count (windows lahar ! i)"
  by (cases "i < length (windows lahar)")
    (simp_all add: set_window_state_def not_less list_update_beyond)

lemma count_set_window_state_same:
  "desired_img_count ws = desired_img_count (windows lahar ! i) \<Longrightarrow>
   map desired_img_count (windows (set_window_state lahar i ws))
     = map desired_img_count (windows lahar)"
  by (simp add: count_set_window_state map_update_nth_same)

lemmas count_simps = count_set_window_state_same count_nth_set_window_state

lemma count_create_color_views:
  "create_color_views r env wi imgs j n h lahar = Some res \<Longrightarrow>
   map desired_img_count (windows (step_state res)) = map desired_img_count (windows lahar)"
proof (induction n arbitrary: r j h lahar res)
  case 0
  then show ?case by auto
next
  case (Suc n)
  from Suc.prems show ?case
    by (auto simp: Let_def count_simps split: if_splits option.splits list.splits dest!: Suc.IH)
qed

lemma count_alloc_attachment_row:
  "alloc_attachment_row r env wi j k n h lahar = Some res \<Longrightarrow>
   map desired_img_count (windows (step_state res)) = map desired_img_count (windows lahar)"
proof (induction n arbitrary: r k h lahar res)
  case 0
  then show ?case by auto
next
  case (Suc n)
  from Suc.prems show ?case
    by (auto simp: Let_def count_simps split: if_splits dest!: Suc.IH)
qed

lemma count_alloc_attachments:
  "alloc_attachments r env wi j n h lahar = Some res \<Longrightarrow>
   map desired_img_count (windows (step_state res)) = map desired_img_count (windows lahar)"
proof (induction n arbitrary: j h lahar res)
  case 0
  then show ?case by auto
next
  case (Suc n)
  from Suc.prems show ?case
    by (auto simp: Let_def count_simps split: if_splits option.splits sum.splits
        dest!: Suc.IH count_alloc_attachment_row)
qed

lemma count_resizer_swapchain:
  "resizer_swapchain env wi old ci h lahar = Some res \<Longrightarrow>
   map desired_img_count (windows (prepare_state res)) = map desired_img_count (windows lahar)"
  by (auto simp: resizer_swapchain_def Let_def count_simps prepare_state_def split: if_splits)

lemma count_resizer_attachments:
  "resizer_attachments env wi imgs h lahar = Some (e, h', lahar') \<Longrightarrow>
   map desired_img_count (windows lahar') = map desired_img_count (windows lahar)"
  by (auto simp: resizer_attachments_def Let_def
      split: option.splits sum.splits if_splits
      dest!: count_create_color_views count_alloc_attachments)

lemma count_wait_inactive:
  "lahar_window_wait_inactive env h lahar w = Some (e, h', lahar') \<Longrightarrow>
   windows lahar' = windows lahar"
  by (auto simp: lahar_window_wait_inactive_def Let_def split: option.splits if_splits)

text \<open>The count that the normalisation leaves.\<close>

lemma nth_set_window_state:
  "i < length (windows lahar) \<Longrightarrow> windows (set_window_state lahar i ws) ! i = ws"
  "length (windows (set_window_state lahar i ws)) = length (windows lahar)"
  by (simp_all add: set_window_state_def)

lemma count_swapchain_prepare:
  assumes "swapchain_prepare r env wi h lahar = Some res"
    and "wi < length (windows lahar)"
  shows "map desired_img_count (windows (prepare_state res))
           = (map desired_img_count (windows lahar))
               [wi := (if desired_img_count (windows lahar ! wi) = 0 then 2
                       else desired_img_count (windows lahar ! wi))]"
  using assms
  by (auto simp: swapchain_prepare_def Let_def count_set_window_state nth_set_window_state
      normalize_img_count_def map_update_nth_same
      split: if_splits option.splits prod.splits list.splits)

lemma clamp_image_count_nonzero:
  "n \<noteq> 0 \<Longrightarrow> clamp_image_count caps n \<noteq> 0"
  by (auto simp: clamp_image_count_def)

lemma create_info_swapchain_prepare:
  assumes "swapchain_prepare r env wi h lahar = Some (Inr (ci, h', lahar'))"
    and "wi < length (windows lahar)"
  shows "\<exists>caps. ci_minImageCount ci
           = clamp_image_count caps (if desired_img_count (windows lahar ! wi) = 0 then 2
                                     else desired_img_count (windows lahar ! wi))"
  using assms
  by (auto simp: swapchain_prepare_def Let_def nth_set_window_state normalize_img_count_def
      split: if_splits option.splits prod.splits list.splits)

lemma count_build_swapchain_window:
  assumes "build_swapchain_window env wi h lahar = Some res"
    and "wi < length (windows lahar)"
  shows "map desired_img_count (windows (step_state res))
           = (map desired_img_count (windows lahar))
               [wi := (if desired_img_count (windows lahar ! wi) = 0 then 2
                       else desired_img_count (windows lahar ! wi))]"
proof (cases "swapchain_prepare False env wi h lahar")
  case None
  with assms(1) show ?thesis by (simp add: build_swapchain_window_def)
next
  case (Some p)
  note prep = count_swapchain_prepare [OF Some assms(2)]
  show ?thesis
  proof (cases p)
    case (Inl e)
    with assms(1) Some have "res = Inl e" by (simp add: build_swapchain_window_def)
    with prep Inl show ?thesis by (cases e) simp
  next
    case (Inr q)
    obtain ci h1 lahar1 where q: "q = (ci, h1, lahar1)" by (cases q)
    from prep Inr q have l1: "map desired_img_count (windows lahar1)
        = (map desired_img_count (windows lahar))
               [wi := (if desired_img_count (windows lahar ! wi) = 0 then 2
                       else desired_img_count (windows lahar ! wi))]"
      by simp
    from assms(1) Some Inr q
    have "map desired_img_count (windows (step_state res)) = map desired_img_count (windows lahar1)"
      by (auto simp: build_swapchain_window_def Let_def count_simps
          split: option.splits sum.splits if_splits
          dest!: count_create_color_views count_alloc_attachments)
    with l1 show ?thesis by simp
  qed
qed

lemma count_default_resizer:
  assumes "lahar_default_resizer env h lahar w = Some (LAHAR_ERR_SUCCESS, h', lahar')"
    and "window_state_index (windows lahar) w = Some wi"
  shows "map desired_img_count (windows lahar')
           = (map desired_img_count (windows lahar))
               [wi := (if desired_img_count (windows lahar ! wi) = 0 then 2
                       else desired_img_count (windows lahar ! wi))]"
proof -
  from assms(2) have wi: "wi < length (windows lahar)"
    using window_state_index_SomeD by blast
  from assms obtain h1 lahar1 h2 p where
    wait: "lahar_window_wait_inactive env h lahar w = Some (LAHAR_ERR_SUCCESS, h1, lahar1)"
    and prep: "swapchain_prepare True env wi h2 lahar1 = Some p"
    and rest: "(case p of
                  Inl e \<Rightarrow> Some e
                | Inr (create_info, h3, lahar2) \<Rightarrow>
                    (case resizer_swapchain env wi (swap_size (windows lahar ! wi)) create_info h3 lahar2 of
                       None \<Rightarrow> None
                     | Some (Inl e) \<Rightarrow> Some e
                     | Some (Inr (swap_imgs, h4, lahar3)) \<Rightarrow>
                         resizer_attachments env wi swap_imgs h4 lahar3))
               = Some (LAHAR_ERR_SUCCESS, h', lahar')"
    by (auto simp: lahar_default_resizer_def Let_def lahar_err_defs
        split: option.splits if_splits)
  from count_wait_inactive [OF wait] have w1: "windows lahar1 = windows lahar" .
  from count_swapchain_prepare [OF prep] wi w1
  have p1: "map desired_img_count (windows (prepare_state p))
      = (map desired_img_count (windows lahar))
               [wi := (if desired_img_count (windows lahar ! wi) = 0 then 2
                       else desired_img_count (windows lahar ! wi))]"
    by simp
  from rest have "map desired_img_count (windows lahar')
      = map desired_img_count (windows (prepare_state p))"
    by (auto split: sum.splits option.splits prod.splits
        dest!: count_resizer_swapchain count_resizer_attachments)
  with p1 show ?thesis by simp
qed

text \<open>Registration (lines 2781-2782).\<close>

lemma register_ex_defaults:
  assumes "lahar_builder_window_register_ex env h lahar w (Some conf)
             = Some (LAHAR_ERR_SUCCESS, h', lahar')"
  shows "windows lahar' = windows lahar @ [last (windows lahar')]
    \<and> window (last (windows lahar')) = w
    \<and> desired_img_count (last (windows lahar'))
        = (if cfg_desired_swap_size conf = 0 then 2 else cfg_desired_swap_size conf)
    \<and> max_in_flight (last (windows lahar'))
        = (if cfg_max_in_flight conf = 0 then 2 else cfg_max_in_flight conf)"
  using assms
  by (auto simp: lahar_builder_window_register_ex_def Let_def set_window_state_def
      lahar_err_defs split: if_splits)

text \<open>The stages of the build before the synchronisation objects leave window handle,
  flight index, frames in flight, phase and callback of every window alone.\<close>

lemma core_set_window_state_same:
  "frame_core ws = frame_core (windows lahar ! i) \<Longrightarrow>
   map frame_core (windows (set_window_state lahar i ws)) = map frame_core (windows lahar)"
  by (simp add: core_set_window_state map_update_nth_same)

lemma frame_core_build_updates:
  "frame_core (ws\<lparr>commands := c\<rparr>) = frame_core ws"
  "frame_core (ws\<lparr>surface := s\<rparr>) = frame_core ws"
  "frame_core (ws\<lparr>swap_size := n, attachments := a\<rparr>) = frame_core ws"
  by (simp_all add: frame_core_def)

lemmas core_build_simps =
  core_set_window_state_same core_nth_set_window_state frame_core_updates frame_core_build_updates

lemma core_build_swapchain_window:
  assumes "build_swapchain_window env wi h lahar = Some res"
  shows "map frame_core (windows (step_state res)) = map frame_core (windows lahar)"
proof (cases "swapchain_prepare False env wi h lahar")
  case None
  with assms show ?thesis by (simp add: build_swapchain_window_def)
next
  case (Some p)
  note prep = core_swapchain_prepare [OF Some]
  show ?thesis
  proof (cases p)
    case (Inl e)
    with assms Some have "res = Inl e" by (simp add: build_swapchain_window_def)
    with prep Inl show ?thesis by (cases e) simp
  next
    case (Inr q)
    obtain ci h1 lahar1 where q: "q = (ci, h1, lahar1)" by (cases q)
    from prep Inr q have l1: "map frame_core (windows lahar1) = map frame_core (windows lahar)"
      by simp
    from assms Some Inr q
    have "map frame_core (windows (step_state res)) = map frame_core (windows lahar1)"
      by (auto simp: build_swapchain_window_def Let_def core_build_simps
          split: option.splits sum.splits if_splits
          dest!: core_create_color_views core_alloc_attachments)
    with l1 show ?thesis by simp
  qed
qed

lemma core_build_swapchain_loop:
  "build_swapchain_loop env wi n h lahar = Some (e, h', lahar') \<Longrightarrow>
   map frame_core (windows lahar') = map frame_core (windows lahar)"
proof (induction n arbitrary: wi h lahar)
  case 0
  then show ?case by simp
next
  case (Suc n)
  from Suc.prems show ?case
    by (auto split: option.splits sum.splits dest!: Suc.IH core_build_swapchain_window)
qed

lemma core_build_early_surface_loop:
  "map frame_core (windows (snd (snd (build_early_surface_loop env i n h lahar))))
     = map frame_core (windows lahar)"
  by (induction n arbitrary: i h lahar) (simp_all add: Let_def core_build_simps)

lemma core_build_inst_extensions:
  "lahar_build_inst_extensions env h lahar = Some (e, h', lahar') \<Longrightarrow>
   map frame_core (windows lahar') = map frame_core (windows lahar)"
  by (auto simp: lahar_build_inst_extensions_def Let_def split: option.splits if_splits)

lemma core_build_instance:
  "lahar_build_instance env h lahar = Some (e, h', lahar') \<Longrightarrow>
   map frame_core (windows lahar') = map frame_core (windows lahar)"
  by (auto simp: lahar_build_instance_def Let_def split: option.splits if_splits)

lemma core_build_early_surface:
  "lahar_build_early_surface env h lahar = Some (e, h', lahar') \<Longrightarrow>
   map frame_core (windows lahar') = map frame_core (windows lahar)"
  using core_build_early_surface_loop [of env 0 "length (windows lahar)" h lahar]
  by (auto simp: lahar_build_early_surface_def)

lemma core_build_physdev:
  "lahar_build_physdev env h lahar = Some (e, h', lahar') \<Longrightarrow>
   map frame_core (windows lahar') = map frame_core (windows lahar)"
  by (auto simp: lahar_build_physdev_def Let_def split: option.splits if_splits)

lemma core_build_device:
  "lahar_build_device env h lahar = Some (e, h', lahar') \<Longrightarrow>
   map frame_core (windows lahar') = map frame_core (windows lahar)"
  by (auto simp: lahar_build_device_def Let_def split: option.splits if_splits)

lemma core_build_swapchain:
  "lahar_build_swapchain env h lahar = Some (e, h', lahar') \<Longrightarrow>
   map frame_core (windows lahar') = map frame_core (windows lahar)"
  by (auto simp: lahar_build_swapchain_def dest!: core_build_swapchain_loop)

lemma core_build_stage:
  assumes f: "\<And>h lahar e h' lahar'. f h lahar = Some (e, h', lahar') \<Longrightarrow>
                map frame_core (windows lahar') = map frame_core (windows lahar)"
    and r: "\<And>e h' lahar'. r = Some (e, h', lahar') \<Longrightarrow>
                map frame_core (windows lahar') = map frame_core (windows lahar0)"
    and res: "build_stage f r = Some (e, h', lahar')"
  shows "map frame_core (windows lahar') = map frame_core (windows lahar0)"
proof (cases r)
  case None
  with res show ?thesis by (simp add: build_stage_def)
next
  case (Some x)
  obtain e1 h1 l1 where x: "x = (e1, h1, l1)" by (cases x)
  from r Some x have l1: "map frame_core (windows l1) = map frame_core (windows lahar0)" by simp
  show ?thesis
  proof (cases "e1 = 0")
    case True
    with res Some x have "f h1 l1 = Some (e, h', lahar')" by (simp add: build_stage_def)
    from f [OF this] l1 show ?thesis by simp
  next
    case False
    with res Some x l1 show ?thesis by (simp add: build_stage_def)
  qed
qed

lemma core_build_before_sync:
  assumes "build_before_sync env h lahar = Some (e, h', lahar')"
  shows "map frame_core (windows lahar') = map frame_core (windows lahar)"
  using assms unfolding build_before_sync_def
  by (elim core_build_stage [rotated 2])
    (erule core_build_swapchain core_build_device core_build_physdev
       core_build_early_surface core_build_instance core_build_inst_extensions)+

lemma max_in_flight_of_core:
  "map frame_core xs = map frame_core ys \<Longrightarrow> map max_in_flight xs = map max_in_flight ys"
proof -
  assume a: "map frame_core xs = map frame_core ys"
  have m: "map max_in_flight zs = map (\<lambda>c. fst (snd (snd c))) (map frame_core zs)" for zs
    by (simp add: frame_core_def)
  show ?thesis
    by (simp only: m a)
qed

text \<open>Every error exit of the body of the swapchain loop carries a non-zero code.\<close>

lemma err_swapchain_prepare:
  "swapchain_prepare r env wi h lahar = Some (Inl (e, h', lahar')) \<Longrightarrow> e \<noteq> 0"
  by (auto simp: swapchain_prepare_def Let_def lahar_err_defs
      split: if_splits option.splits prod.splits list.splits)

lemma err_create_color_views:
  "create_color_views r env wi imgs j n h lahar = Some (Inl (e, h', lahar')) \<Longrightarrow> e \<noteq> 0"
proof (induction n arbitrary: r j h lahar)
  case 0
  then show ?case by auto
next
  case (Suc n)
  from Suc.prems show ?case
    by (auto simp: Let_def lahar_err_defs split: if_splits option.splits list.splits
        dest!: Suc.IH)
qed

lemma err_alloc_attachment_row:
  "alloc_attachment_row r env wi j k n h lahar = Some (Inl (e, h', lahar')) \<Longrightarrow> e \<noteq> 0"
proof (induction n arbitrary: r k h lahar)
  case 0
  then show ?case by auto
next
  case (Suc n)
  from Suc.prems show ?case
    by (auto simp: Let_def lahar_err_defs split: if_splits dest!: Suc.IH)
qed

lemma err_alloc_attachments:
  "alloc_attachments r env wi j n h lahar = Some (Inl (e, h', lahar')) \<Longrightarrow> e \<noteq> 0"
proof (induction n arbitrary: j h lahar)
  case 0
  then show ?case by auto
next
  case (Suc n)
  from Suc.prems show ?case
    by (auto simp: Let_def split: if_splits option.splits sum.splits
        dest!: Suc.IH err_alloc_attachment_row)
qed

lemma err_build_swapchain_window:
  "build_swapchain_window env wi h lahar = Some (Inl (e, h', lahar')) \<Longrightarrow> e \<noteq> 0"
  by (auto simp: build_swapchain_window_def Let_def lahar_err_defs
      split: option.splits sum.splits if_splits
      dest!: err_swapchain_prepare err_create_color_views err_alloc_attachments)

lemma count_build_swapchain_loop:
  "build_swapchain_loop env wi n h lahar = Some (LAHAR_ERR_SUCCESS, h', lahar') \<Longrightarrow>
   wi + n \<le> length (windows lahar) \<Longrightarrow>
   length (windows lahar') = length (windows lahar)
   \<and> (\<forall>i < length (windows lahar).
        desired_img_count (windows lahar' ! i)
          = (if wi \<le> i \<and> i < wi + n \<and> desired_img_count (windows lahar ! i) = 0 then 2
             else desired_img_count (windows lahar ! i)))"
proof (induction n arbitrary: wi h lahar)
  case 0
  then show ?case by simp
next
  case (Suc n)
  from Suc.prems(2) have wi: "wi < length (windows lahar)" by simp
  from Suc.prems(1) obtain h1 lahar1 where
    win: "build_swapchain_window env wi h lahar = Some (Inr (h1, lahar1))"
    and rest: "build_swapchain_loop env (Suc wi) n h1 lahar1 = Some (LAHAR_ERR_SUCCESS, h', lahar')"
    by (auto simp: LAHAR_ERR_SUCCESS_def split: option.splits sum.splits
        dest: err_build_swapchain_window)
  from count_build_swapchain_window [OF win wi]
  have m: "map desired_img_count (windows lahar1)
      = (map desired_img_count (windows lahar))
               [wi := (if desired_img_count (windows lahar ! wi) = 0 then 2
                       else desired_img_count (windows lahar ! wi))]"
    by simp
  from arg_cong [OF m, of length] have len: "length (windows lahar1) = length (windows lahar)"
    by simp
  have nth1: "desired_img_count (windows lahar1 ! i)
      = (if i = wi \<and> desired_img_count (windows lahar ! i) = 0 then 2
         else desired_img_count (windows lahar ! i))" if "i < length (windows lahar)" for i
  proof -
    from that len have "desired_img_count (windows lahar1 ! i) = map desired_img_count (windows lahar1) ! i"
      by simp
    also have "\<dots> = (if i = wi \<and> desired_img_count (windows lahar ! i) = 0 then 2
         else desired_img_count (windows lahar ! i))"
      using that by (cases "i = wi") (simp_all add: m nth_list_update)
    finally show ?thesis .
  qed
  from Suc.prems(2) len have "Suc wi + n \<le> length (windows lahar1)" by simp
  from Suc.IH [OF rest this] len
  have IH: "length (windows lahar') = length (windows lahar)"
    "\<And>i. i < length (windows lahar) \<Longrightarrow>
        desired_img_count (windows lahar' ! i)
          = (if Suc wi \<le> i \<and> i < Suc wi + n \<and> desired_img_count (windows lahar1 ! i) = 0 then 2
             else desired_img_count (windows lahar1 ! i))"
    by simp_all
  show ?case
  proof (intro conjI allI impI)
    show "length (windows lahar') = length (windows lahar)" by (rule IH(1))
  next
    fix i
    assume i: "i < length (windows lahar)"
    show "desired_img_count (windows lahar' ! i)
          = (if wi \<le> i \<and> i < wi + Suc n \<and> desired_img_count (windows lahar ! i) = 0 then 2
             else desired_img_count (windows lahar ! i))"
      using IH(2) [OF i] nth1 [OF i] by (auto split: if_splits)
  qed
qed

lemma count_build_swapchain:
  assumes "lahar_build_swapchain env h lahar = Some (LAHAR_ERR_SUCCESS, h', lahar')"
  shows "map desired_img_count (windows lahar')
           = map (\<lambda>ws. if desired_img_count ws = 0 then 2 else desired_img_count ws)
               (windows lahar)"
proof -
  from assms
  have "build_swapchain_loop env 0 (length (windows lahar)) h lahar
          = Some (LAHAR_ERR_SUCCESS, h', lahar')"
    by (simp add: lahar_build_swapchain_def)
  from count_build_swapchain_loop [OF this]
  have len: "length (windows lahar') = length (windows lahar)"
    and nth: "\<And>i. i < length (windows lahar) \<Longrightarrow>
        desired_img_count (windows lahar' ! i)
          = (if desired_img_count (windows lahar ! i) = 0 then 2
             else desired_img_count (windows lahar ! i))"
    by simp_all
  show ?thesis
    by (rule nth_equalityI) (simp_all add: len nth)
qed

text \<open>
  C7. Registration stores 2 for a \<^verbatim>\<open>desired_img_count\<close> and for a \<^verbatim>\<open>max_in_flight\<close> that the
  configuration leaves 0. On both swapchain paths (first build and recreation) a window's
  \<^verbatim>\<open>desired_img_count\<close> of 0 has become 2 by the time the create-info is ready for
  \<^verbatim>\<open>vkCreateSwapchainKHR\<close>, and the image count requested there is the clamp of the
  normalised count, never 0; so after a successful \<^verbatim>\<open>__lahar_build_swapchain\<close> every window,
  and after a successful recreation the recreated window, holds the normalised count. The
  build stages that run before the synchronisation objects are created leave every window's
  \<^verbatim>\<open>max_in_flight\<close> as registration set it.
\<close>

theorem image_count_and_flight_defaults:
  "(lahar_builder_window_register_ex env h lahar w (Some conf)
        = Some (LAHAR_ERR_SUCCESS, h', lahar') \<longrightarrow>
      windows lahar' = windows lahar @ [last (windows lahar')]
      \<and> window (last (windows lahar')) = w
      \<and> desired_img_count (last (windows lahar'))
          = (if cfg_desired_swap_size conf = 0 then 2 else cfg_desired_swap_size conf)
      \<and> max_in_flight (last (windows lahar'))
          = (if cfg_max_in_flight conf = 0 then 2 else cfg_max_in_flight conf))
   \<and> (wi < length (windows lahar)
        \<and> swapchain_prepare recreate env wi h lahar = Some (Inr (ci, h', lahar')) \<longrightarrow>
      desired_img_count (windows lahar' ! wi)
        = (if desired_img_count (windows lahar ! wi) = 0 then 2
           else desired_img_count (windows lahar ! wi))
      \<and> (\<exists>caps. ci_minImageCount ci
             = clamp_image_count caps (if desired_img_count (windows lahar ! wi) = 0 then 2
                                       else desired_img_count (windows lahar ! wi)))
      \<and> ci_minImageCount ci \<noteq> 0)
   \<and> (lahar_build_swapchain env h lahar = Some (LAHAR_ERR_SUCCESS, h', lahar') \<longrightarrow>
      map desired_img_count (windows lahar')
        = map (\<lambda>ws. if desired_img_count ws = 0 then 2 else desired_img_count ws)
            (windows lahar))
   \<and> (lahar_default_resizer env h lahar w = Some (LAHAR_ERR_SUCCESS, h', lahar')
        \<and> window_state_index (windows lahar) w = Some wi \<longrightarrow>
      desired_img_count (windows lahar' ! wi)
        = (if desired_img_count (windows lahar ! wi) = 0 then 2
           else desired_img_count (windows lahar ! wi)))
   \<and> (build_before_sync env h lahar = Some (e, h', lahar') \<longrightarrow>
      map max_in_flight (windows lahar') = map max_in_flight (windows lahar))"
proof (intro conjI impI; (elim conjE)?)
  assume "lahar_builder_window_register_ex env h lahar w (Some conf)
            = Some (LAHAR_ERR_SUCCESS, h', lahar')"
  from register_ex_defaults [OF this]
  show "windows lahar' = windows lahar @ [last (windows lahar')]"
    "window (last (windows lahar')) = w"
    "desired_img_count (last (windows lahar'))
          = (if cfg_desired_swap_size conf = 0 then 2 else cfg_desired_swap_size conf)"
    "max_in_flight (last (windows lahar'))
          = (if cfg_max_in_flight conf = 0 then 2 else cfg_max_in_flight conf)"
    by blast+
next
  assume wi: "wi < length (windows lahar)"
    and prep: "swapchain_prepare recreate env wi h lahar = Some (Inr (ci, h', lahar'))"
  from count_swapchain_prepare [OF prep wi]
  have m: "map desired_img_count (windows lahar')
      = (map desired_img_count (windows lahar))
          [wi := (if desired_img_count (windows lahar ! wi) = 0 then 2
                  else desired_img_count (windows lahar ! wi))]"
    by simp
  from arg_cong [OF m, of length] have len: "length (windows lahar') = length (windows lahar)"
    by simp
  from wi len have "desired_img_count (windows lahar' ! wi)
      = map desired_img_count (windows lahar') ! wi"
    by simp
  with wi show n: "desired_img_count (windows lahar' ! wi)
      = (if desired_img_count (windows lahar ! wi) = 0 then 2
         else desired_img_count (windows lahar ! wi))"
    by (simp add: m)
  from create_info_swapchain_prepare [OF prep wi]
  show c: "\<exists>caps. ci_minImageCount ci
             = clamp_image_count caps (if desired_img_count (windows lahar ! wi) = 0 then 2
                                       else desired_img_count (windows lahar ! wi))" .
  then obtain caps where "ci_minImageCount ci
      = clamp_image_count caps (if desired_img_count (windows lahar ! wi) = 0 then 2
                                else desired_img_count (windows lahar ! wi))" ..
  moreover have "(if desired_img_count (windows lahar ! wi) = 0 then 2
      else desired_img_count (windows lahar ! wi)) \<noteq> 0"
    by simp
  ultimately show "ci_minImageCount ci \<noteq> 0"
    by (simp only: clamp_image_count_nonzero not_False_eq_True)
next
  assume "lahar_build_swapchain env h lahar = Some (LAHAR_ERR_SUCCESS, h', lahar')"
  then show "map desired_img_count (windows lahar')
        = map (\<lambda>ws. if desired_img_count ws = 0 then 2 else desired_img_count ws)
            (windows lahar)"
    by (rule count_build_swapchain)
next
  assume r: "lahar_default_resizer env h lahar w = Some (LAHAR_ERR_SUCCESS, h', lahar')"
    and idx: "window_state_index (windows lahar) w = Some wi"
  from idx have wi: "wi < length (windows lahar)"
    using window_state_index_SomeD by blast
  note m = count_default_resizer [OF r idx]
  from arg_cong [OF m, of length] have len: "length (windows lahar') = length (windows lahar)"
    by simp
  from wi len have "desired_img_count (windows lahar' ! wi)
      = map desired_img_count (windows lahar') ! wi"
    by simp
  with wi show "desired_img_count (windows lahar' ! wi)
      = (if desired_img_count (windows lahar ! wi) = 0 then 2
         else desired_img_count (windows lahar ! wi))"
    by (simp add: m)
next
  assume "build_before_sync env h lahar = Some (e, h', lahar')"
  from core_build_before_sync [OF this]
  show "map max_in_flight (windows lahar') = map max_in_flight (windows lahar)"
    by (rule max_in_flight_of_core)
qed

theorem image_count_and_flight_defaults_witness:
  "lahar_builder_window_register_ex quiet_env [] zero_lahar 1 (Some demo_config)
     = Some (LAHAR_ERR_SUCCESS, [WindowGetSize 1, Malloc], demo_registered)
   \<and> cfg_desired_swap_size demo_config = 0 \<and> cfg_max_in_flight demo_config = 0
   \<and> desired_img_count (last (windows demo_registered)) = 2
   \<and> max_in_flight (last (windows demo_registered)) = 2
   \<and> desired_img_count (windows demo_zero_count ! 0) = 0
   \<and> swapchain_prepare False quiet_env 0 [] demo_zero_count
       = Some (Inr (demo_create_info,
                    [WindowGetSize 1, GetPhysicalDeviceSurfaceCapabilitiesKHR 5 10], demo_lahar))
   \<and> swapchain_prepare True quiet_env 0 [] demo_zero_count
       = Some (Inr (demo_create_info,
                    [WindowGetSize 1, GetPhysicalDeviceSurfaceCapabilitiesKHR 5 10], demo_lahar))
   \<and> desired_img_count (windows demo_lahar ! 0) = 2
   \<and> ci_minImageCount demo_create_info \<noteq> 0
   \<and> result_code (lahar_build_swapchain quiet_env [] demo_zero_count) = Some LAHAR_ERR_SUCCESS
   \<and> result_state (lahar_build_swapchain quiet_env [] demo_zero_count) = Some demo_lahar
   \<and> result_code (lahar_default_resizer quiet_env [] demo_zero_count 1) = Some LAHAR_ERR_SUCCESS
   \<and> result_state (lahar_default_resizer quiet_env [] demo_zero_count 1) = Some demo_lahar
   \<and> map desired_img_count (windows demo_lahar) = [2]
   \<and> result_code (build_before_sync quiet_env [] demo_registered) = Some LAHAR_ERR_SUCCESS
   \<and> map_option (\<lambda>l. map max_in_flight (windows l))
        (result_state (build_before_sync quiet_env [] demo_registered)) = Some [2]"
proof -
  have reg: "lahar_builder_window_register_ex quiet_env [] zero_lahar 1 (Some demo_config)
     = Some (LAHAR_ERR_SUCCESS, [WindowGetSize 1, Malloc], demo_registered)"
    by code_simp
  have cfg: "cfg_desired_swap_size demo_config = 0" "cfg_max_in_flight demo_config = 0"
    by (simp_all add: demo_config_def)
  have zero: "desired_img_count (windows demo_zero_count ! 0) = 0"
    "(0::nat) < length (windows demo_zero_count)"
    "window_state_index (windows demo_zero_count) 1 = Some 0"
    "windows demo_zero_count = [demo_window_state\<lparr>desired_img_count := 0\<rparr>]"
    by (simp_all add: demo_zero_count_def set_window_state_def demo_lahar_def
        demo_window_state_def)
  have prepF: "swapchain_prepare False quiet_env 0 [] demo_zero_count
       = Some (Inr (demo_create_info,
                    [WindowGetSize 1, GetPhysicalDeviceSurfaceCapabilitiesKHR 5 10], demo_lahar))"
    by code_simp
  have prepT: "swapchain_prepare True quiet_env 0 [] demo_zero_count
       = Some (Inr (demo_create_info,
                    [WindowGetSize 1, GetPhysicalDeviceSurfaceCapabilitiesKHR 5 10], demo_lahar))"
    by code_simp
  have bc: "result_code (lahar_build_swapchain quiet_env [] demo_zero_count) = Some LAHAR_ERR_SUCCESS"
    and bs: "result_state (lahar_build_swapchain quiet_env [] demo_zero_count) = Some demo_lahar"
    by code_simp+
  then obtain tb where
    built: "lahar_build_swapchain quiet_env [] demo_zero_count = Some (LAHAR_ERR_SUCCESS, tb, demo_lahar)"
    by (cases "lahar_build_swapchain quiet_env [] demo_zero_count")
      (auto simp: result_code_def result_state_def)
  have rc: "result_code (lahar_default_resizer quiet_env [] demo_zero_count 1) = Some LAHAR_ERR_SUCCESS"
    and rs: "result_state (lahar_default_resizer quiet_env [] demo_zero_count 1) = Some demo_lahar"
    by code_simp+
  then obtain tr where
    resized: "lahar_default_resizer quiet_env [] demo_zero_count 1
                = Some (LAHAR_ERR_SUCCESS, tr, demo_lahar)"
    by (cases "lahar_default_resizer quiet_env [] demo_zero_count 1")
      (auto simp: result_code_def result_state_def)
  have sc: "result_code (build_before_sync quiet_env [] demo_registered) = Some LAHAR_ERR_SUCCESS"
    by code_simp
  then obtain ts ls where
    before: "build_before_sync quiet_env [] demo_registered = Some (LAHAR_ERR_SUCCESS, ts, ls)"
    by (cases "build_before_sync quiet_env [] demo_registered") (auto simp: result_code_def)
  have regd: "map max_in_flight (windows demo_registered) = [2]"
    by (simp add: demo_registered_def)
  note t = image_count_and_flight_defaults
  from t [of quiet_env "[]" zero_lahar 1 demo_config "[WindowGetSize 1, Malloc]" demo_registered]
    reg cfg
  have w1: "desired_img_count (last (windows demo_registered)) = 2"
    "max_in_flight (last (windows demo_registered)) = 2"
    by simp_all
  from t [of quiet_env "[]" demo_zero_count _ _ "[WindowGetSize 1, GetPhysicalDeviceSurfaceCapabilitiesKHR 5 10]"
      demo_lahar 0 False demo_create_info] prepF zero
  have w2: "desired_img_count (windows demo_lahar ! 0) = 2" "ci_minImageCount demo_create_info \<noteq> 0"
    by simp_all
  from t [of quiet_env "[]" demo_zero_count _ _ "[WindowGetSize 1, GetPhysicalDeviceSurfaceCapabilitiesKHR 5 10]"
      demo_lahar 0 True demo_create_info] prepT zero
  have w2': "desired_img_count (windows demo_lahar ! 0) = 2"
    by simp
  from t [of quiet_env "[]" demo_zero_count _ _ tb demo_lahar] built zero
  have w3: "map desired_img_count (windows demo_lahar) = [2]"
    by simp
  from t [of quiet_env "[]" demo_zero_count 1 _ tr demo_lahar 0] resized zero
  have w4: "desired_img_count (windows demo_lahar ! 0) = 2"
    by simp
  from t [of quiet_env "[]" demo_registered _ _ ts ls _ _ _ LAHAR_ERR_SUCCESS] before regd
  have w5: "map max_in_flight (windows ls) = [2]"
    by simp
  from before w5
  have w5': "map_option (\<lambda>l. map max_in_flight (windows l))
        (result_state (build_before_sync quiet_env [] demo_registered)) = Some [2]"
    by (simp add: result_state_def)
  from reg cfg zero(1) prepF prepT bc bs rc rs sc w1 w2 w3 w5'
  show ?thesis
    by simp
qed

section \<open>The default scorer and the selection of the device\<close>



















lemma queue_family_loop_physdev:
  "physdev (fst (queue_family_loop env wss j fams h d)) = physdev d"
  by (induction fams arbitrary: j h d) (simp_all add: Let_def)






lemma queue_family_loop_heaps:
  "memoryHeaps (fst (queue_family_loop env wss j fams h d)) = memoryHeaps d"
  by (induction fams arbitrary: j h d) (simp_all add: Let_def)

lemma gathered_memory_heaps_empty:
  "memoryHeaps (fst (gather_device_info env lahar dev h)) = []"
  by (simp add: gather_device_info_def Let_def queue_family_loop_heaps zero_device_info_def
      split: list.splits)







end
